theory Spec2Isabelle
  imports Main "HOL-Library.Sublist"
begin

section \<open>JavaScript values used by the generation service\<close>

text \<open>
  A JavaScript string is modelled as a \<^typ>\<open>string\<close>: each \<^typ>\<open>char\<close> stands for one
  code unit below 256. Positions and lengths are natural numbers; the result \<open>-1\<close> of
  \<^verbatim>\<open>indexOf\<close> is \<^term>\<open>None\<close>.
\<close>

definition startsWith :: "string \<Rightarrow> string \<Rightarrow> bool" where
  "startsWith s p = prefix p s"

fun indexOf :: "string \<Rightarrow> string \<Rightarrow> nat option" where
  "indexOf [] m = (if m = [] then Some 0 else None)"
| "indexOf (c # cs) m =
     (if prefix m (c # cs) then Some 0 else map_option Suc (indexOf cs m))"

definition str_includes :: "string \<Rightarrow> string \<Rightarrow> bool" where
  "str_includes s m = (indexOf s m \<noteq> None)"

text \<open>
  \<^verbatim>\<open>s.substring(a, b)\<close> clamps both arguments to the length and swaps them when the
  first is the larger one; \<^verbatim>\<open>s.substring(a)\<close> runs to the end.
\<close>

definition substring :: "string \<Rightarrow> nat \<Rightarrow> nat \<Rightarrow> string" where
  "substring s a b =
     (let a' = min a (length s); b' = min b (length s);
          lo = min a' b'; hi = max a' b'
      in take (hi - lo) (drop lo s))"

definition substringFrom :: "string \<Rightarrow> nat \<Rightarrow> string" where
  "substringFrom s a = drop a s"

text \<open>
  White space removed by \<^verbatim>\<open>trim\<close>: tab, line feed, vertical tab, form feed, carriage
  return, space and no-break space (the white space and line terminators below 256).
\<close>

definition isWhiteSpace :: "char \<Rightarrow> bool" where
  "isWhiteSpace c = (c \<in> set [CHR 0x09, CHR 0x0A, CHR 0x0B, CHR 0x0C, CHR 0x0D, CHR 0x20, CHR 0xA0])"

definition trim :: "string \<Rightarrow> string" where
  "trim s = rev (dropWhile isWhiteSpace (rev (dropWhile isWhiteSpace s)))"

text \<open>
  What a \<^verbatim>\<open>throw\<close> carries. \<open>Error m\<close> is any instance of \<^verbatim>\<open>Error\<close> other than the
  service's own class (a \<^verbatim>\<open>TypeError\<close>, a \<^verbatim>\<open>SyntaxError\<close>, an SDK error) with message
  \<open>m\<close>; \<open>ApiError m q\<close> is \<^verbatim>\<open>class ApiError extends Error\<close> with its \<^verbatim>\<open>isQuotaError\<close>
  flag; \<open>NonError j s\<close> is a thrown value that is not an \<^verbatim>\<open>Error\<close>, given by what
  \<^verbatim>\<open>JSON.stringify\<close> and \<^verbatim>\<open>String\<close> make of it.
\<close>

datatype js_error =
    Error string
  | ApiError string bool
  | NonError string string

text \<open>\<^verbatim>\<open>error instanceof Error ? error.message : JSON.stringify(error)\<close>\<close>

fun rawMessage :: "js_error \<Rightarrow> string" where
  "rawMessage (Error m) = m"
| "rawMessage (ApiError m q) = m"
| "rawMessage (NonError j s) = j"

text \<open>\<^verbatim>\<open>error instanceof Error ? error.message : String(error)\<close>\<close>

fun errorMessageOrString :: "js_error \<Rightarrow> string" where
  "errorMessageOrString (Error m) = m"
| "errorMessageOrString (ApiError m q) = m"
| "errorMessageOrString (NonError j s) = s"

text \<open>\<^verbatim>\<open>error instanceof ApiError && error.isQuotaError\<close>\<close>

fun isQuotaFlagged :: "js_error \<Rightarrow> bool" where
  "isQuotaFlagged (ApiError m q) = q"
| "isQuotaFlagged _ = False"

section \<open>Encoding and decoding of inline images\<close>

record inlineData =
  mimeType :: string
  data :: string

record part =
  inlineData :: "inlineData option"
  partText :: "string option"

definition base64Marker :: string where
  "base64Marker = '';base64,''"

definition formatErrorMessage :: "string \<Rightarrow> string" where
  "formatErrorMessage errorContext =
     ''Invalid image data URL format for '' @ errorContext
       @ ''. Expected '' @ [CHR 0x27] @ ''data:image/...;base64,...'' @ [CHR 0x27]"

definition dataUrlToGenaiPart :: "string \<Rightarrow> string \<Rightarrow> js_error + part" where
  "dataUrlToGenaiPart imageDataUrl errorContext =
     (case indexOf imageDataUrl base64Marker of
        None \<Rightarrow> Inl (Error (formatErrorMessage errorContext))
      | Some base64MarkerIndex \<Rightarrow>
          if \<not> startsWith imageDataUrl ''data:image/''
          then Inl (Error (formatErrorMessage errorContext))
          else
            let mimeType = substring imageDataUrl 5 base64MarkerIndex;
                base64Data = substringFrom imageDataUrl (base64MarkerIndex + length base64Marker)
            in Inr \<lparr>inlineData = Some \<lparr>mimeType = mimeType, data = base64Data\<rparr>,
                    partText = None\<rparr>)"

section \<open>Response extraction\<close>

text \<open>
  A service response: the parts of its first candidate (\<^term>\<open>None\<close> when any link of
  \<^verbatim>\<open>response.candidates?.[0]?.content?.parts\<close> is undefined) and what the \<^verbatim>\<open>text\<close>
  accessor gives (\<^term>\<open>None\<close> for \<^verbatim>\<open>undefined\<close>). A part that carries inline data
  carries both its MIME type and its payload, as strings.
\<close>

record response =
  candidateParts :: "part list option"
  responseText :: "string option"

definition processGeminiResponse :: "response \<Rightarrow> js_error + string" where
  \<open>processGeminiResponse response =
     (let imagePartFromResponse =
            (case candidateParts response of
               None \<Rightarrow> None
             | Some parts \<Rightarrow> find (\<lambda>part. inlineData part \<noteq> None) parts)
      in case Option.bind imagePartFromResponse inlineData of
           Some d \<Rightarrow> Inr (''data:'' @ mimeType d @ '';base64,'' @ data d)
         | None \<Rightarrow>
             let textResponse = responseText response
             in Inl (Error (''The AI model responded with text instead of an image: "''
                   @ (case textResponse of
                        None \<Rightarrow> ''No text response received.''
                      | Some t \<Rightarrow> if t = [] then ''No text response received.'' else t)
                   @ ''"'')))\<close>

section \<open>Effects\<close>

text \<open>
  What a function does besides returning is recorded as a list of events, oldest first:
  a request to a content model (named), the start of a video operation, a poll of it, a
  timer of so many milliseconds, and a fetch of a URL.
\<close>

datatype event =
    GenerateContent string
  | GenerateVideos
  | GetVideosOperation
  | Sleep nat
  | Fetch string

fun isNetworkCall :: "event \<Rightarrow> bool" where
  "isNetworkCall (Sleep ms) = False"
| "isNetworkCall _ = True"

text \<open>The number of network requests in a log, and the timers in it, in order.\<close>

definition networkCalls :: "event list \<Rightarrow> nat" where
  "networkCalls log = length (filter isNetworkCall log)"

fun sleepsOf :: "event list \<Rightarrow> nat list" where
  "sleepsOf [] = []"
| "sleepsOf (Sleep ms # es) = ms # sleepsOf es"
| "sleepsOf (e # es) = sleepsOf es"

fun fetchesOf :: "event list \<Rightarrow> string list" where
  "fetchesOf [] = []"
| "fetchesOf (Fetch target # es) = target # fetchesOf es"
| "fetchesOf (e # es) = fetchesOf es"

section \<open>Retry wrapper\<close>

text \<open>
  The external content model is a parameter: \<open>generateContent parts k\<close> is the outcome of
  the \<open>k\<close>-th request (\<open>k = 1, 2, 3\<close>) the wrapper makes with these parts.
\<close>

type_synonym contentService = "part list \<Rightarrow> nat \<Rightarrow> js_error + response"

definition maxRetries :: nat where
  "maxRetries = 3"

definition initialDelay :: nat where
  "initialDelay = 1000"

definition isInternalError :: "string \<Rightarrow> bool" where
  \<open>isInternalError errorMessage =
     (str_includes errorMessage ''"code":500'' \<or> str_includes errorMessage ''INTERNAL'')\<close>

function callGeminiWithRetry_loop ::
  "contentService \<Rightarrow> part list \<Rightarrow> part \<Rightarrow> nat \<Rightarrow> (js_error + response) \<times> event list" where
  "callGeminiWithRetry_loop generateContent imageParts textPart attempt =
     (if attempt \<le> maxRetries then
        (case generateContent (imageParts @ [textPart]) attempt of
           Inr response \<Rightarrow> (Inr response, [GenerateContent ''gemini-2.5-flash-image''])
         | Inl error \<Rightarrow>
             let errorMessage = rawMessage error
             in if isInternalError errorMessage \<and> attempt < maxRetries then
                  let delay = initialDelay * 2 ^ (attempt - 1);
                      (result, log) =
                        callGeminiWithRetry_loop generateContent imageParts textPart (attempt + 1)
                  in (result, GenerateContent ''gemini-2.5-flash-image'' # Sleep delay # log)
                else (Inl error, [GenerateContent ''gemini-2.5-flash-image'']))
      else (Inl (Error ''Gemini API call failed after all retries.''), []))"
  by pat_completeness auto
termination
  by (relation "measure (\<lambda>(generateContent, imageParts, textPart, attempt). Suc maxRetries - attempt)")
     auto

declare callGeminiWithRetry_loop.simps [simp del]

definition callGeminiWithRetry ::
  "contentService \<Rightarrow> part list \<Rightarrow> part \<Rightarrow> (js_error + response) \<times> event list" where
  "callGeminiWithRetry generateContent imageParts textPart =
     callGeminiWithRetry_loop generateContent imageParts textPart 1"

section \<open>Failure classification\<close>

text \<open>
  \<^verbatim>\<open>rawErrorMessage.includes('429') || rawErrorMessage.includes('RESOURCE_EXHAUSTED')\<close>,
  the test every generation function applies to a caught failure.
\<close>

definition quotaSignature :: "string \<Rightarrow> bool" where
  "quotaSignature rawErrorMessage =
     (str_includes rawErrorMessage ''429'' \<or> str_includes rawErrorMessage ''RESOURCE_EXHAUSTED'')"

text \<open>
  Reading a property of \<^verbatim>\<open>undefined\<close> throws a \<^verbatim>\<open>TypeError\<close>; the message is the one
  V8 gives for \<^verbatim>\<open>response.text.trim()\<close>.
\<close>

definition undefinedTrimError :: js_error where
  "undefinedTrimError =
     Error (''Cannot read properties of undefined (reading '' @ [CHR 0x27] @ ''trim'' @ [CHR 0x27] @ '')'')"

text \<open>\<^verbatim>\<open>xs.map(f)\<close> for an \<open>f\<close> that may throw: the first throw ends the map.\<close>

fun mapThrow :: "('a \<Rightarrow> js_error + 'b) \<Rightarrow> 'a list \<Rightarrow> js_error + 'b list" where
  "mapThrow f [] = Inr []"
| "mapThrow f (x # xs) =
     (case f x of
        Inl e \<Rightarrow> Inl e
      | Inr y \<Rightarrow> (case mapThrow f xs of Inl e \<Rightarrow> Inl e | Inr ys \<Rightarrow> Inr (y # ys)))"

fun join :: "string \<Rightarrow> string list \<Rightarrow> string" where
  "join sep [] = []"
| "join sep [x] = x"
| "join sep (x # y # ys) = x @ sep @ join sep (y # ys)"

definition newline :: string where
  "newline = [CHR 0x0A]"

section \<open>Scenario generation\<close>

datatype json =
    JNull
  | JBool bool
  | JNumber string
  | JString string
  | JArray "json list"
  | JObject "(string \<times> json) list"

text \<open>\<^verbatim>\<open>typeof s === 'string'\<close>, and the string such a value is.\<close>

fun isString :: "json \<Rightarrow> bool" where
  "isString (JString s) = True"
| "isString _ = False"

fun stringOf :: "json \<Rightarrow> string" where
  "stringOf (JString s) = s"
| "stringOf _ = []"

definition fallbackScenarios :: "string list" where
  "fallbackScenarios =
     [''A mysterious figure in a neon-lit alley at midnight.'',
      ''A surreal portrait of an artist lost in their creative process.'',
      ''A whimsical character discovering a hidden, enchanted forest.'',
      ''A vintage-style photograph of a lone traveler at a forgotten train station.'',
      ''A high-fashion concept shot with dramatic, colorful lighting and abstract shapes.'']"

definition scenarioPromptWithIdea :: "string list \<Rightarrow> string" where
  \<open>scenarioPromptWithIdea inputs = join newline
     [''You are a creative director for a photoshoot. You will be given descriptions for a photoshoot. Your task is to expand on the user's idea and generate 5 distinct, creative, and cinematic scene descriptions for a portrait.'',
      '''',
      ''**Inputs:**'',
      join newline inputs,
      '''',
      ''**Instructions:**'',
      ''1. Use the "User's Core Idea" as the primary theme for all scenes.'',
      ''2. Weave in the other provided descriptions to create 5 cohesive variations of the user's idea.'',
      ''3. If a person description is provided, their identity and core features should be the main focus.'',
      ''4. If an object is described, it should be integrated naturally into each scene.'',
      ''5. If a style is described, the overall style, lighting, and mood should be consistent with it.'',
      ''6. Generate exactly 5 variations. Each variation should describe a slightly different composition, angle, or interaction related to the user's core idea.'',
      ''7. Output the 5 scene descriptions as a JSON array of strings. Do not include any other text, explanation, or markdown formatting.'',
      '''',
      ''**Example Output Format:**'',
      ''["Variation 1 based on user idea...","Variation 2 based on user idea...","Variation 3 based on user idea...","Variation 4 based on user idea...","Variation 5 based on user idea..."]'']\<close>

definition scenarioPromptFromDescriptions :: "string list \<Rightarrow> string" where
  \<open>scenarioPromptFromDescriptions inputs = join newline
     [''You are a creative director for a photoshoot. You will be given descriptions for a photoshoot. Your task is to generate 5 distinct, creative, and cinematic scene descriptions for a portrait.'',
      '''',
      ''**Inputs:**'',
      join newline inputs,
      '''',
      ''**Instructions:**'',
      ''1. Combine all provided inputs logically to create a cohesive scene.'',
      ''2. If a person description is provided, their identity and core features should be the main focus.'',
      ''3. If an object is described, it should be integrated naturally into the scene.'',
      ''4. If a style is described, the overall style, lighting, and mood should be consistent with it.'',
      ''5. Generate exactly 5 variations. Each variation should describe a slightly different composition, angle, or interaction.'',
      ''6. Output the 5 scene descriptions as a JSON array of strings. Do not include any other text, explanation, or markdown formatting.'',
      '''',
      ''**Example Output Format:**'',
      ''["A scene of the person leaning on the object, with a city background at dusk, reflecting the moody lighting.","A close-up of the person interacting with the object, with dramatic side-lighting.","A full-body shot of the person standing near the object in a grand, opulent room.","An action shot of the person using the object, with motion blur and dynamic angles.","A candid moment of the person looking away from the camera, with the object subtly in the background."]'']\<close>

text \<open>Removal of a fenced code block around the trimmed response text.\<close>

definition stripFence :: "string \<Rightarrow> string" where
  "stripFence jsonText =
     (if startsWith jsonText ''```json'' then trim (substring jsonText 7 (length jsonText - 3))
      else if startsWith jsonText ''```'' then trim (substring jsonText 3 (length jsonText - 3))
      else jsonText)"

text \<open>
  The body of the \<^verbatim>\<open>try\<close> block. The text model (\<open>generateContent prompt\<close> is the outcome
  of the one request) and \<^verbatim>\<open>JSON.parse\<close> are parameters.
\<close>

definition generateScenarios_try ::
  "(string \<Rightarrow> js_error + response) \<Rightarrow> (string \<Rightarrow> js_error + json) \<Rightarrow> string
     \<Rightarrow> js_error + string list" where
  "generateScenarios_try generateContent JSON_parse prompt =
     (case generateContent prompt of
        Inl e \<Rightarrow> Inl e
      | Inr response \<Rightarrow>
          (case responseText response of
             None \<Rightarrow> Inl undefinedTrimError
           | Some text \<Rightarrow>
               let jsonText = stripFence (trim text)
               in case JSON_parse jsonText of
                    Inl e \<Rightarrow> Inl e
                  | Inr scenarios \<Rightarrow>
                      (case scenarios of
                         JArray xs \<Rightarrow>
                           if length xs = 0 \<or> \<not> list_all isString xs
                           then Inl (Error ''AI did not return a valid array of scenario strings.'')
                           else Inr (take 5 (map stringOf xs))
                       | _ \<Rightarrow> Inl (Error ''AI did not return a valid array of scenario strings.''))))"

definition scenarioInputs :: "string \<Rightarrow> string \<Rightarrow> string \<Rightarrow> string list" where
  \<open>scenarioInputs personDesc objectDesc styleDesc =
     (if personDesc \<noteq> [] then [''- Person Description: "'' @ personDesc @ ''"''] else [])
     @ (if objectDesc \<noteq> [] then [''- Object Description: "'' @ objectDesc @ ''"''] else [])
     @ (if styleDesc \<noteq> [] then [''- Style Description: "'' @ styleDesc @ ''"''] else [])\<close>

text \<open>\<^verbatim>\<open>userPrompt && userPrompt.trim().length > 0\<close>, for an optional \<open>userPrompt\<close>.\<close>

definition hasUserPrompt :: "string option \<Rightarrow> bool" where
  "hasUserPrompt userPrompt =
     (case userPrompt of
        None \<Rightarrow> False
      | Some u \<Rightarrow> u \<noteq> [] \<and> length (trim u) > 0)"

text \<open>How a template literal renders an optional string.\<close>

definition templateText :: "string option \<Rightarrow> string" where
  "templateText v = (case v of None \<Rightarrow> ''undefined'' | Some s \<Rightarrow> s)"

definition scenarioPrompt :: "string list \<Rightarrow> string option \<Rightarrow> string" where
  \<open>scenarioPrompt inputs userPrompt =
     (if hasUserPrompt userPrompt
      then scenarioPromptWithIdea
             (inputs @ [''- User's Core Idea: "'' @ templateText userPrompt @ ''"''])
      else scenarioPromptFromDescriptions inputs)\<close>

definition generateScenarios ::
  "(string \<Rightarrow> js_error + response) \<Rightarrow> (string \<Rightarrow> js_error + json)
     \<Rightarrow> string \<Rightarrow> string \<Rightarrow> string \<Rightarrow> string option
     \<Rightarrow> (js_error + string list) \<times> event list" where
  "generateScenarios generateContent JSON_parse personDesc objectDesc styleDesc userPrompt =
     (let inputs = scenarioInputs personDesc objectDesc styleDesc
      in if length inputs = 0 \<and> \<not> hasUserPrompt userPrompt then (Inr fallbackScenarios, [])
         else
           let prompt = scenarioPrompt inputs userPrompt
           in case generateScenarios_try generateContent JSON_parse prompt of
                Inr scenarios \<Rightarrow> (Inr scenarios, [GenerateContent ''gemini-2.5-flash''])
              | Inl error \<Rightarrow>
                  let rawErrorMessage = rawMessage error
                  in if quotaSignature rawErrorMessage
                     then (Inl (ApiError ''Failed to generate creative ideas due to API usage limits.'' True),
                           [GenerateContent ''gemini-2.5-flash''])
                     else (Inl (ApiError (''The AI failed to generate creative ideas. Details: ''
                                            @ rawErrorMessage) False),
                           [GenerateContent ''gemini-2.5-flash'']))"

section \<open>Image, meme and analysis generation\<close>

record imageSet =
  personImages :: "string list"
  productImages :: "string list"
  styleImages :: "string list"

definition textPartOf :: "string \<Rightarrow> part" where
  "textPartOf prompt = \<lparr>inlineData = None, partText = Some prompt\<rparr>"

definition generateStyledImage_try ::
  "contentService \<Rightarrow> part list \<Rightarrow> part \<Rightarrow> (js_error + string) \<times> event list" where
  "generateStyledImage_try generateContent allImageParts textPart =
     (case callGeminiWithRetry generateContent allImageParts textPart of
        (Inl e, log) \<Rightarrow> (Inl e, log)
      | (Inr response, log) \<Rightarrow> (processGeminiResponse response, log))"

definition generateStyledImage ::
  "contentService \<Rightarrow> imageSet \<Rightarrow> string \<Rightarrow> (js_error + string) \<times> event list" where
  "generateStyledImage generateContent images prompt =
     (case mapThrow (\<lambda>url. dataUrlToGenaiPart url ''Person Image'') (personImages images) of
        Inl e \<Rightarrow> (Inl e, [])
      | Inr personParts \<Rightarrow>
     (case mapThrow (\<lambda>url. dataUrlToGenaiPart url ''Product Image'') (productImages images) of
        Inl e \<Rightarrow> (Inl e, [])
      | Inr productParts \<Rightarrow>
     (case mapThrow (\<lambda>url. dataUrlToGenaiPart url ''Style Image'') (styleImages images) of
        Inl e \<Rightarrow> (Inl e, [])
      | Inr styleParts \<Rightarrow>
          let allImageParts = personParts @ productParts @ styleParts;
              textPart = textPartOf prompt
          in case generateStyledImage_try generateContent allImageParts textPart of
               (Inr url, log) \<Rightarrow> (Inr url, log)
             | (Inl error, log) \<Rightarrow>
                 let rawErrorMessage = rawMessage error
                 in if quotaSignature rawErrorMessage
                    then (Inl (ApiError ''Image generation failed due to API usage limits. Please check your quota in Google AI Studio.'' True), log)
                    else (Inl (ApiError (''The AI model failed to generate an image. Details: ''
                                           @ rawErrorMessage) False), log))))"

definition memeInstruction :: "string \<Rightarrow> string" where
  \<open>memeInstruction memeText =
     ''A meme of the person in the image. Add the text "'' @ memeText
       @ ''" to the bottom of the image in a bold, white font with a black outline, similar to the Impact font used in classic memes. Do not alter the original image in any other way. Output the final image.''\<close>

definition generateMemeImage_try ::
  "contentService \<Rightarrow> part \<Rightarrow> part \<Rightarrow> (js_error + string) \<times> event list" where
  "generateMemeImage_try generateContent imagePart textPart =
     (case callGeminiWithRetry generateContent [imagePart] textPart of
        (Inl e, log) \<Rightarrow> (Inl e, log)
      | (Inr response, log) \<Rightarrow> (processGeminiResponse response, log))"

definition generateMemeImage ::
  "contentService \<Rightarrow> string \<Rightarrow> string \<Rightarrow> (js_error + string) \<times> event list" where
  "generateMemeImage generateContent imageDataUrl memeText =
     (case dataUrlToGenaiPart imageDataUrl ''Meme Source Image'' of
        Inl e \<Rightarrow> (Inl e, [])
      | Inr imagePart \<Rightarrow>
          let textPart = textPartOf (memeInstruction memeText)
          in case generateMemeImage_try generateContent imagePart textPart of
               (Inr url, log) \<Rightarrow> (Inr url, log)
             | (Inl error, log) \<Rightarrow>
                 let rawErrorMessage = rawMessage error
                 in if quotaSignature rawErrorMessage
                    then (Inl (ApiError ''Meme generation failed due to API usage limits.'' True), log)
                    else (Inl (ApiError (''The AI model failed to generate the meme. Details: ''
                                           @ rawErrorMessage) False), log))"

text \<open>
  Image analysis makes one request to the text model, without the retry wrapper:
  \<open>generateContent parts\<close> is its outcome.
\<close>

definition analyzeImageContent_try ::
  "(part list \<Rightarrow> js_error + response) \<Rightarrow> part list \<Rightarrow> part \<Rightarrow> js_error + string" where
  "analyzeImageContent_try generateContent imageParts textPart =
     (case generateContent (imageParts @ [textPart]) of
        Inl e \<Rightarrow> Inl e
      | Inr response \<Rightarrow>
          (case responseText response of
             None \<Rightarrow> Inl undefinedTrimError
           | Some text \<Rightarrow> Inr (trim text)))"

definition analyzeImageContent ::
  "(part list \<Rightarrow> js_error + response) \<Rightarrow> string list \<Rightarrow> string
     \<Rightarrow> (js_error + string) \<times> event list" where
  "analyzeImageContent generateContent imageDataUrls prompt =
     (if length imageDataUrls = 0 then (Inr [], [])
      else
        case mapThrow (\<lambda>url. dataUrlToGenaiPart url ''Image for analysis'') imageDataUrls of
          Inl e \<Rightarrow> (Inl e, [])
        | Inr imageParts \<Rightarrow>
            let textPart = textPartOf prompt
            in case analyzeImageContent_try generateContent imageParts textPart of
                 Inr description \<Rightarrow> (Inr description, [GenerateContent ''gemini-2.5-flash''])
               | Inl error \<Rightarrow>
                   let rawErrorMessage = rawMessage error
                   in if quotaSignature rawErrorMessage
                      then (Inl (ApiError ''Image analysis failed due to API usage limits.'' True),
                            [GenerateContent ''gemini-2.5-flash''])
                      else (Inl (ApiError (''The AI model failed to analyze the image content. Details: ''
                                             @ rawErrorMessage) False),
                            [GenerateContent ''gemini-2.5-flash'']))"

section \<open>Video generation\<close>

text \<open>
  The pattern \<^verbatim>\<open>/^data:(image\/\w+);base64,(.*)$/\<close>: a non-empty run of word characters
  after \<^verbatim>\<open>data:image/\<close>, the marker, and a payload without line terminators. The
  greedy run is the longest one, since the marker does not start with a word character.
\<close>

definition isWordChar :: "char \<Rightarrow> bool" where
  "isWordChar c =
     (c \<in> set ''abcdefghijklmnopqrstuvwxyzABCDEFGHIJKLMNOPQRSTUVWXYZ0123456789_'')"

definition isLineTerminator :: "char \<Rightarrow> bool" where
  "isLineTerminator c = (c \<in> set [CHR 0x0A, CHR 0x0D])"

definition matchVideoDataUrl :: "string \<Rightarrow> (string \<times> string) option" where
  "matchVideoDataUrl imageDataUrl =
     (if startsWith imageDataUrl ''data:image/'' then
        let rest = drop 11 imageDataUrl;
            subtype = takeWhile isWordChar rest;
            tail = dropWhile isWordChar rest
        in if subtype \<noteq> [] \<and> startsWith tail '';base64,''
              \<and> \<not> list_ex isLineTerminator (drop 8 tail)
           then Some (''image/'' @ subtype, drop 8 tail)
           else None
      else None)"

record videoFile =
  uri :: "string option"

record generatedVideo =
  video :: "videoFile option"

record videosResponse =
  generatedVideos :: "generatedVideo list option"

record operation =
  opDone :: bool
  opResponse :: "videosResponse option"

text \<open>\<^verbatim>\<open>operation.response?.generatedVideos?.[0]?.video?.uri\<close>\<close>

definition downloadLinkOf :: "operation \<Rightarrow> string option" where
  "downloadLinkOf operation =
     (case opResponse operation of
        None \<Rightarrow> None
      | Some r \<Rightarrow>
          (case generatedVideos r of
             None \<Rightarrow> None
           | Some [] \<Rightarrow> None
           | Some (g # gs) \<Rightarrow> (case video g of None \<Rightarrow> None | Some v \<Rightarrow> uri v)))"

record fetchResponse =
  ok :: bool
  statusText :: string
  blob :: "js_error + string"

text \<open>
  The video service, the binary fetch and the object-URL registry are parameters.
  \<open>getVideosOperation k operation\<close> is the outcome of the \<open>k\<close>-th poll (\<open>k = 1, 2, ...\<close>).
\<close>

record videoService =
  generateVideos :: "string \<Rightarrow> string \<Rightarrow> string \<Rightarrow> js_error + operation"
  getVideosOperation :: "nat \<Rightarrow> operation \<Rightarrow> js_error + operation"
  fetch :: "string \<Rightarrow> js_error + fetchResponse"
  createObjectURL :: "string \<Rightarrow> string"
  API_KEY :: string

text \<open>
  The polling loop has no bound: it is a partial function, and \<^term>\<open>None\<close> is the run that
  never leaves the loop.
\<close>

partial_function (option) pollVideoOperation ::
  "(nat \<Rightarrow> operation \<Rightarrow> js_error + operation) \<Rightarrow> nat \<Rightarrow> operation \<Rightarrow> event list
     \<Rightarrow> ((js_error + operation) \<times> event list) option" where
  "pollVideoOperation getOperation k operation log =
     (if \<not> opDone operation then
        (case getOperation k operation of
           Inl e \<Rightarrow> Some (Inl e, log @ [Sleep 10000, GetVideosOperation])
         | Inr operation' \<Rightarrow>
             pollVideoOperation getOperation (k + 1) operation'
               (log @ [Sleep 10000, GetVideosOperation]))
      else Some (Inr operation, log))"

definition downloadVideo ::
  "videoService \<Rightarrow> operation \<Rightarrow> event list \<Rightarrow> (js_error + string) \<times> event list" where
  "downloadVideo svc operation log =
     (case downloadLinkOf operation of
        None \<Rightarrow> (Inl (Error ''Video generation completed, but no download link was provided.''), log)
      | Some downloadLink \<Rightarrow>
          if downloadLink = []
          then (Inl (Error ''Video generation completed, but no download link was provided.''), log)
          else
            let target = downloadLink @ ''&key='' @ API_KEY svc
            in case fetch svc target of
                 Inl e \<Rightarrow> (Inl e, log @ [Fetch target])
               | Inr response \<Rightarrow>
                   if \<not> ok response
                   then (Inl (Error (''Failed to download video file. Status: ''
                                       @ statusText response)), log @ [Fetch target])
                   else
                     (case blob response of
                        Inl e \<Rightarrow> (Inl e, log @ [Fetch target])
                      | Inr videoBlob \<Rightarrow> (Inr (createObjectURL svc videoBlob), log @ [Fetch target])))"

definition generateStyledVideo_try ::
  "videoService \<Rightarrow> string \<Rightarrow> string \<Rightarrow> string
     \<Rightarrow> ((js_error + string) \<times> event list) option" where
  "generateStyledVideo_try svc mimeType' base64Data prompt =
     (case generateVideos svc prompt base64Data mimeType' of
        Inl e \<Rightarrow> Some (Inl e, [GenerateVideos])
      | Inr operation \<Rightarrow>
          (case pollVideoOperation (getVideosOperation svc) 1 operation [GenerateVideos] of
             None \<Rightarrow> None
           | Some (Inl e, log) \<Rightarrow> Some (Inl e, log)
           | Some (Inr operation', log) \<Rightarrow> Some (downloadVideo svc operation' log)))"

definition generateStyledVideo ::
  "videoService \<Rightarrow> string \<Rightarrow> string \<Rightarrow> ((js_error + string) \<times> event list) option" where
  "generateStyledVideo svc imageDataUrl prompt =
     (case matchVideoDataUrl imageDataUrl of
        None \<Rightarrow> Some (Inl (Error ''Invalid image data URL format for video generation.''), [])
      | Some (mimeType', base64Data) \<Rightarrow>
          (case generateStyledVideo_try svc mimeType' base64Data prompt of
             None \<Rightarrow> None
           | Some (Inr url, log) \<Rightarrow> Some (Inr url, log)
           | Some (Inl error, log) \<Rightarrow>
               let rawErrorMessage = rawMessage error
               in if quotaSignature rawErrorMessage
                  then Some (Inl (ApiError ''Video generation failed due to API usage limits. Please check your quota in Google AI Studio.'' True), log)
                  else Some (Inl (ApiError (''The AI model failed to generate a video. Details: ''
                                              @ rawErrorMessage) False), log)))"

section \<open>Orchestration state\<close>

datatype ImageStatus = StatusIdle | StatusPending | StatusDone | StatusError

datatype AppState = AppIdle | AppReady | AppGenerating | AppResultsShown

record GeneratedImage =
  status :: ImageStatus
  url :: "string option"
  error :: "string option"
  isQuotaError :: "bool option"

definition IMAGE_COUNT :: nat where
  "IMAGE_COUNT = 5"

definition pendingImage :: GeneratedImage where
  "pendingImage = \<lparr>status = StatusPending, url = None, error = None, isQuotaError = None\<rparr>"

definition doneImage :: "string \<Rightarrow> GeneratedImage" where
  "doneImage resultUrl =
     \<lparr>status = StatusDone, url = Some resultUrl, error = None, isQuotaError = None\<rparr>"

definition errorImage :: "string \<Rightarrow> bool \<Rightarrow> GeneratedImage" where
  "errorImage errorMsg quota =
     \<lparr>status = StatusError, url = None, error = Some errorMsg, isQuotaError = Some quota\<rparr>"

text \<open>
  A JavaScript array may have holes: an element is \<^term>\<open>None\<close> where the array has no
  value. Reading past the end gives \<^verbatim>\<open>undefined\<close>; writing past the end extends the
  array, leaving holes between the old end and the new element.
\<close>

type_synonym 'a js_array = "'a option list"

definition arrayGet :: "'a js_array \<Rightarrow> nat \<Rightarrow> 'a option" where
  "arrayGet xs i = (if i < length xs then xs ! i else None)"

definition arraySet :: "'a js_array \<Rightarrow> nat \<Rightarrow> 'a \<Rightarrow> 'a js_array" where
  "arraySet xs i v =
     (if i < length xs then xs[i := Some v]
      else xs @ replicate (i - length xs) None @ [Some v])"

record app = imageSet +
  generatedImages :: "GeneratedImage js_array"
  optimisticOverlay :: "GeneratedImage js_array option"
  appState :: AppState
  sessionScenarios :: "string list"
  mainPrompt :: string
  personDescription :: string
  objectDescription :: string
  styleDescription :: string

text \<open>
  \<^verbatim>\<open>useOptimistic(generatedImages, (state, newImages) => newImages)\<close>: the displayed
  items are the committed items, unless an optimistic update is in force; then they are
  the items that update has set. An optimistic update stays in force until the
  transition that follows it has finished; \<open>startTransition\<close> runs an action to its end.
\<close>

definition optimisticImages :: "app \<Rightarrow> GeneratedImage js_array" where
  "optimisticImages st =
     (case optimisticOverlay st of
        None \<Rightarrow> generatedImages st
      | Some newImages \<Rightarrow> newImages)"

definition setOptimisticImages :: "GeneratedImage js_array \<Rightarrow> app \<Rightarrow> app" where
  "setOptimisticImages newImages st = st\<lparr>optimisticOverlay := Some newImages\<rparr>"

definition startTransition :: "(app \<Rightarrow> app) \<Rightarrow> app \<Rightarrow> app" where
  "startTransition action st = (action st)\<lparr>optimisticOverlay := None\<rparr>"

section \<open>Joins of concurrent tasks\<close>

text \<open>
  Each task of a join is given by its outcome. \<^verbatim>\<open>Promise.all\<close> rejects with the reason of
  the task that rejects first in time: \<open>order\<close> lists the task indices in the order they
  settle (indices it leaves out settle last, in index order). \<^verbatim>\<open>Promise.allSettled\<close>
  never rejects and keeps one tagged result per task, in task order.
\<close>

fun firstRejected :: "nat list \<Rightarrow> (js_error + 'a) list \<Rightarrow> js_error option" where
  "firstRejected [] outcomes = None"
| "firstRejected (i # order) outcomes =
     (if i < length outcomes then
        (case outcomes ! i of
           Inl e \<Rightarrow> Some e
         | Inr v \<Rightarrow> firstRejected order outcomes)
      else firstRejected order outcomes)"

definition Promise_all :: "nat list \<Rightarrow> (js_error + 'a) list \<Rightarrow> js_error + 'a list" where
  "Promise_all order outcomes =
     (case firstRejected order outcomes of
        Some e \<Rightarrow> Inl e
      | None \<Rightarrow> mapThrow (\<lambda>outcome. outcome) outcomes)"

datatype 'a settled = Fulfilled 'a | Rejected js_error

definition Promise_allSettled :: "(js_error + 'a) list \<Rightarrow> 'a settled list" where
  "Promise_allSettled outcomes =
     map (\<lambda>outcome. case outcome of Inr v \<Rightarrow> Fulfilled v | Inl e \<Rightarrow> Rejected e) outcomes"

section \<open>Orchestration\<close>

text \<open>
  The services the orchestration reaches: the text model behind image analysis, the
  order in which the three analysis requests settle, the text model behind scenario
  generation, \<^verbatim>\<open>JSON.parse\<close>, and the image model as it answers the task of each index.
\<close>

record services =
  analysisService :: "part list \<Rightarrow> js_error + response"
  analysisSettleOrder :: "nat list"
  scenarioService :: "string \<Rightarrow> js_error + response"
  jsonParse :: "string \<Rightarrow> js_error + json"
  imageService :: "nat \<Rightarrow> contentService"

text \<open>The three analysis tasks, in the order they are handed to the join.\<close>

definition analysisTasks ::
  "services \<Rightarrow> string list \<Rightarrow> string list \<Rightarrow> string list \<Rightarrow> (js_error + string) list" where
  "analysisTasks env personImages' productImages' styleImages' =
     [fst (analyzeImageContent (analysisService env) personImages'
             ''Describe the person in this portrait, including their key features, clothing, and expression.''),
      fst (analyzeImageContent (analysisService env) productImages'
             ''Describe the primary object in this image, including its color, shape, and type.''),
      fst (analyzeImageContent (analysisService env) styleImages'
             ''Describe the artistic style of this image, including its mood, lighting, color palette, and composition.'')]"

definition analyzeImages ::
  "services \<Rightarrow> string list \<Rightarrow> string list \<Rightarrow> string list \<Rightarrow> app
     \<Rightarrow> (js_error + string \<times> string \<times> string) \<times> app" where
  "analyzeImages env personImages' productImages' styleImages' st =
     (case Promise_all (analysisSettleOrder env)
             (analysisTasks env personImages' productImages' styleImages') of
        Inl e \<Rightarrow> (Inl e, st)
      | Inr descriptions \<Rightarrow>
          let personDesc = descriptions ! 0;
              objectDesc = descriptions ! 1;
              styleDesc = descriptions ! 2
          in (Inr (personDesc, objectDesc, styleDesc),
              st\<lparr>personDescription := personDesc,
                 objectDescription := objectDesc,
                 styleDescription := styleDesc\<rparr>))"

text \<open>\<^verbatim>\<open>xs.splice(n, 0, x)\<close>\<close>

definition insertAt :: "nat \<Rightarrow> 'a \<Rightarrow> 'a list \<Rightarrow> 'a list" where
  "insertAt n x xs = take n xs @ [x] @ drop n xs"

definition imagePrompt :: "string \<Rightarrow> string list \<Rightarrow> string list \<Rightarrow> string list \<Rightarrow> string" where
  \<open>imagePrompt scenario personUrls productUrls styleUrls =
     (let inputs =
            (if length personUrls > 0
             then [''- The primary subject is based on the person in the first set of images.'']
             else [])
            @ (if length productUrls > 0
               then [''- The key element to include is the object from the second set of images.'']
               else [])
            @ (if length styleUrls > 0
               then [''- The overall mood, color palette, and lighting style should be derived from the third set of images.'']
               else []);
          technicalRequirements0 =
            [''- Adhere strictly to the 9:16 vertical aspect ratio.'',
             ''- Ultra-high definition 4K quality with photorealistic details.'',
             ''- Professional, cinematic lighting and color grading.'',
             ''- Ensure the final image is a single, cohesive scene. Do not create a collage.''];
          technicalRequirements1 =
            (if length personUrls > 0
             then insertAt 3 ''- Maintain the person's identity and key features from the source images.''
                    technicalRequirements0
             else technicalRequirements0);
          technicalRequirements =
            (if length productUrls > 0
             then insertAt 4 ''- Blend the object seamlessly and naturally into the composition.''
                    technicalRequirements1
             else technicalRequirements1)
      in join newline
           [''Generate a cinematic, photorealistic vertical portrait (9:16 aspect ratio) based on the following inputs and scene description. If no inputs are provided, be creative based on the scene description.'',
            '''',
            ''**Inputs:**'',
            (if length inputs > 0 then join newline inputs
             else ''- No specific images provided for reference. Use your creativity.''),
            '''',
            ''**Scene Description:**'',
            ''"'' @ scenario @ ''"'',
            '''',
            ''**Technical Requirements:**'',
            join newline technicalRequirements])\<close>

text \<open>
  Whatever the image generation throws is thrown again as a plain \<^verbatim>\<open>Error\<close> carrying its
  message.
\<close>

definition generateImageForIndex ::
  "contentService \<Rightarrow> nat \<Rightarrow> string \<Rightarrow> string list \<Rightarrow> string list \<Rightarrow> string list
     \<Rightarrow> js_error + string" where
  "generateImageForIndex generateContent index scenario personUrls productUrls styleUrls =
     (let prompt = imagePrompt scenario personUrls productUrls styleUrls
      in case fst (generateStyledImage generateContent
                     \<lparr>personImages = personUrls, productImages = productUrls,
                      styleImages = styleUrls\<rparr> prompt) of
           Inr resultUrl \<Rightarrow> Inr resultUrl
         | Inl err \<Rightarrow> Inl (Error (errorMessageOrString err)))"

text \<open>
  \<^verbatim>\<open>generateMedia\<close>: inside a transition, run the generator, then one of the two
  callbacks on the state the generator left. A thrown value that is not an \<^verbatim>\<open>Error\<close> is
  wrapped into one.
\<close>

definition generateMedia ::
  "(app \<Rightarrow> (js_error + 'a) \<times> app) \<Rightarrow> ('a \<Rightarrow> app \<Rightarrow> app) \<Rightarrow> (js_error \<Rightarrow> app \<Rightarrow> app)
     \<Rightarrow> app \<Rightarrow> app" where
  "generateMedia generator onSuccess onError st =
     startTransition
       (\<lambda>current.
          case generator current of
            (Inr result, st') \<Rightarrow> onSuccess result st'
          | (Inl err, st') \<Rightarrow>
              let safeError = (case err of NonError j s \<Rightarrow> Error s | _ \<Rightarrow> err)
              in onError safeError st')
       st"

text \<open>
  \<^verbatim>\<open>String(result.reason.message || "Generation Failed")\<close>. The reason of a rejected task
  is the \<^verbatim>\<open>Error\<close> thrown by \<open>generateImageForIndex\<close>; a reason that is not an \<^verbatim>\<open>Error\<close>
  is taken to have no message.
\<close>

fun reasonMessage :: "js_error \<Rightarrow> string" where
  "reasonMessage (Error m) = (if m = [] then ''Generation Failed'' else m)"
| "reasonMessage (ApiError m q) = (if m = [] then ''Generation Failed'' else m)"
| "reasonMessage (NonError j s) = ''Generation Failed''"

definition settledImage :: "string settled \<Rightarrow> GeneratedImage" where
  "settledImage result =
     (case result of
        Fulfilled v \<Rightarrow> doneImage v
      | Rejected reason \<Rightarrow> errorImage (reasonMessage reason) (isQuotaFlagged reason))"

text \<open>Tasks of the full-session run, one per scenario, each with its own index.\<close>

definition dispatchAll ::
  "services \<Rightarrow> string list \<Rightarrow> string list \<Rightarrow> string list \<Rightarrow> string list
     \<Rightarrow> (js_error + string) list" where
  "dispatchAll env safeScenarios personUrls productUrls styleUrls =
     map (\<lambda>(index, scenario).
            generateImageForIndex (imageService env index) index scenario
              personUrls productUrls styleUrls)
         (enumerate 0 safeScenarios)"

definition handleGenerateClick_generator ::
  "services \<Rightarrow> app \<Rightarrow> app \<Rightarrow> (js_error + unit) \<times> app" where
  "handleGenerateClick_generator env click st =
     (case analyzeImages env (personImages click) (productImages click) (styleImages click) st of
        (Inl e, st1) \<Rightarrow> (Inl e, st1)
      | (Inr (personDesc, objectDesc, styleDesc), st1) \<Rightarrow>
          (case fst (generateScenarios (scenarioService env) (jsonParse env)
                       personDesc objectDesc styleDesc (Some (mainPrompt click))) of
             Inl e \<Rightarrow> (Inl e, st1)
           | Inr newSessionScenarios \<Rightarrow>
               let safeScenarios = map (\<lambda>s. s) newSessionScenarios;
                   st2 = st1\<lparr>sessionScenarios := safeScenarios\<rparr>;
                   results = Promise_allSettled
                               (dispatchAll env safeScenarios (personImages click)
                                  (productImages click) (styleImages click));
                   newImages = map settledImage results
               in (Inr (),
                   st2\<lparr>generatedImages := map Some newImages, appState := AppResultsShown\<rparr>)))"

definition handleGenerateClick_onError :: "js_error \<Rightarrow> app \<Rightarrow> app" where
  "handleGenerateClick_onError err st =
     (let errorMsg = errorMessageOrString err
      in st\<lparr>generatedImages :=
               replicate IMAGE_COUNT (Some (errorImage errorMsg (isQuotaFlagged err))),
            appState := AppResultsShown\<rparr>)"

definition handleGenerateClick :: "services \<Rightarrow> app \<Rightarrow> app" where
  "handleGenerateClick env st =
     (if length (personImages st) = 0 \<and> length (productImages st) = 0
           \<and> length (styleImages st) = 0
      then st
      else
        generateMedia (handleGenerateClick_generator env st) (\<lambda>result s. s)
          handleGenerateClick_onError
          (setOptimisticImages (replicate IMAGE_COUNT (Some pendingImage))
             (st\<lparr>appState := AppGenerating\<rparr>)))"

text \<open>
  Single-item regeneration. The handler reads the scenario and the source images of the
  state it was clicked in (\<open>click\<close>); its two state updates are functions of the state
  current when they run.
\<close>

definition scenarioKnown :: "string list \<Rightarrow> nat \<Rightarrow> bool" where
  "scenarioKnown scenarios index = (index < length scenarios \<and> scenarios ! index \<noteq> [])"

definition handleRegenerateImage_generator ::
  "services \<Rightarrow> app \<Rightarrow> nat \<Rightarrow> app \<Rightarrow> (js_error + unit) \<times> app" where
  "handleRegenerateImage_generator env click index st =
     (case generateImageForIndex (imageService env index) index (sessionScenarios click ! index)
             (personImages click) (productImages click) (styleImages click) of
        Inl e \<Rightarrow> (Inl e, st)
      | Inr resultUrl \<Rightarrow>
          (Inr (), st\<lparr>generatedImages := arraySet (generatedImages st) index (doneImage resultUrl)\<rparr>))"

definition handleRegenerateImage_onError :: "nat \<Rightarrow> js_error \<Rightarrow> app \<Rightarrow> app" where
  "handleRegenerateImage_onError index err st =
     (let errorMsg = errorMessageOrString err
      in st\<lparr>generatedImages :=
               arraySet (generatedImages st) index (errorImage errorMsg (isQuotaFlagged err))\<rparr>)"

definition handleRegenerateImage_dispatch :: "app \<Rightarrow> nat \<Rightarrow> app" where
  "handleRegenerateImage_dispatch st index =
     (let newOptimisticImages = arraySet (optimisticImages st) index pendingImage
      in setOptimisticImages newOptimisticImages st)"

definition handleRegenerateImage :: "services \<Rightarrow> app \<Rightarrow> nat \<Rightarrow> app" where
  "handleRegenerateImage env st index =
     (if \<not> scenarioKnown (sessionScenarios st) index then st
      else
        generateMedia (handleRegenerateImage_generator env st index) (\<lambda>result s. s)
          (handleRegenerateImage_onError index)
          (handleRegenerateImage_dispatch st index))"

section \<open>Example services\<close>

text \<open>Concrete services and inputs, on which the theorems below are run.\<close>

definition transientTwice :: contentService where
  "transientTwice parts k =
     (if k < 3 then Inl (Error ''got status: 500 INTERNAL'')
      else Inr \<lparr>candidateParts = None, responseText = Some ''ok''\<rparr>)"

definition alwaysBadRequest :: contentService where
  "alwaysBadRequest parts k = Inl (Error ''got status: 400 INVALID_ARGUMENT'')"

definition quotaContent :: contentService where
  "quotaContent parts k = Inl (Error ''got status: 429 Too Many Requests'')"

definition refusedText :: "'a \<Rightarrow> js_error + response" where
  "refusedText request = Inl (Error ''got status: 403 PERMISSION_DENIED'')"

definition refusedContent :: contentService where
  "refusedContent parts k = Inl (Error ''got status: 403 PERMISSION_DENIED'')"

definition exhaustedText :: "'a \<Rightarrow> js_error + response" where
  "exhaustedText request = Inl (Error ''RESOURCE_EXHAUSTED: quota exceeded'')"

definition noParse :: "string \<Rightarrow> js_error + json" where
  "noParse jsonText = Inl (Error ''Unexpected end of JSON input'')"

definition exhaustedVideo :: videoService where
  "exhaustedVideo =
     \<lparr>generateVideos = (\<lambda>prompt bytes mime. Inl (Error ''RESOURCE_EXHAUSTED'')),
      getVideosOperation = (\<lambda>k operation. Inr operation),
      fetch = (\<lambda>target. Inl (Error ''Failed to fetch'')),
      createObjectURL = (\<lambda>videoBlob. ''blob:video''),
      API_KEY = ''key''\<rparr>"

definition refusedVideo :: videoService where
  "refusedVideo =
     \<lparr>generateVideos = (\<lambda>prompt bytes mime. Inl (Error ''got status: 403 PERMISSION_DENIED'')),
      getVideosOperation = (\<lambda>k operation. Inr operation),
      fetch = (\<lambda>target. Inl (Error ''Failed to fetch'')),
      createObjectURL = (\<lambda>videoBlob. ''blob:video''),
      API_KEY = ''key''\<rparr>"

definition pngUrl :: string where
  "pngUrl = ''data:image/png;base64,AAAA''"

definition pngPart :: part where
  "pngPart = \<lparr>inlineData = Some \<lparr>mimeType = ''image/png'', data = ''AAAA''\<rparr>, partText = None\<rparr>"

subsection \<open>Predicates used in the statements\<close>

text \<open>A blank string: nothing but white space.\<close>

definition isBlank :: "string \<Rightarrow> bool" where
  "isBlank s = (trim s = [])"

text \<open>A parse result that is a non-empty array of strings.\<close>

definition isScenarioArray :: "json \<Rightarrow> bool" where
  "isScenarioArray v =
     (case v of
        JArray xs \<Rightarrow> xs \<noteq> [] \<and> list_all isString xs
      | _ \<Rightarrow> False)"

subsection \<open>Example responses\<close>

definition sixText :: string where
  \<open>sixText = ''["a","b","c","d","e","f"]''\<close>

definition objectText :: string where
  \<open>objectText = ''{"a":"b"}''\<close>

definition sixFenced :: "string \<Rightarrow> js_error + response" where
  "sixFenced prompt =
     Inr \<lparr>candidateParts = None,
          responseText = Some (''```json'' @ newline @ sixText @ newline @ ''```'')\<rparr>"

definition objectAnswer :: "string \<Rightarrow> js_error + response" where
  "objectAnswer prompt = Inr \<lparr>candidateParts = None, responseText = Some objectText\<rparr>"

definition parseExamples :: "string \<Rightarrow> js_error + json" where
  "parseExamples jsonText =
     (if jsonText = sixText
      then Inr (JArray [JString ''a'', JString ''b'', JString ''c'', JString ''d'', JString ''e'',
                        JString ''f''])
      else if jsonText = objectText then Inr (JObject [(''a'', JString ''b'')])
      else Inl (Error ''Unexpected token''))"

definition pendingOperation :: operation where
  "pendingOperation = \<lparr>opDone = False, opResponse = None\<rparr>"

definition finishedOperation :: operation where
  "finishedOperation =
     \<lparr>opDone = True,
      opResponse =
        Some \<lparr>generatedVideos =
                Some [\<lparr>video = Some \<lparr>uri = Some ''https://videos.example/1?alt=media''\<rparr>\<rparr>]\<rparr>\<rparr>"

definition emptyOperation :: operation where
  "emptyOperation = \<lparr>opDone = True, opResponse = Some \<lparr>generatedVideos = Some []\<rparr>\<rparr>"

definition pollingVideo :: videoService where
  "pollingVideo =
     \<lparr>generateVideos = (\<lambda>prompt bytes mime. Inr pendingOperation),
      getVideosOperation =
        (\<lambda>k operation. if k < 2 then Inr pendingOperation else Inr finishedOperation),
      fetch = (\<lambda>target. Inr \<lparr>ok = True, statusText = ''OK'', blob = Inr ''mp4 bytes''\<rparr>),
      createObjectURL = (\<lambda>videoBlob. ''blob:'' @ videoBlob),
      API_KEY = ''key''\<rparr>"

definition noLinkVideo :: videoService where
  "noLinkVideo =
     \<lparr>generateVideos = (\<lambda>prompt bytes mime. Inr emptyOperation),
      getVideosOperation = (\<lambda>k operation. Inr operation),
      fetch = (\<lambda>target. Inr \<lparr>ok = True, statusText = ''OK'', blob = Inr ''mp4 bytes''\<rparr>),
      createObjectURL = (\<lambda>videoBlob. ''blob:'' @ videoBlob),
      API_KEY = ''key''\<rparr>"

section \<open>Example session\<close>

definition threeText :: string where
  \<open>threeText = ''["x","y","z"]''\<close>

definition describing :: "part list \<Rightarrow> js_error + response" where
  "describing parts = Inr \<lparr>candidateParts = None, responseText = Some ''a person''\<rparr>"

definition threeScenarios :: "string \<Rightarrow> js_error + response" where
  "threeScenarios prompt = Inr \<lparr>candidateParts = None, responseText = Some threeText\<rparr>"

definition parseThree :: "string \<Rightarrow> js_error + json" where
  "parseThree jsonText =
     (if jsonText = threeText then Inr (JArray [JString ''x'', JString ''y'', JString ''z''])
      else Inl (Error ''Unexpected token''))"

definition imageAnswer :: response where
  "imageAnswer = \<lparr>candidateParts = Some [pngPart], responseText = None\<rparr>"

definition middleFails :: "nat \<Rightarrow> contentService" where
  "middleFails index parts k =
     (if index = 1 then Inl (Error ''got status: 400 INVALID_ARGUMENT'') else Inr imageAnswer)"

definition sessionEnv :: services where
  "sessionEnv =
     \<lparr>analysisService = describing, analysisSettleOrder = [0, 1, 2],
      scenarioService = threeScenarios, jsonParse = parseThree, imageService = middleFails\<rparr>"

definition readyState :: app where
  "readyState =
     \<lparr>personImages = [pngUrl], productImages = [], styleImages = [],
      generatedImages = [], optimisticOverlay = None, appState = AppReady,
      sessionScenarios = [], mainPrompt = [], personDescription = [],
      objectDescription = [], styleDescription = []\<rparr>"

definition shownState :: app where
  "shownState =
     readyState
       \<lparr>generatedImages :=
          [Some (errorImage ''failed'' False), Some (doneImage ''blob:1''),
           Some (doneImage ''blob:2'')],
        appState := AppResultsShown,
        sessionScenarios := [''x'', ''y'', ''z'']\<rparr>"

text \<open>The errors the decoding steps of the generation functions throw.\<close>

definition formatFailures :: "js_error list" where
  "formatFailures =
     [Error (formatErrorMessage ''Person Image''),
      Error (formatErrorMessage ''Product Image''),
      Error (formatErrorMessage ''Style Image''),
      Error (formatErrorMessage ''Meme Source Image''),
      Error (formatErrorMessage ''Image for analysis''),
      Error ''Invalid image data URL format for video generation.'']"

section \<open>Facts about string search\<close>

lemma indexOf_Some_split:
  "indexOf s m = Some i \<Longrightarrow> s = take i s @ m @ drop (i + length m) s \<and> i + length m \<le> length s"
proof (induction s arbitrary: i)
  case Nil
  then show ?case by (simp split: if_splits)
next
  case (Cons c cs)
  show ?case
  proof (cases "prefix m (c # cs)")
    case True
    then obtain r where r: "c # cs = m @ r" by (auto simp: prefix_def)
    from True Cons.prems have "i = 0" by simp
    with r show ?thesis by simp
  next
    case False
    with Cons.prems obtain j where j: "indexOf cs m = Some j" "i = Suc j" by auto
    from Cons.IH [OF j(1)] j(2) show ?thesis by simp
  qed
qed

lemma indexOf_occurrence: "indexOf (a @ m @ b) m \<noteq> None"
proof (induction a)
  case Nil
  show ?case
  proof (cases "m @ b")
    case Nil
    then show ?thesis by simp
  next
    case (Cons x xs)
    then have "prefix m (x # xs)" by (metis prefixI)
    with Cons show ?thesis by simp
  qed
next
  case (Cons c a)
  then show ?case by auto
qed

lemma str_includes_iff: "str_includes s m \<longleftrightarrow> (\<exists>a b. s = a @ m @ b)"
proof
  assume "str_includes s m"
  then obtain i where "indexOf s m = Some i" by (auto simp: str_includes_def)
  from indexOf_Some_split [OF this] show "\<exists>a b. s = a @ m @ b" by blast
next
  assume "\<exists>a b. s = a @ m @ b"
  then show "str_includes s m" by (metis indexOf_occurrence str_includes_def)
qed

lemma indexOf_skip:
  "\<not> prefix m (c # cs) \<Longrightarrow> indexOf (c # cs) m = map_option Suc (indexOf cs m)"
  by simp

lemma indexOf_data_image:
  "indexOf (''data:image/'' @ r) base64Marker = map_option (\<lambda>j. j + 11) (indexOf r base64Marker)"
  by (cases "indexOf r base64Marker") (simp_all add: base64Marker_def)

lemma dataUrlToGenaiPart_fail:
  "indexOf dataUrl base64Marker = None \<or> \<not> startsWith dataUrl ''data:image/'' \<Longrightarrow>
   dataUrlToGenaiPart dataUrl ctx = Inl (Error (formatErrorMessage ctx))"
  by (auto simp: dataUrlToGenaiPart_def split: option.splits)

lemma dataUrlToGenaiPart_ok:
  assumes "indexOf r base64Marker = Some j"
  shows "dataUrlToGenaiPart (''data:image/'' @ r) ctx =
           Inr \<lparr>inlineData = Some \<lparr>mimeType = ''image/'' @ take j r, data = drop (j + 8) r\<rparr>,
                partText = None\<rparr>"
proof -
  from indexOf_Some_split [OF assms] have len: "j + 8 \<le> length r"
    by (simp add: base64Marker_def)
  have idx: "indexOf (''data:image/'' @ r) base64Marker = Some (j + 11)"
    by (simp only: indexOf_data_image assms option.map)
  have sw: "startsWith (''data:image/'' @ r) ''data:image/''"
    by (simp add: startsWith_def)
  have m: "substring (''data:image/'' @ r) 5 (j + 11) = ''image/'' @ take j r"
  proof -
    have "take (6 + j) (''image/'' @ r) = ''image/'' @ take j r"
      by (simp add: eval_nat_numeral)
    with len show ?thesis by (simp add: substring_def Let_def min_def max_def)
  qed
  have d: "substringFrom (''data:image/'' @ r) (j + 11 + length base64Marker) = drop (j + 8) r"
    by (simp add: substringFrom_def base64Marker_def eval_nat_numeral)
  show ?thesis
    unfolding dataUrlToGenaiPart_def idx option.case
    using sw m d by (simp add: Let_def)
qed

lemma formatErrorMessage_includes: "str_includes (formatErrorMessage ctx) ctx"
  unfolding formatErrorMessage_def str_includes_iff by blast

lemma marker_not_prefix:
  assumes "\<not> str_includes (c # p) base64Marker"
  shows "\<not> prefix base64Marker (c # p @ base64Marker @ q)"
proof
  assume pre: "prefix base64Marker (c # p @ base64Marker @ q)"
  have np: "\<not> prefix base64Marker (c # p)"
  proof
    assume "prefix base64Marker (c # p)"
    then obtain b where "c # p = [] @ base64Marker @ b" by (auto simp: prefix_def)
    with assms show False unfolding str_includes_iff by blast
  qed
  from pre have "prefix base64Marker ((c # p) @ (base64Marker @ q))" by simp
  with np obtain us where us: "base64Marker = (c # p) @ us" "prefix us (base64Marker @ q)"
    unfolding prefix_append by blast
  from us(1) have c: "c = CHR '';''" and pus: "p @ us = ''base64,''"
    by (simp_all add: base64Marker_def)
  from us(1) np have "us \<noteq> []" by auto
  then obtain u us' where u: "us = u # us'" by (cases us) auto
  with us(2) have "u = CHR '';''" by (simp add: base64Marker_def)
  with u have "CHR '';'' \<in> set (p @ us)" by simp
  with pus show False by simp
qed

lemma indexOf_first:
  "\<not> str_includes p base64Marker \<Longrightarrow> indexOf (p @ base64Marker @ q) base64Marker = Some (length p)"
proof (induction p)
  case Nil
  show ?case by (simp add: base64Marker_def)
next
  case (Cons c p)
  have "\<not> str_includes p base64Marker"
  proof
    assume "str_includes p base64Marker"
    then obtain a b where "p = a @ base64Marker @ b" unfolding str_includes_iff by blast
    then have "c # p = (c # a) @ base64Marker @ b" by simp
    with Cons.prems show False unfolding str_includes_iff by blast
  qed
  from Cons.IH [OF this] marker_not_prefix [OF Cons.prems, of q]
  show ?case by simp
qed

lemma processGeminiResponse_image:
  assumes "find (\<lambda>p. inlineData p \<noteq> None) ps = Some p"
    and "inlineData p = Some d"
  shows "processGeminiResponse \<lparr>candidateParts = Some ps, responseText = t\<rparr> =
           Inr (''data:'' @ mimeType d @ base64Marker @ data d)"
  using assms by (simp add: processGeminiResponse_def base64Marker_def)

lemma decode_encode:
  assumes sw: "startsWith mime ''image/''" and no: "\<not> str_includes mime base64Marker"
  shows "dataUrlToGenaiPart (''data:'' @ mime @ base64Marker @ payload) ctx =
           Inr \<lparr>inlineData = Some \<lparr>mimeType = mime, data = payload\<rparr>, partText = None\<rparr>"
proof -
  from sw obtain m where m: "mime = ''image/'' @ m"
    by (auto simp: startsWith_def prefix_def)
  have "\<not> str_includes m base64Marker"
  proof
    assume "str_includes m base64Marker"
    then obtain a b where "m = a @ base64Marker @ b" unfolding str_includes_iff by blast
    with m have "mime = (''image/'' @ a) @ base64Marker @ b" by simp
    with no show False unfolding str_includes_iff by blast
  qed
  then have idx: "indexOf (m @ base64Marker @ payload) base64Marker = Some (length m)"
    by (rule indexOf_first)
  have len8: "length base64Marker = 8" by (simp add: base64Marker_def)
  have "dataUrlToGenaiPart (''data:image/'' @ (m @ base64Marker @ payload)) ctx =
          Inr \<lparr>inlineData = Some \<lparr>mimeType = ''image/'' @ take (length m) (m @ base64Marker @ payload),
                                   data = drop (length m + 8) (m @ base64Marker @ payload)\<rparr>,
               partText = None\<rparr>"
    by (rule dataUrlToGenaiPart_ok [OF idx])
  then show ?thesis by (simp add: m len8)
qed

section \<open>Decoding\<close>

text \<open>
  Claim C4. A string in which the marker \<open>;base64,\<close> does not occur, or which does not
  start with \<open>data:image/\<close>, is refused: the decoder throws an error, returns no part,
  and the message of the error contains the context label it was given. Every other
  string is decoded: the decoder returns the MIME type and the payload, the MIME type
  starts with \<open>image/\<close>, and the input is exactly \<open>data:\<close>, the MIME type, the marker
  and the payload. The decoder is a function of its two arguments only.
\<close>

theorem dataUrlToGenaiPart_format:
  "(\<not> str_includes dataUrl base64Marker \<or> \<not> startsWith dataUrl ''data:image/'' \<longrightarrow>
      (\<exists>msg. dataUrlToGenaiPart dataUrl ctx = Inl (Error msg) \<and> str_includes msg ctx))
   \<and> (str_includes dataUrl base64Marker \<and> startsWith dataUrl ''data:image/'' \<longrightarrow>
      (\<exists>mime payload.
         dataUrlToGenaiPart dataUrl ctx =
           Inr \<lparr>inlineData = Some \<lparr>mimeType = mime, data = payload\<rparr>, partText = None\<rparr>
         \<and> startsWith mime ''image/''
         \<and> dataUrl = ''data:'' @ mime @ base64Marker @ payload))"
proof (intro conjI impI)
  assume "\<not> str_includes dataUrl base64Marker \<or> \<not> startsWith dataUrl ''data:image/''"
  then have "dataUrlToGenaiPart dataUrl ctx = Inl (Error (formatErrorMessage ctx))"
    by (intro dataUrlToGenaiPart_fail) (auto simp: str_includes_def)
  with formatErrorMessage_includes [of ctx]
  show "\<exists>msg. dataUrlToGenaiPart dataUrl ctx = Inl (Error msg) \<and> str_includes msg ctx"
    by blast
next
  assume a: "str_includes dataUrl base64Marker \<and> startsWith dataUrl ''data:image/''"
  then obtain r where r: "dataUrl = ''data:image/'' @ r"
    by (auto simp: startsWith_def prefix_def)
  from a r obtain i where "indexOf (''data:image/'' @ r) base64Marker = Some i"
    by (auto simp: str_includes_def)
  then obtain j where j: "indexOf r base64Marker = Some j"
    unfolding indexOf_data_image by (cases "indexOf r base64Marker") auto
  have len8: "length base64Marker = 8"
    by (simp add: base64Marker_def)
  from indexOf_Some_split [OF j] have split: "r = take j r @ base64Marker @ drop (j + 8) r"
    unfolding len8 by blast
  have eq: "dataUrl = ''data:'' @ (''image/'' @ take j r) @ base64Marker @ drop (j + 8) r"
    using r split by simp
  have sw: "startsWith (''image/'' @ take j r) ''image/''"
    by (simp add: startsWith_def)
  have dec: "dataUrlToGenaiPart dataUrl ctx =
      Inr \<lparr>inlineData = Some \<lparr>mimeType = ''image/'' @ take j r, data = drop (j + 8) r\<rparr>,
           partText = None\<rparr>"
    unfolding r by (rule dataUrlToGenaiPart_ok [OF j])
  show "\<exists>mime payload.
         dataUrlToGenaiPart dataUrl ctx =
           Inr \<lparr>inlineData = Some \<lparr>mimeType = mime, data = payload\<rparr>, partText = None\<rparr>
         \<and> startsWith mime ''image/''
         \<and> dataUrl = ''data:'' @ mime @ base64Marker @ payload"
    by (intro exI conjI) (rule dec, rule sw, rule eq)
qed

theorem dataUrlToGenaiPart_format_witness:
  "(\<not> str_includes ''image/png,AAAA'' base64Marker
    \<and> (\<exists>msg. dataUrlToGenaiPart ''image/png,AAAA'' ''Person Image'' = Inl (Error msg)
              \<and> str_includes msg ''Person Image''))
   \<and> (str_includes ''data:image/png;base64,AAAA'' base64Marker
      \<and> startsWith ''data:image/png;base64,AAAA'' ''data:image/''
      \<and> (\<exists>mime payload.
            dataUrlToGenaiPart ''data:image/png;base64,AAAA'' ''Person Image'' =
              Inr \<lparr>inlineData = Some \<lparr>mimeType = mime, data = payload\<rparr>, partText = None\<rparr>
            \<and> startsWith mime ''image/''
            \<and> ''data:image/png;base64,AAAA'' = ''data:'' @ mime @ base64Marker @ payload))"
proof -
  have h1: "\<not> str_includes ''image/png,AAAA'' base64Marker"
    by (simp add: str_includes_def base64Marker_def)
  have h2: "str_includes ''data:image/png;base64,AAAA'' base64Marker"
    by (simp add: str_includes_def base64Marker_def)
  have h3: "startsWith ''data:image/png;base64,AAAA'' ''data:image/''"
    by (simp add: startsWith_def)
  from h1 h2 h3
    dataUrlToGenaiPart_format [of "''image/png,AAAA''" "''Person Image''"]
    dataUrlToGenaiPart_format [of "''data:image/png;base64,AAAA''" "''Person Image''"]
  show ?thesis by blast
qed

section \<open>Round trip of the image encoding\<close>

text \<open>
  Claim C10. Take a MIME type that starts with \<open>image/\<close> and in which the marker
  \<open>;base64,\<close> does not occur, and any payload. When the first part of a response that
  carries inline data carries this MIME type and payload, response extraction returns
  the string \<open>data:<mimeType>;base64,<payload>\<close>, and decoding that string returns exactly
  this MIME type and this payload.
\<close>

theorem decode_after_extract_roundtrip:
  assumes "startsWith mime ''image/''"
    and "\<not> str_includes mime base64Marker"
    and "find (\<lambda>p. inlineData p \<noteq> None) ps = Some p"
    and "inlineData p = Some \<lparr>mimeType = mime, data = payload\<rparr>"
  shows "processGeminiResponse \<lparr>candidateParts = Some ps, responseText = t\<rparr> =
           Inr (''data:'' @ mime @ '';base64,'' @ payload)
         \<and> dataUrlToGenaiPart (''data:'' @ mime @ '';base64,'' @ payload) ctx =
             Inr \<lparr>inlineData = Some \<lparr>mimeType = mime, data = payload\<rparr>, partText = None\<rparr>"
  using processGeminiResponse_image [OF assms(3,4), of t] decode_encode [OF assms(1,2), of payload ctx]
  by (simp add: base64Marker_def)

theorem decode_after_extract_roundtrip_witness:
  "startsWith ''image/png'' ''image/''
   \<and> \<not> str_includes ''image/png'' base64Marker
   \<and> processGeminiResponse
        \<lparr>candidateParts =
           Some [\<lparr>inlineData = None, partText = Some ''here''\<rparr>,
                 \<lparr>inlineData = Some \<lparr>mimeType = ''image/png'', data = ''AAAA''\<rparr>, partText = None\<rparr>],
         responseText = Some ''here''\<rparr> =
       Inr ''data:image/png;base64,AAAA''
   \<and> dataUrlToGenaiPart ''data:image/png;base64,AAAA'' ''Style Image'' =
       Inr \<lparr>inlineData = Some \<lparr>mimeType = ''image/png'', data = ''AAAA''\<rparr>, partText = None\<rparr>"
proof -
  have h1: "startsWith ''image/png'' ''image/''" by (simp add: startsWith_def)
  have h2: "\<not> str_includes ''image/png'' base64Marker"
    by (simp add: str_includes_def base64Marker_def)
  have h3: "find (\<lambda>p. inlineData p \<noteq> None)
              [\<lparr>inlineData = None, partText = Some ''here''\<rparr>,
               \<lparr>inlineData = Some \<lparr>mimeType = ''image/png'', data = ''AAAA''\<rparr>, partText = None\<rparr>]
            = Some \<lparr>inlineData = Some \<lparr>mimeType = ''image/png'', data = ''AAAA''\<rparr>, partText = None\<rparr>"
    by simp
  have h4: "inlineData \<lparr>inlineData = Some \<lparr>mimeType = ''image/png'', data = ''AAAA''\<rparr>, partText = None\<rparr>
            = Some \<lparr>mimeType = ''image/png'', data = ''AAAA''\<rparr>"
    by simp
  from decode_after_extract_roundtrip [OF h1 h2 h3 h4, of "Some ''here''" "''Style Image''"] h1 h2
  show ?thesis by simp
qed

section \<open>The retry wrapper\<close>

lemma loop_unfold:
  "attempt \<le> 3 \<Longrightarrow>
   callGeminiWithRetry_loop gen ps tp attempt =
     (case gen (ps @ [tp]) attempt of
        Inr r \<Rightarrow> (Inr r, [GenerateContent ''gemini-2.5-flash-image''])
      | Inl e \<Rightarrow>
          if isInternalError (rawMessage e) \<and> attempt < 3
          then (fst (callGeminiWithRetry_loop gen ps tp (attempt + 1)),
                GenerateContent ''gemini-2.5-flash-image'' # Sleep (1000 * 2 ^ (attempt - 1))
                  # snd (callGeminiWithRetry_loop gen ps tp (attempt + 1)))
          else (Inl e, [GenerateContent ''gemini-2.5-flash-image'']))"
  by (subst callGeminiWithRetry_loop.simps)
     (simp add: maxRetries_def initialDelay_def Let_def case_prod_unfold split: sum.split)

lemma loop_3:
  "callGeminiWithRetry_loop gen ps tp (Suc (Suc (Suc 0))) =
     (gen (ps @ [tp]) (Suc (Suc (Suc 0))), [GenerateContent ''gemini-2.5-flash-image''])"
  by (simp add: loop_unfold split: sum.split)

lemma loop_2:
  "callGeminiWithRetry_loop gen ps tp (Suc (Suc 0)) =
     (case gen (ps @ [tp]) (Suc (Suc 0)) of
        Inr r \<Rightarrow> (Inr r, [GenerateContent ''gemini-2.5-flash-image''])
      | Inl e \<Rightarrow>
          if isInternalError (rawMessage e)
          then (gen (ps @ [tp]) (Suc (Suc (Suc 0))),
                [GenerateContent ''gemini-2.5-flash-image'', Sleep 2000,
                 GenerateContent ''gemini-2.5-flash-image''])
          else (Inl e, [GenerateContent ''gemini-2.5-flash-image'']))"
  by (simp add: loop_unfold [of "Suc (Suc 0)"] loop_3 split: sum.split)

lemma loop_1:
  "callGeminiWithRetry gen ps tp =
     (case gen (ps @ [tp]) (Suc 0) of
        Inr r \<Rightarrow> (Inr r, [GenerateContent ''gemini-2.5-flash-image''])
      | Inl e \<Rightarrow>
          if isInternalError (rawMessage e)
          then (fst (callGeminiWithRetry_loop gen ps tp (Suc (Suc 0))),
                GenerateContent ''gemini-2.5-flash-image'' # Sleep 1000
                  # snd (callGeminiWithRetry_loop gen ps tp (Suc (Suc 0))))
          else (Inl e, [GenerateContent ''gemini-2.5-flash-image'']))"
  by (simp add: callGeminiWithRetry_def loop_unfold [of "Suc 0"] split: sum.split)

lemma nat_lt_cases: "(\<forall>k. Suc 0 \<le> k \<and> k < Suc (Suc (Suc 0)) \<longrightarrow> P k) \<longleftrightarrow> P (Suc 0) \<and> P (Suc (Suc 0))"
proof -
  have "\<And>k::nat. Suc 0 \<le> k \<and> k < Suc (Suc (Suc 0)) \<longleftrightarrow> k = Suc 0 \<or> k = Suc (Suc 0)" by arith
  then show ?thesis by auto
qed

lemma nat_lt_cases2: "(\<forall>k. Suc 0 \<le> k \<and> k < Suc (Suc 0) \<longrightarrow> P k) \<longleftrightarrow> P (Suc 0)"
proof -
  have "\<And>k::nat. Suc 0 \<le> k \<and> k < Suc (Suc 0) \<longleftrightarrow> k = Suc 0" by arith
  then show ?thesis by auto
qed

lemma retry_general:
  "(case callGeminiWithRetry gen ps tp of
      (res, log) \<Rightarrow>
        1 \<le> networkCalls log \<and> networkCalls log \<le> 3
        \<and> res = gen (ps @ [tp]) (networkCalls log)
        \<and> (\<forall>k. 1 \<le> k \<and> k < networkCalls log \<longrightarrow>
               (\<exists>e. gen (ps @ [tp]) k = Inl e \<and> isInternalError (rawMessage e)))
        \<and> (\<forall>e. res = Inl e \<and> networkCalls log < 3 \<longrightarrow> \<not> isInternalError (rawMessage e))
        \<and> sleepsOf log = take (networkCalls log - 1) [1000, 2000]
        \<and> log = GenerateContent ''gemini-2.5-flash-image''
                    # concat (map (\<lambda>d. [Sleep d, GenerateContent ''gemini-2.5-flash-image''])
                                 (sleepsOf log)))"
proof (cases "gen (ps @ [tp]) 1")
  case (Inr r)
  then show ?thesis by (simp add: case_prod_unfold loop_1 networkCalls_def)
next
  case e1: (Inl e1)
  show ?thesis
  proof (cases "isInternalError (rawMessage e1)")
    case False
    with e1 show ?thesis by (simp add: case_prod_unfold loop_1 networkCalls_def)
  next
    case t1: True
    show ?thesis
    proof (cases "gen (ps @ [tp]) 2")
      case (Inr r)
      with e1 t1 show ?thesis
        by (simp add: case_prod_unfold loop_1 loop_2 networkCalls_def nat_lt_cases2 numeral_2_eq_2 numeral_3_eq_3)
    next
      case e2: (Inl e2)
      show ?thesis
      proof (cases "isInternalError (rawMessage e2)")
        case False
        with e1 t1 e2 show ?thesis
          by (simp add: case_prod_unfold loop_1 loop_2 networkCalls_def nat_lt_cases2 numeral_2_eq_2 numeral_3_eq_3)
      next
        case True
        with e1 t1 e2 show ?thesis
          by (simp add: case_prod_unfold loop_1 loop_2 networkCalls_def nat_lt_cases numeral_2_eq_2 numeral_3_eq_3)
      qed
    qed
  qed
qed

lemma retry_twice_then_success:
  assumes "gen (ps @ [tp]) 1 = Inl e1" "isInternalError (rawMessage e1)"
    and "gen (ps @ [tp]) 2 = Inl e2" "isInternalError (rawMessage e2)"
    and "gen (ps @ [tp]) 3 = Inr r"
  shows "callGeminiWithRetry gen ps tp =
           (Inr r, [GenerateContent ''gemini-2.5-flash-image'', Sleep 1000,
                    GenerateContent ''gemini-2.5-flash-image'', Sleep 2000,
                    GenerateContent ''gemini-2.5-flash-image''])"
  using assms by (simp add: loop_1 loop_2 numeral_2_eq_2 numeral_3_eq_3)

lemma retry_nontransient:
  assumes "gen (ps @ [tp]) 1 = Inl e" "\<not> isInternalError (rawMessage e)"
  shows "callGeminiWithRetry gen ps tp = (Inl e, [GenerateContent ''gemini-2.5-flash-image''])"
  using assms by (simp add: loop_1)

text \<open>
  Claim C2. Whatever the image model answers, the retry wrapper makes between one and
  three requests. Every request but the last failed with a message that carries the
  internal-error signature; the wrapper waited 1000 ms before the second request and
  2000 ms before the third; and what it returns or throws is exactly the outcome of its
  last request, which is a success, a failure without that signature, or the third
  failure. In particular: two failures with the signature followed by a success give
  three requests and that success; a first failure without the signature gives one
  request and that same failure.
\<close>

theorem callGeminiWithRetry_bounded_retry:
  "(case callGeminiWithRetry gen ps tp of
      (res, log) \<Rightarrow>
        1 \<le> networkCalls log \<and> networkCalls log \<le> 3
        \<and> res = gen (ps @ [tp]) (networkCalls log)
        \<and> (\<forall>k. 1 \<le> k \<and> k < networkCalls log \<longrightarrow>
               (\<exists>e. gen (ps @ [tp]) k = Inl e \<and> isInternalError (rawMessage e)))
        \<and> (\<forall>e. res = Inl e \<and> networkCalls log < 3 \<longrightarrow> \<not> isInternalError (rawMessage e))
        \<and> sleepsOf log = take (networkCalls log - 1) [1000, 2000]
        \<and> log = GenerateContent ''gemini-2.5-flash-image''
                    # concat (map (\<lambda>d. [Sleep d, GenerateContent ''gemini-2.5-flash-image''])
                                 (sleepsOf log)))
   \<and> (\<forall>e1 e2 r.
         gen (ps @ [tp]) 1 = Inl e1 \<and> isInternalError (rawMessage e1)
         \<and> gen (ps @ [tp]) 2 = Inl e2 \<and> isInternalError (rawMessage e2)
         \<and> gen (ps @ [tp]) 3 = Inr r \<longrightarrow>
         fst (callGeminiWithRetry gen ps tp) = Inr r
         \<and> networkCalls (snd (callGeminiWithRetry gen ps tp)) = 3
         \<and> sleepsOf (snd (callGeminiWithRetry gen ps tp)) = [1000, 2000])
   \<and> (\<forall>e.
         gen (ps @ [tp]) 1 = Inl e \<and> \<not> isInternalError (rawMessage e) \<longrightarrow>
         fst (callGeminiWithRetry gen ps tp) = Inl e
         \<and> networkCalls (snd (callGeminiWithRetry gen ps tp)) = 1
         \<and> sleepsOf (snd (callGeminiWithRetry gen ps tp)) = [])"
proof (intro conjI allI impI)
  show "case callGeminiWithRetry gen ps tp of
      (res, log) \<Rightarrow>
        1 \<le> networkCalls log \<and> networkCalls log \<le> 3
        \<and> res = gen (ps @ [tp]) (networkCalls log)
        \<and> (\<forall>k. 1 \<le> k \<and> k < networkCalls log \<longrightarrow>
               (\<exists>e. gen (ps @ [tp]) k = Inl e \<and> isInternalError (rawMessage e)))
        \<and> (\<forall>e. res = Inl e \<and> networkCalls log < 3 \<longrightarrow> \<not> isInternalError (rawMessage e))
        \<and> sleepsOf log = take (networkCalls log - 1) [1000, 2000]
        \<and> log = GenerateContent ''gemini-2.5-flash-image''
                    # concat (map (\<lambda>d. [Sleep d, GenerateContent ''gemini-2.5-flash-image''])
                                 (sleepsOf log))"
    by (rule retry_general)
next
  fix e1 e2 r
  assume a: "gen (ps @ [tp]) 1 = Inl e1 \<and> isInternalError (rawMessage e1)
         \<and> gen (ps @ [tp]) 2 = Inl e2 \<and> isInternalError (rawMessage e2)
         \<and> gen (ps @ [tp]) 3 = Inr r"
  then have run: "callGeminiWithRetry gen ps tp =
           (Inr r, [GenerateContent ''gemini-2.5-flash-image'', Sleep 1000,
                    GenerateContent ''gemini-2.5-flash-image'', Sleep 2000,
                    GenerateContent ''gemini-2.5-flash-image''])"
    by (intro retry_twice_then_success) auto
  show "fst (callGeminiWithRetry gen ps tp) = Inr r"
    by (simp add: run)
  show "networkCalls (snd (callGeminiWithRetry gen ps tp)) = 3"
    by (simp add: run networkCalls_def)
  show "sleepsOf (snd (callGeminiWithRetry gen ps tp)) = [1000, 2000]"
    by (simp add: run)
next
  fix e
  assume "gen (ps @ [tp]) 1 = Inl e \<and> \<not> isInternalError (rawMessage e)"
  then have run: "callGeminiWithRetry gen ps tp = (Inl e, [GenerateContent ''gemini-2.5-flash-image''])"
    by (intro retry_nontransient) auto
  show "fst (callGeminiWithRetry gen ps tp) = Inl e"
    by (simp add: run)
  show "networkCalls (snd (callGeminiWithRetry gen ps tp)) = 1"
    by (simp add: run networkCalls_def)
  show "sleepsOf (snd (callGeminiWithRetry gen ps tp)) = []"
    by (simp add: run)
qed

theorem callGeminiWithRetry_bounded_retry_witness:
  "(fst (callGeminiWithRetry transientTwice [] (textPartOf ''a prompt''))
      = Inr \<lparr>candidateParts = None, responseText = Some ''ok''\<rparr>
    \<and> networkCalls (snd (callGeminiWithRetry transientTwice [] (textPartOf ''a prompt''))) = 3
    \<and> sleepsOf (snd (callGeminiWithRetry transientTwice [] (textPartOf ''a prompt''))) = [1000, 2000])
   \<and> (fst (callGeminiWithRetry alwaysBadRequest [] (textPartOf ''a prompt''))
        = Inl (Error ''got status: 400 INVALID_ARGUMENT'')
      \<and> networkCalls (snd (callGeminiWithRetry alwaysBadRequest [] (textPartOf ''a prompt''))) = 1
      \<and> sleepsOf (snd (callGeminiWithRetry alwaysBadRequest [] (textPartOf ''a prompt''))) = [])"
proof -
  have t: "isInternalError (rawMessage (Error ''got status: 500 INTERNAL''))"
    by (simp add: isInternalError_def str_includes_def)
  have n: "\<not> isInternalError (rawMessage (Error ''got status: 400 INVALID_ARGUMENT''))"
    by (simp add: isInternalError_def str_includes_def)
  from t n
    callGeminiWithRetry_bounded_retry [of transientTwice "[]" "textPartOf ''a prompt''"]
    callGeminiWithRetry_bounded_retry [of alwaysBadRequest "[]" "textPartOf ''a prompt''"]
  show ?thesis
    by (simp add: transientTwice_def alwaysBadRequest_def)
qed

section \<open>Failure classification of the generation functions\<close>
lemma generateScenarios_classified:
  assumes "\<not> (length (scenarioInputs p ob s) = 0 \<and> \<not> hasUserPrompt u)"
    and "generateScenarios_try genS parse (scenarioPrompt (scenarioInputs p ob s) u) = Inl e"
  shows "fst (generateScenarios genS parse p ob s u) =
        Inl (if str_includes (rawMessage e) ''429'' \<or> str_includes (rawMessage e) ''RESOURCE_EXHAUSTED''
              then ApiError ''Failed to generate creative ideas due to API usage limits.'' True
              else ApiError (''The AI failed to generate creative ideas. Details: '' @ rawMessage e) False)"
  using assms by (auto simp: generateScenarios_def Let_def quotaSignature_def)

lemma generateStyledImage_classified:
  assumes "mapThrow (\<lambda>u. dataUrlToGenaiPart u ''Person Image'') (personImages images) = Inr pp"
    and "mapThrow (\<lambda>u. dataUrlToGenaiPart u ''Product Image'') (productImages images) = Inr op"
    and "mapThrow (\<lambda>u. dataUrlToGenaiPart u ''Style Image'') (styleImages images) = Inr sp"
    and "fst (generateStyledImage_try genI (pp @ op @ sp) (textPartOf prompt)) = Inl e"
  shows "fst (generateStyledImage genI images prompt) =
        Inl (if str_includes (rawMessage e) ''429'' \<or> str_includes (rawMessage e) ''RESOURCE_EXHAUSTED''
              then ApiError ''Image generation failed due to API usage limits. Please check your quota in Google AI Studio.'' True
              else ApiError (''The AI model failed to generate an image. Details: '' @ rawMessage e) False)"
proof (cases "generateStyledImage_try genI (pp @ op @ sp) (textPartOf prompt)")
  case (Pair r log)
  with assms(4) have r: "r = Inl e" by simp
  show ?thesis
    using assms(1-3) Pair r
    by (auto simp: generateStyledImage_def Let_def quotaSignature_def)
qed

lemma generateMemeImage_classified:
  assumes "dataUrlToGenaiPart memeUrl ''Meme Source Image'' = Inr imagePart"
    and "fst (generateMemeImage_try genM imagePart (textPartOf (memeInstruction memeText))) = Inl e"
  shows "fst (generateMemeImage genM memeUrl memeText) =
        Inl (if str_includes (rawMessage e) ''429'' \<or> str_includes (rawMessage e) ''RESOURCE_EXHAUSTED''
              then ApiError ''Meme generation failed due to API usage limits.'' True
              else ApiError (''The AI model failed to generate the meme. Details: '' @ rawMessage e) False)"
proof (cases "generateMemeImage_try genM imagePart (textPartOf (memeInstruction memeText))")
  case (Pair r log)
  with assms(2) have r: "r = Inl e" by simp
  show ?thesis
    using assms(1) Pair r
    by (auto simp: generateMemeImage_def Let_def quotaSignature_def)
qed

lemma analyzeImageContent_classified:
  assumes "length urls \<noteq> 0"
    and "mapThrow (\<lambda>u. dataUrlToGenaiPart u ''Image for analysis'') urls = Inr imageParts"
    and "analyzeImageContent_try genA imageParts (textPartOf instruction) = Inl e"
  shows "fst (analyzeImageContent genA urls instruction) =
        Inl (if str_includes (rawMessage e) ''429'' \<or> str_includes (rawMessage e) ''RESOURCE_EXHAUSTED''
              then ApiError ''Image analysis failed due to API usage limits.'' True
              else ApiError (''The AI model failed to analyze the image content. Details: '' @ rawMessage e) False)"
  using assms by (auto simp: analyzeImageContent_def Let_def quotaSignature_def)

lemma generateStyledVideo_classified:
  assumes "matchVideoDataUrl videoUrl = Some (mime, payload)"
    and "generateStyledVideo_try svc mime payload motion = Some (Inl e, log)"
  shows "generateStyledVideo svc videoUrl motion =
        Some (Inl (if str_includes (rawMessage e) ''429'' \<or> str_includes (rawMessage e) ''RESOURCE_EXHAUSTED''
                    then ApiError ''Video generation failed due to API usage limits. Please check your quota in Google AI Studio.'' True
                    else ApiError (''The AI model failed to generate a video. Details: '' @ rawMessage e) False), log)"
  using assms by (auto simp: generateStyledVideo_def Let_def quotaSignature_def)

lemma decode_failure: "dataUrlToGenaiPart u ctx = Inl e \<Longrightarrow> e = Error (formatErrorMessage ctx)"
  by (auto simp: dataUrlToGenaiPart_def Let_def split: option.splits if_splits)

lemma mapThrow_decode_failure:
  "mapThrow (\<lambda>u. dataUrlToGenaiPart u ctx) us = Inl e \<Longrightarrow> e = Error (formatErrorMessage ctx)"
  by (induction us) (auto split: sum.splits dest: decode_failure)

lemma formatFailures_unflagged:
  "list_all (\<lambda>err. \<not> isQuotaFlagged err \<and> \<not> str_includes (rawMessage err) ''429''
                    \<and> \<not> str_includes (rawMessage err) ''RESOURCE_EXHAUSTED'') formatFailures"
  by (simp add: formatFailures_def formatErrorMessage_def str_includes_def)

lemma generateScenarios_failures:
  assumes "fst (generateScenarios genS parse p ob s u) = Inl err1"
  shows "(\<exists>e. generateScenarios_try genS parse (scenarioPrompt (scenarioInputs p ob s) u) = Inl e
             \<and> err1 = (if str_includes (rawMessage e) ''429'' \<or> str_includes (rawMessage e) ''RESOURCE_EXHAUSTED''
                     then ApiError ''Failed to generate creative ideas due to API usage limits.'' True
                     else ApiError (''The AI failed to generate creative ideas. Details: '' @ rawMessage e) False))"
proof -
  from assms have n: "\<not> (length (scenarioInputs p ob s) = 0 \<and> \<not> hasUserPrompt u)"
    by (auto simp: generateScenarios_def Let_def split: if_splits)
  show ?thesis
  proof (cases "generateScenarios_try genS parse (scenarioPrompt (scenarioInputs p ob s) u)")
    case (Inl e)
    from generateScenarios_classified [OF n Inl] assms Inl show ?thesis by auto
  next
    case (Inr r)
    with n assms show ?thesis by (auto simp: generateScenarios_def Let_def)
  qed
qed

lemma generateStyledImage_failures:
  assumes "fst (generateStyledImage genI images prompt) = Inl err2"
  shows "err2 \<in> set formatFailures
        \<or> (\<exists>pp' op' sp' e.
               mapThrow (\<lambda>u. dataUrlToGenaiPart u ''Person Image'') (personImages images) = Inr pp'
             \<and> mapThrow (\<lambda>u. dataUrlToGenaiPart u ''Product Image'') (productImages images) = Inr op'
             \<and> mapThrow (\<lambda>u. dataUrlToGenaiPart u ''Style Image'') (styleImages images) = Inr sp'
             \<and> fst (generateStyledImage_try genI (pp' @ op' @ sp') (textPartOf prompt)) = Inl e
             \<and> err2 = (if str_includes (rawMessage e) ''429'' \<or> str_includes (rawMessage e) ''RESOURCE_EXHAUSTED''
                     then ApiError ''Image generation failed due to API usage limits. Please check your quota in Google AI Studio.'' True
                     else ApiError (''The AI model failed to generate an image. Details: '' @ rawMessage e) False))"
proof (cases "mapThrow (\<lambda>u. dataUrlToGenaiPart u ''Person Image'') (personImages images)")
  case (Inl e)
  with assms mapThrow_decode_failure [OF Inl] show ?thesis
    by (simp add: generateStyledImage_def formatFailures_def)
next
  case pp: (Inr pp)
  show ?thesis
  proof (cases "mapThrow (\<lambda>u. dataUrlToGenaiPart u ''Product Image'') (productImages images)")
    case (Inl e)
    with assms pp mapThrow_decode_failure [OF Inl] show ?thesis
      by (simp add: generateStyledImage_def formatFailures_def)
  next
    case op: (Inr op)
    show ?thesis
    proof (cases "mapThrow (\<lambda>u. dataUrlToGenaiPart u ''Style Image'') (styleImages images)")
      case (Inl e)
      with assms pp op mapThrow_decode_failure [OF Inl] show ?thesis
        by (simp add: generateStyledImage_def formatFailures_def)
    next
      case sp: (Inr sp)
      show ?thesis
      proof (cases "fst (generateStyledImage_try genI (pp @ op @ sp) (textPartOf prompt))")
        case (Inl e)
        from generateStyledImage_classified [OF pp op sp Inl] assms
        have "err2 = (if str_includes (rawMessage e) ''429'' \<or> str_includes (rawMessage e) ''RESOURCE_EXHAUSTED''
                     then ApiError ''Image generation failed due to API usage limits. Please check your quota in Google AI Studio.'' True
                     else ApiError (''The AI model failed to generate an image. Details: '' @ rawMessage e) False)"
          by simp
        with pp op sp Inl show ?thesis by blast
      next
        case (Inr r)
        with assms pp op sp show ?thesis
          by (cases "generateStyledImage_try genI (pp @ op @ sp) (textPartOf prompt)")
             (auto simp: generateStyledImage_def Let_def)
      qed
    qed
  qed
qed

lemma generateMemeImage_failures:
  assumes "fst (generateMemeImage genM memeUrl memeText) = Inl err3"
  shows "err3 \<in> set formatFailures
        \<or> (\<exists>imagePart' e.
               dataUrlToGenaiPart memeUrl ''Meme Source Image'' = Inr imagePart'
             \<and> fst (generateMemeImage_try genM imagePart' (textPartOf (memeInstruction memeText))) = Inl e
             \<and> err3 = (if str_includes (rawMessage e) ''429'' \<or> str_includes (rawMessage e) ''RESOURCE_EXHAUSTED''
                     then ApiError ''Meme generation failed due to API usage limits.'' True
                     else ApiError (''The AI model failed to generate the meme. Details: '' @ rawMessage e) False))"
proof (cases "dataUrlToGenaiPart memeUrl ''Meme Source Image''")
  case (Inl e)
  with assms decode_failure [OF Inl] show ?thesis
    by (simp add: generateMemeImage_def formatFailures_def)
next
  case ip: (Inr imagePart)
  show ?thesis
  proof (cases "fst (generateMemeImage_try genM imagePart (textPartOf (memeInstruction memeText)))")
    case (Inl e)
    from generateMemeImage_classified [OF ip Inl] assms
    have "err3 = (if str_includes (rawMessage e) ''429'' \<or> str_includes (rawMessage e) ''RESOURCE_EXHAUSTED''
                     then ApiError ''Meme generation failed due to API usage limits.'' True
                     else ApiError (''The AI model failed to generate the meme. Details: '' @ rawMessage e) False)"
      by simp
    with ip Inl show ?thesis by blast
  next
    case (Inr r)
    with assms ip show ?thesis
      by (cases "generateMemeImage_try genM imagePart (textPartOf (memeInstruction memeText))")
         (auto simp: generateMemeImage_def Let_def)
  qed
qed

lemma analyzeImageContent_failures:
  assumes "fst (analyzeImageContent genA urls instruction) = Inl err4"
  shows "err4 \<in> set formatFailures
        \<or> (\<exists>imageParts' e.
               length urls \<noteq> 0
             \<and> mapThrow (\<lambda>u. dataUrlToGenaiPart u ''Image for analysis'') urls = Inr imageParts'
             \<and> analyzeImageContent_try genA imageParts' (textPartOf instruction) = Inl e
             \<and> err4 = (if str_includes (rawMessage e) ''429'' \<or> str_includes (rawMessage e) ''RESOURCE_EXHAUSTED''
                     then ApiError ''Image analysis failed due to API usage limits.'' True
                     else ApiError (''The AI model failed to analyze the image content. Details: '' @ rawMessage e) False))"
proof -
  from assms have n: "length urls \<noteq> 0"
    by (auto simp: analyzeImageContent_def split: if_splits)
  show ?thesis
  proof (cases "mapThrow (\<lambda>u. dataUrlToGenaiPart u ''Image for analysis'') urls")
    case (Inl e)
    with assms n mapThrow_decode_failure [OF Inl] show ?thesis
      by (simp add: analyzeImageContent_def formatFailures_def)
  next
    case ip: (Inr imageParts)
    show ?thesis
    proof (cases "analyzeImageContent_try genA imageParts (textPartOf instruction)")
      case (Inl e)
      from analyzeImageContent_classified [OF n ip Inl] assms
      have "err4 = (if str_includes (rawMessage e) ''429'' \<or> str_includes (rawMessage e) ''RESOURCE_EXHAUSTED''
                     then ApiError ''Image analysis failed due to API usage limits.'' True
                     else ApiError (''The AI model failed to analyze the image content. Details: '' @ rawMessage e) False)"
        by simp
      with n ip Inl show ?thesis by blast
    next
      case (Inr r)
      with assms n ip show ?thesis by (simp add: analyzeImageContent_def Let_def)
    qed
  qed
qed

lemma generateStyledVideo_failures:
  assumes "generateStyledVideo svc videoUrl motion = Some (Inl err5, log5)"
  shows "err5 \<in> set formatFailures
        \<or> (\<exists>mime' payload' e.
               matchVideoDataUrl videoUrl = Some (mime', payload')
             \<and> generateStyledVideo_try svc mime' payload' motion = Some (Inl e, log5)
             \<and> err5 = (if str_includes (rawMessage e) ''429'' \<or> str_includes (rawMessage e) ''RESOURCE_EXHAUSTED''
                     then ApiError ''Video generation failed due to API usage limits. Please check your quota in Google AI Studio.'' True
                     else ApiError (''The AI model failed to generate a video. Details: '' @ rawMessage e) False))"
proof (cases "matchVideoDataUrl videoUrl")
  case None
  with assms show ?thesis by (simp add: generateStyledVideo_def formatFailures_def)
next
  case (Some mp)
  obtain mime payload where mp: "mp = (mime, payload)" by (cases mp)
  with Some have m: "matchVideoDataUrl videoUrl = Some (mime, payload)" by simp
  from assms m obtain e where e: "generateStyledVideo_try svc mime payload motion = Some (Inl e, log5)"
    by (auto simp: generateStyledVideo_def Let_def split: option.splits sum.splits if_splits)
  from generateStyledVideo_classified [OF m e] assms
  have "err5 = (if str_includes (rawMessage e) ''429'' \<or> str_includes (rawMessage e) ''RESOURCE_EXHAUSTED''
                     then ApiError ''Video generation failed due to API usage limits. Please check your quota in Google AI Studio.'' True
                     else ApiError (''The AI model failed to generate a video. Details: '' @ rawMessage e) False)"
    by simp
  with m e show ?thesis by blast
qed

text \<open>
  Claim C3. In each of the five generation functions (scenarios, styled image, meme,
  image analysis, video), a failure \<open>e\<close> raised in the request step surfaces to the
  caller as the service's own error: when the message of \<open>e\<close> contains \<open>429\<close> or
  \<open>RESOURCE_EXHAUSTED\<close> it is the function's usage-limit error with the quota flag set,
  and otherwise it is the function's generic error, with the quota flag not set and a
  message that ends with the message of \<open>e\<close>. The request step is the part of the
  function that follows the decoding of its image arguments. Every error a generation
  function surfaces arises this way, or is one of the format errors of the decoding
  step; those are not flagged and their messages contain neither \<open>429\<close> nor
  \<open>RESOURCE_EXHAUSTED\<close>.
\<close>

theorem generation_failures_classified:
  "(\<not> (length (scenarioInputs p ob s) = 0 \<and> \<not> hasUserPrompt u)
      \<and> generateScenarios_try genS parse (scenarioPrompt (scenarioInputs p ob s) u) = Inl e1
    \<longrightarrow> fst (generateScenarios genS parse p ob s u) =
        Inl (if str_includes (rawMessage e1) ''429'' \<or> str_includes (rawMessage e1) ''RESOURCE_EXHAUSTED''
              then ApiError ''Failed to generate creative ideas due to API usage limits.'' True
              else ApiError (''The AI failed to generate creative ideas. Details: '' @ rawMessage e1) False))
   \<and> (mapThrow (\<lambda>u. dataUrlToGenaiPart u ''Person Image'') (personImages images) = Inr pp
      \<and> mapThrow (\<lambda>u. dataUrlToGenaiPart u ''Product Image'') (productImages images) = Inr op
      \<and> mapThrow (\<lambda>u. dataUrlToGenaiPart u ''Style Image'') (styleImages images) = Inr sp
      \<and> fst (generateStyledImage_try genI (pp @ op @ sp) (textPartOf prompt)) = Inl e2
    \<longrightarrow> fst (generateStyledImage genI images prompt) =
        Inl (if str_includes (rawMessage e2) ''429'' \<or> str_includes (rawMessage e2) ''RESOURCE_EXHAUSTED''
              then ApiError ''Image generation failed due to API usage limits. Please check your quota in Google AI Studio.'' True
              else ApiError (''The AI model failed to generate an image. Details: '' @ rawMessage e2) False))
   \<and> (dataUrlToGenaiPart memeUrl ''Meme Source Image'' = Inr imagePart
      \<and> fst (generateMemeImage_try genM imagePart (textPartOf (memeInstruction memeText))) = Inl e3
    \<longrightarrow> fst (generateMemeImage genM memeUrl memeText) =
        Inl (if str_includes (rawMessage e3) ''429'' \<or> str_includes (rawMessage e3) ''RESOURCE_EXHAUSTED''
              then ApiError ''Meme generation failed due to API usage limits.'' True
              else ApiError (''The AI model failed to generate the meme. Details: '' @ rawMessage e3) False))
   \<and> (length urls \<noteq> 0
      \<and> mapThrow (\<lambda>u. dataUrlToGenaiPart u ''Image for analysis'') urls = Inr imageParts
      \<and> analyzeImageContent_try genA imageParts (textPartOf instruction) = Inl e4
    \<longrightarrow> fst (analyzeImageContent genA urls instruction) =
        Inl (if str_includes (rawMessage e4) ''429'' \<or> str_includes (rawMessage e4) ''RESOURCE_EXHAUSTED''
              then ApiError ''Image analysis failed due to API usage limits.'' True
              else ApiError (''The AI model failed to analyze the image content. Details: '' @ rawMessage e4) False))
   \<and> (matchVideoDataUrl videoUrl = Some (mime, payload)
      \<and> generateStyledVideo_try svc mime payload motion = Some (Inl e5, log)
    \<longrightarrow> generateStyledVideo svc videoUrl motion =
        Some (Inl (if str_includes (rawMessage e5) ''429'' \<or> str_includes (rawMessage e5) ''RESOURCE_EXHAUSTED''
                    then ApiError ''Video generation failed due to API usage limits. Please check your quota in Google AI Studio.'' True
                    else ApiError (''The AI model failed to generate a video. Details: '' @ rawMessage e5) False), log))
   \<and> (fst (generateScenarios genS parse p ob s u) = Inl err1
    \<longrightarrow> (\<exists>e. generateScenarios_try genS parse (scenarioPrompt (scenarioInputs p ob s) u) = Inl e
             \<and> err1 = (if str_includes (rawMessage e) ''429'' \<or> str_includes (rawMessage e) ''RESOURCE_EXHAUSTED''
                     then ApiError ''Failed to generate creative ideas due to API usage limits.'' True
                     else ApiError (''The AI failed to generate creative ideas. Details: '' @ rawMessage e) False)))
   \<and> (fst (generateStyledImage genI images prompt) = Inl err2
    \<longrightarrow> err2 \<in> set formatFailures
        \<or> (\<exists>pp' op' sp' e.
               mapThrow (\<lambda>u. dataUrlToGenaiPart u ''Person Image'') (personImages images) = Inr pp'
             \<and> mapThrow (\<lambda>u. dataUrlToGenaiPart u ''Product Image'') (productImages images) = Inr op'
             \<and> mapThrow (\<lambda>u. dataUrlToGenaiPart u ''Style Image'') (styleImages images) = Inr sp'
             \<and> fst (generateStyledImage_try genI (pp' @ op' @ sp') (textPartOf prompt)) = Inl e
             \<and> err2 = (if str_includes (rawMessage e) ''429'' \<or> str_includes (rawMessage e) ''RESOURCE_EXHAUSTED''
                     then ApiError ''Image generation failed due to API usage limits. Please check your quota in Google AI Studio.'' True
                     else ApiError (''The AI model failed to generate an image. Details: '' @ rawMessage e) False)))
   \<and> (fst (generateMemeImage genM memeUrl memeText) = Inl err3
    \<longrightarrow> err3 \<in> set formatFailures
        \<or> (\<exists>imagePart' e.
               dataUrlToGenaiPart memeUrl ''Meme Source Image'' = Inr imagePart'
             \<and> fst (generateMemeImage_try genM imagePart' (textPartOf (memeInstruction memeText))) = Inl e
             \<and> err3 = (if str_includes (rawMessage e) ''429'' \<or> str_includes (rawMessage e) ''RESOURCE_EXHAUSTED''
                     then ApiError ''Meme generation failed due to API usage limits.'' True
                     else ApiError (''The AI model failed to generate the meme. Details: '' @ rawMessage e) False)))
   \<and> (fst (analyzeImageContent genA urls instruction) = Inl err4
    \<longrightarrow> err4 \<in> set formatFailures
        \<or> (\<exists>imageParts' e.
               length urls \<noteq> 0
             \<and> mapThrow (\<lambda>u. dataUrlToGenaiPart u ''Image for analysis'') urls = Inr imageParts'
             \<and> analyzeImageContent_try genA imageParts' (textPartOf instruction) = Inl e
             \<and> err4 = (if str_includes (rawMessage e) ''429'' \<or> str_includes (rawMessage e) ''RESOURCE_EXHAUSTED''
                     then ApiError ''Image analysis failed due to API usage limits.'' True
                     else ApiError (''The AI model failed to analyze the image content. Details: '' @ rawMessage e) False)))
   \<and> (generateStyledVideo svc videoUrl motion = Some (Inl err5, log5)
    \<longrightarrow> err5 \<in> set formatFailures
        \<or> (\<exists>mime' payload' e.
               matchVideoDataUrl videoUrl = Some (mime', payload')
             \<and> generateStyledVideo_try svc mime' payload' motion = Some (Inl e, log5)
             \<and> err5 = (if str_includes (rawMessage e) ''429'' \<or> str_includes (rawMessage e) ''RESOURCE_EXHAUSTED''
                     then ApiError ''Video generation failed due to API usage limits. Please check your quota in Google AI Studio.'' True
                     else ApiError (''The AI model failed to generate a video. Details: '' @ rawMessage e) False)))
   \<and> list_all (\<lambda>err. \<not> isQuotaFlagged err \<and> \<not> str_includes (rawMessage err) ''429''
                    \<and> \<not> str_includes (rawMessage err) ''RESOURCE_EXHAUSTED'') formatFailures"
proof (intro conjI impI)
  assume "\<not> (length (scenarioInputs p ob s) = 0 \<and> \<not> hasUserPrompt u)
      \<and> generateScenarios_try genS parse (scenarioPrompt (scenarioInputs p ob s) u) = Inl e1"
  then show "fst (generateScenarios genS parse p ob s u) =
        Inl (if str_includes (rawMessage e1) ''429'' \<or> str_includes (rawMessage e1) ''RESOURCE_EXHAUSTED''
              then ApiError ''Failed to generate creative ideas due to API usage limits.'' True
              else ApiError (''The AI failed to generate creative ideas. Details: '' @ rawMessage e1) False)"
    by (intro generateScenarios_classified) blast+
next
  assume "mapThrow (\<lambda>u. dataUrlToGenaiPart u ''Person Image'') (personImages images) = Inr pp
      \<and> mapThrow (\<lambda>u. dataUrlToGenaiPart u ''Product Image'') (productImages images) = Inr op
      \<and> mapThrow (\<lambda>u. dataUrlToGenaiPart u ''Style Image'') (styleImages images) = Inr sp
      \<and> fst (generateStyledImage_try genI (pp @ op @ sp) (textPartOf prompt)) = Inl e2"
  then show "fst (generateStyledImage genI images prompt) =
        Inl (if str_includes (rawMessage e2) ''429'' \<or> str_includes (rawMessage e2) ''RESOURCE_EXHAUSTED''
              then ApiError ''Image generation failed due to API usage limits. Please check your quota in Google AI Studio.'' True
              else ApiError (''The AI model failed to generate an image. Details: '' @ rawMessage e2) False)"
    by (intro generateStyledImage_classified [where pp = pp and op = op and sp = sp]) blast+
next
  assume "dataUrlToGenaiPart memeUrl ''Meme Source Image'' = Inr imagePart
      \<and> fst (generateMemeImage_try genM imagePart (textPartOf (memeInstruction memeText))) = Inl e3"
  then show "fst (generateMemeImage genM memeUrl memeText) =
        Inl (if str_includes (rawMessage e3) ''429'' \<or> str_includes (rawMessage e3) ''RESOURCE_EXHAUSTED''
              then ApiError ''Meme generation failed due to API usage limits.'' True
              else ApiError (''The AI model failed to generate the meme. Details: '' @ rawMessage e3) False)"
    by (intro generateMemeImage_classified [where imagePart = imagePart]) blast+
next
  assume "length urls \<noteq> 0
      \<and> mapThrow (\<lambda>u. dataUrlToGenaiPart u ''Image for analysis'') urls = Inr imageParts
      \<and> analyzeImageContent_try genA imageParts (textPartOf instruction) = Inl e4"
  then show "fst (analyzeImageContent genA urls instruction) =
        Inl (if str_includes (rawMessage e4) ''429'' \<or> str_includes (rawMessage e4) ''RESOURCE_EXHAUSTED''
              then ApiError ''Image analysis failed due to API usage limits.'' True
              else ApiError (''The AI model failed to analyze the image content. Details: '' @ rawMessage e4) False)"
    by (intro analyzeImageContent_classified [where imageParts = imageParts]) blast+
next
  assume "matchVideoDataUrl videoUrl = Some (mime, payload)
      \<and> generateStyledVideo_try svc mime payload motion = Some (Inl e5, log)"
  then show "generateStyledVideo svc videoUrl motion =
        Some (Inl (if str_includes (rawMessage e5) ''429'' \<or> str_includes (rawMessage e5) ''RESOURCE_EXHAUSTED''
                    then ApiError ''Video generation failed due to API usage limits. Please check your quota in Google AI Studio.'' True
                    else ApiError (''The AI model failed to generate a video. Details: '' @ rawMessage e5) False), log)"
    by (intro generateStyledVideo_classified [where mime = mime and payload = payload]) blast+
next
  assume "fst (generateScenarios genS parse p ob s u) = Inl err1"
  then show "(\<exists>e. generateScenarios_try genS parse (scenarioPrompt (scenarioInputs p ob s) u) = Inl e
             \<and> err1 = (if str_includes (rawMessage e) ''429'' \<or> str_includes (rawMessage e) ''RESOURCE_EXHAUSTED''
                     then ApiError ''Failed to generate creative ideas due to API usage limits.'' True
                     else ApiError (''The AI failed to generate creative ideas. Details: '' @ rawMessage e) False))"
    by (rule generateScenarios_failures)
next
  assume "fst (generateStyledImage genI images prompt) = Inl err2"
  then show "err2 \<in> set formatFailures
        \<or> (\<exists>pp' op' sp' e.
               mapThrow (\<lambda>u. dataUrlToGenaiPart u ''Person Image'') (personImages images) = Inr pp'
             \<and> mapThrow (\<lambda>u. dataUrlToGenaiPart u ''Product Image'') (productImages images) = Inr op'
             \<and> mapThrow (\<lambda>u. dataUrlToGenaiPart u ''Style Image'') (styleImages images) = Inr sp'
             \<and> fst (generateStyledImage_try genI (pp' @ op' @ sp') (textPartOf prompt)) = Inl e
             \<and> err2 = (if str_includes (rawMessage e) ''429'' \<or> str_includes (rawMessage e) ''RESOURCE_EXHAUSTED''
                     then ApiError ''Image generation failed due to API usage limits. Please check your quota in Google AI Studio.'' True
                     else ApiError (''The AI model failed to generate an image. Details: '' @ rawMessage e) False))"
    by (rule generateStyledImage_failures)
next
  assume "fst (generateMemeImage genM memeUrl memeText) = Inl err3"
  then show "err3 \<in> set formatFailures
        \<or> (\<exists>imagePart' e.
               dataUrlToGenaiPart memeUrl ''Meme Source Image'' = Inr imagePart'
             \<and> fst (generateMemeImage_try genM imagePart' (textPartOf (memeInstruction memeText))) = Inl e
             \<and> err3 = (if str_includes (rawMessage e) ''429'' \<or> str_includes (rawMessage e) ''RESOURCE_EXHAUSTED''
                     then ApiError ''Meme generation failed due to API usage limits.'' True
                     else ApiError (''The AI model failed to generate the meme. Details: '' @ rawMessage e) False))"
    by (rule generateMemeImage_failures)
next
  assume "fst (analyzeImageContent genA urls instruction) = Inl err4"
  then show "err4 \<in> set formatFailures
        \<or> (\<exists>imageParts' e.
               length urls \<noteq> 0
             \<and> mapThrow (\<lambda>u. dataUrlToGenaiPart u ''Image for analysis'') urls = Inr imageParts'
             \<and> analyzeImageContent_try genA imageParts' (textPartOf instruction) = Inl e
             \<and> err4 = (if str_includes (rawMessage e) ''429'' \<or> str_includes (rawMessage e) ''RESOURCE_EXHAUSTED''
                     then ApiError ''Image analysis failed due to API usage limits.'' True
                     else ApiError (''The AI model failed to analyze the image content. Details: '' @ rawMessage e) False))"
    by (rule analyzeImageContent_failures)
next
  assume "generateStyledVideo svc videoUrl motion = Some (Inl err5, log5)"
  then show "err5 \<in> set formatFailures
        \<or> (\<exists>mime' payload' e.
               matchVideoDataUrl videoUrl = Some (mime', payload')
             \<and> generateStyledVideo_try svc mime' payload' motion = Some (Inl e, log5)
             \<and> err5 = (if str_includes (rawMessage e) ''429'' \<or> str_includes (rawMessage e) ''RESOURCE_EXHAUSTED''
                     then ApiError ''Video generation failed due to API usage limits. Please check your quota in Google AI Studio.'' True
                     else ApiError (''The AI model failed to generate a video. Details: '' @ rawMessage e) False))"
    by (rule generateStyledVideo_failures)
next
  show "list_all (\<lambda>err. \<not> isQuotaFlagged err \<and> \<not> str_includes (rawMessage err) ''429''
                    \<and> \<not> str_includes (rawMessage err) ''RESOURCE_EXHAUSTED'') formatFailures"
    by (rule formatFailures_unflagged)
qed

lemma decode_pngUrl: "dataUrlToGenaiPart pngUrl ctx = Inr pngPart"
proof -
  have "startsWith ''image/png'' ''image/''" by (simp add: startsWith_def)
  moreover have "\<not> str_includes ''image/png'' base64Marker"
    by (simp add: str_includes_def base64Marker_def)
  ultimately show ?thesis
    using decode_encode [of "''image/png''" "''AAAA''" ctx]
    by (simp add: pngUrl_def pngPart_def base64Marker_def)
qed

lemma quotaContent_run:
  "callGeminiWithRetry quotaContent ps tp =
     (Inl (Error ''got status: 429 Too Many Requests''), [GenerateContent ''gemini-2.5-flash-image''])"
  by (rule retry_nontransient)
     (simp_all add: quotaContent_def isInternalError_def str_includes_def)

lemma refusedContent_run:
  "callGeminiWithRetry refusedContent ps tp =
     (Inl (Error ''got status: 403 PERMISSION_DENIED''), [GenerateContent ''gemini-2.5-flash-image''])"
  by (rule retry_nontransient)
     (simp_all add: refusedContent_def isInternalError_def str_includes_def)

theorem generation_failures_classified_witness:
  "fst (generateScenarios exhaustedText noParse ''a person'' [] [] None) =
     Inl (ApiError ''Failed to generate creative ideas due to API usage limits.'' True)
   \<and> fst (generateScenarios refusedText noParse ''a person'' [] [] None) =
       Inl (ApiError ''The AI failed to generate creative ideas. Details: got status: 403 PERMISSION_DENIED'' False)
   \<and> fst (generateStyledImage quotaContent
             \<lparr>personImages = [pngUrl], productImages = [], styleImages = []\<rparr> ''a scene'') =
       Inl (ApiError ''Image generation failed due to API usage limits. Please check your quota in Google AI Studio.'' True)
   \<and> fst (generateStyledImage refusedContent
             \<lparr>personImages = [pngUrl], productImages = [], styleImages = []\<rparr> ''a scene'') =
       Inl (ApiError ''The AI model failed to generate an image. Details: got status: 403 PERMISSION_DENIED'' False)
   \<and> fst (generateMemeImage quotaContent pngUrl ''All izz well!'') =
       Inl (ApiError ''Meme generation failed due to API usage limits.'' True)
   \<and> fst (generateMemeImage refusedContent pngUrl ''All izz well!'') =
       Inl (ApiError ''The AI model failed to generate the meme. Details: got status: 403 PERMISSION_DENIED'' False)
   \<and> fst (analyzeImageContent exhaustedText [pngUrl] ''Describe'') =
       Inl (ApiError ''Image analysis failed due to API usage limits.'' True)
   \<and> fst (analyzeImageContent refusedText [pngUrl] ''Describe'') =
       Inl (ApiError ''The AI model failed to analyze the image content. Details: got status: 403 PERMISSION_DENIED'' False)
   \<and> generateStyledVideo exhaustedVideo pngUrl ''a smile'' =
       Some (Inl (ApiError ''Video generation failed due to API usage limits. Please check your quota in Google AI Studio.'' True),
             [GenerateVideos])
   \<and> generateStyledVideo refusedVideo pngUrl ''a smile'' =
       Some (Inl (ApiError ''The AI model failed to generate a video. Details: got status: 403 PERMISSION_DENIED'' False),
             [GenerateVideos])"
proof -
  note T = generation_failures_classified
  let ?images = "\<lparr>personImages = [pngUrl], productImages = [], styleImages = []\<rparr>"
  let ?e429 = "Error ''got status: 429 Too Many Requests''"
  let ?e403 = "Error ''got status: 403 PERMISSION_DENIED''"
  let ?eEx = "Error ''RESOURCE_EXHAUSTED: quota exceeded''"
  have s0: "\<not> (length (scenarioInputs ''a person'' [] []) = 0 \<and> \<not> hasUserPrompt None)"
    by (simp add: scenarioInputs_def)
  have s1: "generateScenarios_try exhaustedText noParse
              (scenarioPrompt (scenarioInputs ''a person'' [] []) None) = Inl ?eEx"
    by (simp add: generateScenarios_try_def exhaustedText_def)
  have s2: "generateScenarios_try refusedText noParse
              (scenarioPrompt (scenarioInputs ''a person'' [] []) None) = Inl ?e403"
    by (simp add: generateScenarios_try_def refusedText_def)
  have i1: "mapThrow (\<lambda>u. dataUrlToGenaiPart u ''Person Image'') (personImages ?images)
            = Inr [pngPart]"
    by (simp add: decode_pngUrl)
  have i2: "mapThrow (\<lambda>u. dataUrlToGenaiPart u ''Product Image'') (productImages ?images) = Inr []"
    by simp
  have i3: "mapThrow (\<lambda>u. dataUrlToGenaiPart u ''Style Image'') (styleImages ?images) = Inr []"
    by simp
  have i4: "fst (generateStyledImage_try quotaContent ([pngPart] @ [] @ []) (textPartOf ''a scene''))
            = Inl ?e429"
    by (simp add: generateStyledImage_try_def quotaContent_run)
  have i5: "fst (generateStyledImage_try refusedContent ([pngPart] @ [] @ []) (textPartOf ''a scene''))
            = Inl ?e403"
    by (simp add: generateStyledImage_try_def refusedContent_run)
  have m1: "dataUrlToGenaiPart pngUrl ''Meme Source Image'' = Inr pngPart"
    by (rule decode_pngUrl)
  have m2: "fst (generateMemeImage_try quotaContent pngPart
                   (textPartOf (memeInstruction ''All izz well!''))) = Inl ?e429"
    by (simp add: generateMemeImage_try_def quotaContent_run)
  have m3: "fst (generateMemeImage_try refusedContent pngPart
                   (textPartOf (memeInstruction ''All izz well!''))) = Inl ?e403"
    by (simp add: generateMemeImage_try_def refusedContent_run)
  have a1: "length [pngUrl] \<noteq> 0" by simp
  have a2: "mapThrow (\<lambda>u. dataUrlToGenaiPart u ''Image for analysis'') [pngUrl] = Inr [pngPart]"
    by (simp add: decode_pngUrl)
  have a3: "analyzeImageContent_try exhaustedText [pngPart] (textPartOf ''Describe'') = Inl ?eEx"
    by (simp add: analyzeImageContent_try_def exhaustedText_def)
  have a4: "analyzeImageContent_try refusedText [pngPart] (textPartOf ''Describe'') = Inl ?e403"
    by (simp add: analyzeImageContent_try_def refusedText_def)
  have v1: "matchVideoDataUrl pngUrl = Some (''image/png'', ''AAAA'')"
    by (simp add: matchVideoDataUrl_def pngUrl_def startsWith_def isWordChar_def
        isLineTerminator_def)
  have v2: "generateStyledVideo_try exhaustedVideo ''image/png'' ''AAAA'' ''a smile''
            = Some (Inl (Error ''RESOURCE_EXHAUSTED''), [GenerateVideos])"
    by (simp add: generateStyledVideo_try_def exhaustedVideo_def)
  have v3: "generateStyledVideo_try refusedVideo ''image/png'' ''AAAA'' ''a smile''
            = Some (Inl ?e403, [GenerateVideos])"
    by (simp add: generateStyledVideo_try_def refusedVideo_def)
  note T1 = T [THEN conjunct1, THEN mp]
  note T2 = T [THEN conjunct2, THEN conjunct1, THEN mp]
  note T3 = T [THEN conjunct2, THEN conjunct2, THEN conjunct1, THEN mp]
  note T4 = T [THEN conjunct2, THEN conjunct2, THEN conjunct2, THEN conjunct1, THEN mp]
  note T5 = T [THEN conjunct2, THEN conjunct2, THEN conjunct2, THEN conjunct2, THEN conjunct1,
               THEN mp]
  have w1: "fst (generateScenarios exhaustedText noParse ''a person'' [] [] None) =
     Inl (ApiError ''Failed to generate creative ideas due to API usage limits.'' True)"
    using T1 [OF conjI [OF s0 s1]] by (simp add: str_includes_def)
  have w2: "fst (generateScenarios refusedText noParse ''a person'' [] [] None) =
       Inl (ApiError ''The AI failed to generate creative ideas. Details: got status: 403 PERMISSION_DENIED'' False)"
    using T1 [OF conjI [OF s0 s2]] by (simp add: str_includes_def)
  have w3: "fst (generateStyledImage quotaContent ?images ''a scene'') =
       Inl (ApiError ''Image generation failed due to API usage limits. Please check your quota in Google AI Studio.'' True)"
    using T2 [OF conjI [OF i1 conjI [OF i2 conjI [OF i3 i4]]]] by (simp add: str_includes_def)
  have w4: "fst (generateStyledImage refusedContent ?images ''a scene'') =
       Inl (ApiError ''The AI model failed to generate an image. Details: got status: 403 PERMISSION_DENIED'' False)"
    using T2 [OF conjI [OF i1 conjI [OF i2 conjI [OF i3 i5]]]] by (simp add: str_includes_def)
  have w5: "fst (generateMemeImage quotaContent pngUrl ''All izz well!'') =
       Inl (ApiError ''Meme generation failed due to API usage limits.'' True)"
    using T3 [OF conjI [OF m1 m2]] by (simp add: str_includes_def)
  have w6: "fst (generateMemeImage refusedContent pngUrl ''All izz well!'') =
       Inl (ApiError ''The AI model failed to generate the meme. Details: got status: 403 PERMISSION_DENIED'' False)"
    using T3 [OF conjI [OF m1 m3]] by (simp add: str_includes_def)
  have w7: "fst (analyzeImageContent exhaustedText [pngUrl] ''Describe'') =
       Inl (ApiError ''Image analysis failed due to API usage limits.'' True)"
    using T4 [OF conjI [OF a1 conjI [OF a2 a3]]] by (simp add: str_includes_def)
  have w8: "fst (analyzeImageContent refusedText [pngUrl] ''Describe'') =
       Inl (ApiError ''The AI model failed to analyze the image content. Details: got status: 403 PERMISSION_DENIED'' False)"
    using T4 [OF conjI [OF a1 conjI [OF a2 a4]]] by (simp add: str_includes_def)
  have w9: "generateStyledVideo exhaustedVideo pngUrl ''a smile'' =
       Some (Inl (ApiError ''Video generation failed due to API usage limits. Please check your quota in Google AI Studio.'' True),
             [GenerateVideos])"
    using T5 [OF conjI [OF v1 v2]] by (simp add: str_includes_def)
  have w10: "generateStyledVideo refusedVideo pngUrl ''a smile'' =
       Some (Inl (ApiError ''The AI model failed to generate a video. Details: got status: 403 PERMISSION_DENIED'' False),
             [GenerateVideos])"
    using T5 [OF conjI [OF v1 v3]] by (simp add: str_includes_def)
  from w1 w2 w3 w4 w5 w6 w7 w8 w9 w10 show ?thesis by (intro conjI)
qed

section \<open>Scenario generation\<close>

lemma hasUserPrompt_blank:
  "hasUserPrompt u \<longleftrightarrow> (\<exists>t. u = Some t \<and> \<not> isBlank t)"
  by (cases u) (auto simp: hasUserPrompt_def isBlank_def trim_def)

text \<open>
  Claim C5, as the specification states it: whenever the three descriptions and the
  optional user intent are all empty or blank, scenario generation returns the built-in
  list and makes no network request. It fails for a description that is blank but not
  empty: the description made of one space sends a request.
\<close>

theorem generateScenarios_blank_description_counterexample:
  "isBlank '' '' \<and> isBlank [] \<and> isBlank []
   \<and> fst (generateScenarios refusedText noParse '' '' [] [] None) \<noteq> Inr fallbackScenarios
   \<and> networkCalls (snd (generateScenarios refusedText noParse '' '' [] [] None)) = 1"
  by (simp add: isBlank_def trim_def isWhiteSpace_def generateScenarios_def scenarioInputs_def
      hasUserPrompt_def generateScenarios_try_def refusedText_def Let_def networkCalls_def)

text \<open>
  Claim C5, amended: when the three descriptions are empty strings and the user intent
  is absent, empty or blank, scenario generation returns the built-in list of exactly
  five scenarios and makes no network request.
\<close>

theorem generateScenarios_fallback:
  "(case u of None \<Rightarrow> True | Some t \<Rightarrow> isBlank t) \<Longrightarrow>
   generateScenarios gen parse [] [] [] u = (Inr fallbackScenarios, [])
   \<and> length fallbackScenarios = 5
   \<and> networkCalls (snd (generateScenarios gen parse [] [] [] u)) = 0"
proof -
  assume "case u of None \<Rightarrow> True | Some t \<Rightarrow> isBlank t"
  then have "\<not> hasUserPrompt u"
    unfolding hasUserPrompt_blank by (cases u) auto
  then have "generateScenarios gen parse [] [] [] u = (Inr fallbackScenarios, [])"
    by (simp add: generateScenarios_def scenarioInputs_def)
  then show ?thesis
    by (simp add: fallbackScenarios_def networkCalls_def)
qed

theorem generateScenarios_fallback_witness:
  "isBlank ''   ''
   \<and> generateScenarios refusedText noParse [] [] [] (Some ''   '') = (Inr fallbackScenarios, [])
   \<and> length fallbackScenarios = 5
   \<and> networkCalls (snd (generateScenarios refusedText noParse [] [] [] (Some ''   ''))) = 0"
proof -
  have b: "isBlank ''   ''"
    by (simp add: isBlank_def trim_def isWhiteSpace_def)
  then have "case Some ''   '' of None \<Rightarrow> True | Some t \<Rightarrow> isBlank t" by simp
  from b generateScenarios_fallback [OF this, of refusedText noParse] show ?thesis by blast
qed

lemma not_quota_invalid:
  "\<not> quotaSignature ''AI did not return a valid array of scenario strings.''"
  by (simp add: quotaSignature_def str_includes_def)

lemma generateScenarios_try_parsed:
  assumes "gen prompt = Inr response" "responseText response = Some txt"
    and "parse (stripFence (trim txt)) = Inr v"
  shows "generateScenarios_try gen parse prompt =
           (case v of
              JArray xs \<Rightarrow>
                if xs \<noteq> [] \<and> list_all isString xs then Inr (take 5 (map stringOf xs))
                else Inl (Error ''AI did not return a valid array of scenario strings.'')
            | _ \<Rightarrow> Inl (Error ''AI did not return a valid array of scenario strings.''))"
  using assms by (cases v) (simp_all add: generateScenarios_try_def Let_def)

text \<open>
  Claim C6. Let the service answer the scenario request with a text, and let JSON
  parsing of that text (trimmed, fences removed) give a value. When the value is not a
  non-empty array of strings, scenario generation fails, with the error that says the
  response was not a valid array of scenario strings; when it is, scenario generation
  returns the first five strings of the array, all of them when there are fewer.
\<close>

theorem generateScenarios_parse:
  assumes "\<not> (length (scenarioInputs p ob s) = 0 \<and> \<not> hasUserPrompt u)"
    and "gen (scenarioPrompt (scenarioInputs p ob s) u) = Inr response"
    and "responseText response = Some txt"
    and "parse (stripFence (trim txt)) = Inr v"
  shows "(\<not> isScenarioArray v \<longrightarrow>
            fst (generateScenarios gen parse p ob s u) =
              Inl (ApiError (''The AI failed to generate creative ideas. Details: ''
                               @ ''AI did not return a valid array of scenario strings.'') False))
         \<and> (isScenarioArray v \<longrightarrow>
              (\<exists>xs. v = JArray (map JString xs)
                    \<and> fst (generateScenarios gen parse p ob s u) = Inr (take 5 xs)
                    \<and> length (take 5 xs) \<le> 5))"
proof (intro conjI impI)
  note run = generateScenarios_try_parsed
                [where gen = gen and parse = parse
                   and prompt = "scenarioPrompt (scenarioInputs p ob s) u", OF assms(2,3,4)]
  {
    assume "\<not> isScenarioArray v"
    then have "generateScenarios_try gen parse (scenarioPrompt (scenarioInputs p ob s) u) =
                 Inl (Error ''AI did not return a valid array of scenario strings.'')"
      unfolding run by (cases v) (auto simp: isScenarioArray_def)
    with assms(1) not_quota_invalid
    show "fst (generateScenarios gen parse p ob s u) =
              Inl (ApiError (''The AI failed to generate creative ideas. Details: ''
                               @ ''AI did not return a valid array of scenario strings.'') False)"
      by (auto simp: generateScenarios_def Let_def)
  }
  {
    assume "isScenarioArray v"
    then obtain ys where ys: "v = JArray ys" "ys \<noteq> []" "list_all isString ys"
      by (cases v) (auto simp: isScenarioArray_def)
    have "map JString (map stringOf ys) = ys"
      using ys(3) by (induction ys) (auto elim: isString.elims)
    then have v: "v = JArray (map JString (map stringOf ys))" using ys(1) by simp
    have "generateScenarios_try gen parse (scenarioPrompt (scenarioInputs p ob s) u) =
            Inr (take 5 (map stringOf ys))"
      unfolding run using ys by simp
    with assms(1) have "fst (generateScenarios gen parse p ob s u) = Inr (take 5 (map stringOf ys))"
      by (auto simp: generateScenarios_def Let_def)
    with v show "\<exists>xs. v = JArray (map JString xs)
                    \<and> fst (generateScenarios gen parse p ob s u) = Inr (take 5 xs)
                    \<and> length (take 5 xs) \<le> 5"
      by (intro exI [of _ "map stringOf ys"]) simp
  }
qed

theorem generateScenarios_parse_witness:
  "fst (generateScenarios sixFenced parseExamples ''a person'' [] [] None) =
     Inr [''a'', ''b'', ''c'', ''d'', ''e'']
   \<and> fst (generateScenarios objectAnswer parseExamples ''a person'' [] [] None) =
       Inl (ApiError ''The AI failed to generate creative ideas. Details: AI did not return a valid array of scenario strings.'' False)"
proof -
  let ?six = "JArray [JString ''a'', JString ''b'', JString ''c'', JString ''d'', JString ''e'',
                      JString ''f'']"
  let ?fenced = "''```json'' @ newline @ sixText @ newline @ ''```''"
  have h1: "\<not> (length (scenarioInputs ''a person'' [] []) = 0 \<and> \<not> hasUserPrompt None)"
    by (simp add: scenarioInputs_def)
  have g1: "sixFenced (scenarioPrompt (scenarioInputs ''a person'' [] []) None) =
              Inr \<lparr>candidateParts = None, responseText = Some ?fenced\<rparr>"
    by (simp add: sixFenced_def)
  have t1: "responseText \<lparr>candidateParts = None, responseText = Some ?fenced\<rparr> = Some ?fenced"
    by simp
  have s1: "stripFence (trim ?fenced) = sixText"
    by (simp add: sixText_def stripFence_def trim_def isWhiteSpace_def newline_def
        startsWith_def substring_def)
  have p1: "parseExamples (stripFence (trim ?fenced)) = Inr ?six"
    unfolding s1 by (simp add: parseExamples_def)
  have a1: "isScenarioArray ?six"
    by (simp add: isScenarioArray_def)
  from generateScenarios_parse
         [where gen = sixFenced and parse = parseExamples and p = "''a person''" and ob = "[]"
            and s = "[]" and u = None, OF h1 g1 t1 p1, THEN conjunct2, THEN mp, OF a1]
  obtain xs where "?six = JArray (map JString xs)
    \<and> fst (generateScenarios sixFenced parseExamples ''a person'' [] [] None) = Inr (take 5 xs)
    \<and> length (take 5 xs) \<le> 5" ..
  then have xs: "?six = JArray (map JString xs)"
    "fst (generateScenarios sixFenced parseExamples ''a person'' [] [] None) = Inr (take 5 xs)"
    by (rule conjunct1, rule conjunct2 [THEN conjunct1])
  from xs(1) have "xs = [''a'', ''b'', ''c'', ''d'', ''e'', ''f'']" by auto
  with xs(2) have w1: "fst (generateScenarios sixFenced parseExamples ''a person'' [] [] None) =
     Inr [''a'', ''b'', ''c'', ''d'', ''e'']"
    by simp
  have g2: "objectAnswer (scenarioPrompt (scenarioInputs ''a person'' [] []) None) =
              Inr \<lparr>candidateParts = None, responseText = Some objectText\<rparr>"
    by (simp add: objectAnswer_def)
  have t2: "responseText \<lparr>candidateParts = None, responseText = Some objectText\<rparr>
            = Some objectText"
    by simp
  have s2: "stripFence (trim objectText) = objectText"
    by (simp add: objectText_def stripFence_def trim_def isWhiteSpace_def startsWith_def)
  have p2: "parseExamples (stripFence (trim objectText)) = Inr (JObject [(''a'', JString ''b'')])"
    unfolding s2 by (simp add: parseExamples_def sixText_def objectText_def)
  have a2: "\<not> isScenarioArray (JObject [(''a'', JString ''b'')])"
    by (simp add: isScenarioArray_def)
  from generateScenarios_parse
         [where gen = objectAnswer and parse = parseExamples and p = "''a person''" and ob = "[]"
            and s = "[]" and u = None, OF h1 g2 t2 p2, THEN conjunct1, THEN mp, OF a2]
  have w2: "fst (generateScenarios objectAnswer parseExamples ''a person'' [] [] None) =
       Inl (ApiError (''The AI failed to generate creative ideas. Details: ''
                               @ ''AI did not return a valid array of scenario strings.'') False)" .
  from w1 w2 show ?thesis by simp
qed

section \<open>Video polling\<close>

lemma poll_done:
  "opDone operation \<Longrightarrow> pollVideoOperation getOp k operation log = Some (Inr operation, log)"
  by (subst pollVideoOperation.simps) simp

lemma poll_step:
  "\<not> opDone operation \<Longrightarrow> getOp k operation = Inr operation' \<Longrightarrow>
   pollVideoOperation getOp k operation log =
     pollVideoOperation getOp (k + 1) operation' (log @ [Sleep 10000, GetVideosOperation])"
  by (subst pollVideoOperation.simps) simp

lemma fetchesOf_poll_events:
  "fetchesOf (xs @ [Sleep 10000, GetVideosOperation]) = fetchesOf xs"
  by (induction xs rule: fetchesOf.induct) simp_all

lemma poll_fetches_snd:
  "pollVideoOperation getOp k operation log = Some y \<Longrightarrow> fetchesOf (snd y) = fetchesOf log"
proof (induction rule: pollVideoOperation.raw_induct [rotated 1, consumes 1, case_names step])
  case (step poll getOp k operation log y)
  show ?case
  proof (cases "opDone operation")
    case True
    with step(2) show ?thesis by auto
  next
    case False
    show ?thesis
    proof (cases "getOp k operation")
      case (Inl e)
      with False step(2) show ?thesis by (auto simp: fetchesOf_poll_events)
    next
      case (Inr operation')
      with False step(2)
      have "poll getOp (k + 1) operation' (log @ [Sleep 10000, GetVideosOperation]) = Some y"
        by simp
      from step(1) [OF this] show ?thesis by (simp add: fetchesOf_poll_events)
    qed
  qed
qed

lemma poll_fetches:
  "pollVideoOperation getOp k operation log = Some (r, log') \<Longrightarrow> fetchesOf log' = fetchesOf log"
  using poll_fetches_snd [of getOp k operation log "(r, log')"] by simp

lemma poll_returns_done:
  "pollVideoOperation getOp k operation log = Some y \<Longrightarrow>
   (case fst y of Inr operation' \<Rightarrow> opDone operation' | Inl e \<Rightarrow> True)"
proof (induction rule: pollVideoOperation.raw_induct [rotated 1, consumes 1, case_names step])
  case (step poll getOp k operation log y)
  show ?case
  proof (cases "opDone operation")
    case True
    with step(2) show ?thesis by auto
  next
    case False
    show ?thesis
    proof (cases "getOp k operation")
      case (Inl e)
      with False step(2) show ?thesis by auto
    next
      case (Inr operation')
      with False step(2)
      have "poll getOp (k + 1) operation' (log @ [Sleep 10000, GetVideosOperation]) = Some y"
        by simp
      from step(1) [OF this] show ?thesis .
    qed
  qed
qed

lemma not_quota_no_link:
  "\<not> quotaSignature ''Video generation completed, but no download link was provided.''"
  by (simp add: quotaSignature_def str_includes_def)

lemma downloadVideo_no_link:
  assumes "downloadLinkOf operation = None \<or> downloadLinkOf operation = Some []"
  shows "downloadVideo svc operation log =
           (Inl (Error ''Video generation completed, but no download link was provided.''), log)"
  using assms by (auto simp: downloadVideo_def)

lemma downloadVideo_link:
  assumes "downloadLinkOf operation = Some link" "link \<noteq> []"
  shows "fetchesOf (snd (downloadVideo svc operation log))
           = fetchesOf log @ [link @ ''&key='' @ API_KEY svc]
         \<and> (\<exists>res. downloadVideo svc operation log
                     = (res, log @ [Fetch (link @ ''&key='' @ API_KEY svc)])
                \<and> (\<forall>handle. res = Inr handle \<longleftrightarrow>
                      (\<exists>r b. fetch svc (link @ ''&key='' @ API_KEY svc) = Inr r \<and> ok r
                             \<and> blob r = Inr b \<and> handle = createObjectURL svc b)))"
proof -
  have app: "\<And>xs t. fetchesOf (xs @ [Fetch t]) = fetchesOf xs @ [t]"
  proof -
    fix xs t show "fetchesOf (xs @ [Fetch t]) = fetchesOf xs @ [t]"
      by (induction xs rule: fetchesOf.induct) simp_all
  qed
  show ?thesis
    using assms
    by (auto simp: downloadVideo_def Let_def app split: sum.splits)
qed

lemma poll_two_waits:
  assumes "\<not> opDone op0"
    and "getOp 1 op0 = Inr op1" "\<not> opDone op1"
    and "getOp 2 op1 = Inr op2" "opDone op2"
  shows "pollVideoOperation getOp 1 op0 log =
           Some (Inr op2, log @ [Sleep 10000, GetVideosOperation, Sleep 10000, GetVideosOperation])"
proof -
  have e1: "(1::nat) + 1 = 2" and e2: "(2::nat) + 1 = 3" by simp_all
  have "pollVideoOperation getOp 1 op0 log =
          pollVideoOperation getOp 2 op1 (log @ [Sleep 10000, GetVideosOperation])"
    using poll_step [where getOp = getOp and k = 1, OF assms(1,2), of log] unfolding e1 .
  also have "\<dots> = pollVideoOperation getOp 3 op2
                     ((log @ [Sleep 10000, GetVideosOperation]) @ [Sleep 10000, GetVideosOperation])"
    using poll_step [where getOp = getOp and k = 2, OF assms(3,4),
                     of "log @ [Sleep 10000, GetVideosOperation]"] unfolding e2 .
  also have "\<dots> = Some (Inr op2, (log @ [Sleep 10000, GetVideosOperation])
                                  @ [Sleep 10000, GetVideosOperation])"
    by (rule poll_done [OF assms(5)])
  finally show ?thesis by simp
qed

lemma video_sequence:
  assumes m: "matchVideoDataUrl dataUrl = Some (mime, payload)"
    and g: "generateVideos svc prompt payload mime = Inr op0" "\<not> opDone op0"
    and p1: "getVideosOperation svc 1 op0 = Inr op1" "\<not> opDone op1"
    and p2: "getVideosOperation svc 2 op1 = Inr op2" "opDone op2"
    and l: "downloadLinkOf op2 = Some link" "link \<noteq> []"
  shows "\<exists>res. generateStyledVideo svc dataUrl prompt =
                 Some (res, [GenerateVideos, Sleep 10000, GetVideosOperation, Sleep 10000,
                             GetVideosOperation, Fetch (link @ ''&key='' @ API_KEY svc)])
           \<and> (\<forall>handle. res = Inr handle \<longleftrightarrow>
                  (\<exists>r b. fetch svc (link @ ''&key='' @ API_KEY svc) = Inr r \<and> ok r
                         \<and> blob r = Inr b \<and> handle = createObjectURL svc b))"
proof -
  let ?log = "[GenerateVideos, Sleep 10000, GetVideosOperation, Sleep 10000, GetVideosOperation]"
  let ?target = "link @ ''&key='' @ API_KEY svc"
  have poll: "pollVideoOperation (getVideosOperation svc) 1 op0 [GenerateVideos] = Some (Inr op2, ?log)"
    using poll_two_waits [where getOp = "getVideosOperation svc", OF g(2) p1 p2, of "[GenerateVideos]"]
    by simp
  have tr: "generateStyledVideo_try svc mime payload prompt = Some (downloadVideo svc op2 ?log)"
    using poll by (simp add: generateStyledVideo_try_def g(1))
  from downloadVideo_link [OF l, of svc ?log]
  obtain res where res: "downloadVideo svc op2 ?log = (res, ?log @ [Fetch ?target])"
    and ok: "\<forall>handle. res = Inr handle \<longleftrightarrow>
                (\<exists>r b. fetch svc ?target = Inr r \<and> ok r \<and> blob r = Inr b
                       \<and> handle = createObjectURL svc b)"
    by blast
  show ?thesis
  proof (cases res)
    case (Inr handle)
    with m tr res have "generateStyledVideo svc dataUrl prompt = Some (Inr handle, ?log @ [Fetch ?target])"
      by (simp add: generateStyledVideo_def)
    with ok Inr show ?thesis by auto
  next
    case (Inl e)
    with m tr res have "\<exists>err. generateStyledVideo svc dataUrl prompt =
                               Some (Inl err, ?log @ [Fetch ?target])"
      by (cases "quotaSignature (rawMessage e)") (simp_all add: generateStyledVideo_def Let_def)
    with ok Inl show ?thesis by auto
  qed
qed

lemma video_no_link:
  assumes m: "matchVideoDataUrl dataUrl = Some (mime, payload)"
    and g: "generateVideos svc prompt payload mime = Inr op0"
    and p: "pollVideoOperation (getVideosOperation svc) 1 op0 [GenerateVideos] = Some (Inr opf, log)"
    and l: "downloadLinkOf opf = None \<or> downloadLinkOf opf = Some []"
  shows "generateStyledVideo svc dataUrl prompt =
           Some (Inl (ApiError (''The AI model failed to generate a video. Details: ''
                    @ ''Video generation completed, but no download link was provided.'') False), log)
         \<and> fetchesOf log = []"
proof -
  have "generateStyledVideo_try svc mime payload prompt =
          Some (Inl (Error ''Video generation completed, but no download link was provided.''), log)"
    using p by (simp add: generateStyledVideo_try_def g downloadVideo_no_link [OF l])
  with m not_quota_no_link
  have "generateStyledVideo svc dataUrl prompt =
           Some (Inl (ApiError (''The AI model failed to generate a video. Details: ''
                    @ ''Video generation completed, but no download link was provided.'') False), log)"
    by (simp add: generateStyledVideo_def)
  moreover from poll_fetches [OF p] have "fetchesOf log = []" by simp
  ultimately show ?thesis by simp
qed

lemma video_handle_after_fetch:
  assumes "generateStyledVideo svc dataUrl prompt = Some (Inr handle, log)"
  shows "\<exists>target r b. fetchesOf log = [target] \<and> fetch svc target = Inr r \<and> ok r
                      \<and> blob r = Inr b \<and> handle = createObjectURL svc b"
proof -
  from assms obtain mime payload where m: "matchVideoDataUrl dataUrl = Some (mime, payload)"
    by (auto simp: generateStyledVideo_def split: option.splits)
  with assms have tr: "generateStyledVideo_try svc mime payload prompt = Some (Inr handle, log)"
    by (auto simp: generateStyledVideo_def Let_def split: option.splits sum.splits if_splits)
  from tr obtain op0 where g: "generateVideos svc prompt payload mime = Inr op0"
    by (auto simp: generateStyledVideo_try_def split: sum.splits)
  with tr obtain opf log0 where
    p: "pollVideoOperation (getVideosOperation svc) 1 op0 [GenerateVideos] = Some (Inr opf, log0)"
    and d: "downloadVideo svc opf log0 = (Inr handle, log)"
    by (auto simp: generateStyledVideo_try_def split: option.splits sum.splits)
  from poll_fetches [OF p] have f0: "fetchesOf log0 = []" by simp
  from d obtain link where l: "downloadLinkOf opf = Some link" "link \<noteq> []"
    by (auto simp: downloadVideo_def split: option.splits if_splits)
  from downloadVideo_link [OF l, of svc log0] d f0
  show ?thesis by auto
qed

text \<open>
  Claim C8. When the video operation is not done as started, not done at the first poll
  and done with a download locator at the second poll, video generation waits 10000 ms
  twice, each wait followed by a poll, and only then fetches the locator with the key
  appended; what it returns is a handle exactly when that fetch succeeded, and the
  handle is the one made from the fetched content. When the operation ends done with no
  locator, video generation fails with the error saying that the generation completed
  without a download link, and no fetch was made. Whenever video generation returns a
  handle, exactly one fetch was made and it succeeded.
\<close>

theorem generateStyledVideo_polling:
  "(matchVideoDataUrl dataUrl = Some (mime, payload)
      \<and> generateVideos svc prompt payload mime = Inr op0 \<and> \<not> opDone op0
      \<and> getVideosOperation svc 1 op0 = Inr op1 \<and> \<not> opDone op1
      \<and> getVideosOperation svc 2 op1 = Inr op2 \<and> opDone op2
      \<and> downloadLinkOf op2 = Some link \<and> link \<noteq> []
    \<longrightarrow> (\<exists>res. generateStyledVideo svc dataUrl prompt =
                 Some (res, [GenerateVideos, Sleep 10000, GetVideosOperation, Sleep 10000,
                             GetVideosOperation, Fetch (link @ ''&key='' @ API_KEY svc)])
           \<and> (\<forall>handle. res = Inr handle \<longleftrightarrow>
                  (\<exists>r b. fetch svc (link @ ''&key='' @ API_KEY svc) = Inr r \<and> ok r
                         \<and> blob r = Inr b \<and> handle = createObjectURL svc b))))
   \<and> (matchVideoDataUrl dataUrl = Some (mime, payload)
      \<and> generateVideos svc prompt payload mime = Inr op0
      \<and> pollVideoOperation (getVideosOperation svc) 1 op0 [GenerateVideos] = Some (Inr opf, log)
      \<and> (downloadLinkOf opf = None \<or> downloadLinkOf opf = Some [])
    \<longrightarrow> generateStyledVideo svc dataUrl prompt =
           Some (Inl (ApiError (''The AI model failed to generate a video. Details: ''
                    @ ''Video generation completed, but no download link was provided.'') False), log)
         \<and> fetchesOf log = [])
   \<and> (generateStyledVideo svc dataUrl prompt = Some (Inr handle', log')
    \<longrightarrow> (\<exists>target r b. fetchesOf log' = [target] \<and> fetch svc target = Inr r \<and> ok r
                      \<and> blob r = Inr b \<and> handle' = createObjectURL svc b))"
proof (intro conjI impI)
  assume a: "matchVideoDataUrl dataUrl = Some (mime, payload)
      \<and> generateVideos svc prompt payload mime = Inr op0 \<and> \<not> opDone op0
      \<and> getVideosOperation svc 1 op0 = Inr op1 \<and> \<not> opDone op1
      \<and> getVideosOperation svc 2 op1 = Inr op2 \<and> opDone op2
      \<and> downloadLinkOf op2 = Some link \<and> link \<noteq> []"
  show "\<exists>res. generateStyledVideo svc dataUrl prompt =
                 Some (res, [GenerateVideos, Sleep 10000, GetVideosOperation, Sleep 10000,
                             GetVideosOperation, Fetch (link @ ''&key='' @ API_KEY svc)])
           \<and> (\<forall>handle. res = Inr handle \<longleftrightarrow>
                  (\<exists>r b. fetch svc (link @ ''&key='' @ API_KEY svc) = Inr r \<and> ok r
                         \<and> blob r = Inr b \<and> handle = createObjectURL svc b))"
    by (rule video_sequence [where mime = mime and payload = payload and ?op0.0 = op0
                               and ?op1.0 = op1 and ?op2.0 = op2])
       (use a in blast)+
next
  assume a: "matchVideoDataUrl dataUrl = Some (mime, payload)
      \<and> generateVideos svc prompt payload mime = Inr op0
      \<and> pollVideoOperation (getVideosOperation svc) 1 op0 [GenerateVideos] = Some (Inr opf, log)
      \<and> (downloadLinkOf opf = None \<or> downloadLinkOf opf = Some [])"
  have r: "generateStyledVideo svc dataUrl prompt =
           Some (Inl (ApiError (''The AI model failed to generate a video. Details: ''
                    @ ''Video generation completed, but no download link was provided.'') False), log)
         \<and> fetchesOf log = []"
    by (rule video_no_link [where mime = mime and payload = payload and ?op0.0 = op0
                              and opf = opf])
       (use a in blast)+
  from r show "generateStyledVideo svc dataUrl prompt =
           Some (Inl (ApiError (''The AI model failed to generate a video. Details: ''
                    @ ''Video generation completed, but no download link was provided.'') False), log)"
    by (rule conjunct1)
  from r show "fetchesOf log = []" by (rule conjunct2)
next
  assume "generateStyledVideo svc dataUrl prompt = Some (Inr handle', log')"
  then show "\<exists>target r b. fetchesOf log' = [target] \<and> fetch svc target = Inr r \<and> ok r
                      \<and> blob r = Inr b \<and> handle' = createObjectURL svc b"
    by (rule video_handle_after_fetch)
qed

lemma match_pngUrl: "matchVideoDataUrl pngUrl = Some (''image/png'', ''AAAA'')"
  by (simp add: matchVideoDataUrl_def pngUrl_def startsWith_def isWordChar_def
      isLineTerminator_def)

theorem generateStyledVideo_polling_witness:
  "generateStyledVideo pollingVideo pngUrl ''a smile'' =
     Some (Inr ''blob:mp4 bytes'',
           [GenerateVideos, Sleep 10000, GetVideosOperation, Sleep 10000, GetVideosOperation,
            Fetch ''https://videos.example/1?alt=media&key=key''])
   \<and> generateStyledVideo noLinkVideo pngUrl ''a smile'' =
       Some (Inl (ApiError ''The AI model failed to generate a video. Details: Video generation completed, but no download link was provided.'' False),
             [GenerateVideos])"
proof -
  note T = generateStyledVideo_polling
  have h: "matchVideoDataUrl pngUrl = Some (''image/png'', ''AAAA'')
      \<and> generateVideos pollingVideo ''a smile'' ''AAAA'' ''image/png'' = Inr pendingOperation
      \<and> \<not> opDone pendingOperation
      \<and> getVideosOperation pollingVideo 1 pendingOperation = Inr pendingOperation
      \<and> \<not> opDone pendingOperation
      \<and> getVideosOperation pollingVideo 2 pendingOperation = Inr finishedOperation
      \<and> opDone finishedOperation
      \<and> downloadLinkOf finishedOperation = Some ''https://videos.example/1?alt=media''
      \<and> ''https://videos.example/1?alt=media'' \<noteq> []"
    by (simp add: match_pngUrl pollingVideo_def pendingOperation_def finishedOperation_def
        downloadLinkOf_def)
  from T [where dataUrl = pngUrl and mime = "''image/png''" and payload = "''AAAA''"
            and svc = pollingVideo and prompt = "''a smile''" and ?op0.0 = pendingOperation
            and ?op1.0 = pendingOperation and ?op2.0 = finishedOperation
            and link = "''https://videos.example/1?alt=media''",
          THEN conjunct1, THEN mp, OF h]
  obtain res where res: "generateStyledVideo pollingVideo pngUrl ''a smile'' =
                 Some (res, [GenerateVideos, Sleep 10000, GetVideosOperation, Sleep 10000,
                             GetVideosOperation,
                             Fetch (''https://videos.example/1?alt=media'' @ ''&key='' @ API_KEY pollingVideo)])
           \<and> (\<forall>handle. res = Inr handle \<longleftrightarrow>
                  (\<exists>r b. fetch pollingVideo (''https://videos.example/1?alt=media'' @ ''&key='' @ API_KEY pollingVideo) = Inr r \<and> ok r
                         \<and> blob r = Inr b \<and> handle = createObjectURL pollingVideo b))" ..
  then have "res = Inr ''blob:mp4 bytes''"
    by (simp add: pollingVideo_def)
  with res have w1: "generateStyledVideo pollingVideo pngUrl ''a smile'' =
     Some (Inr ''blob:mp4 bytes'',
           [GenerateVideos, Sleep 10000, GetVideosOperation, Sleep 10000, GetVideosOperation,
            Fetch ''https://videos.example/1?alt=media&key=key''])"
    by (simp add: pollingVideo_def)
  have p: "pollVideoOperation (getVideosOperation noLinkVideo) 1 emptyOperation [GenerateVideos]
             = Some (Inr emptyOperation, [GenerateVideos])"
    by (rule poll_done) (simp add: emptyOperation_def)
  have h2: "matchVideoDataUrl pngUrl = Some (''image/png'', ''AAAA'')
      \<and> generateVideos noLinkVideo ''a smile'' ''AAAA'' ''image/png'' = Inr emptyOperation
      \<and> pollVideoOperation (getVideosOperation noLinkVideo) 1 emptyOperation [GenerateVideos]
           = Some (Inr emptyOperation, [GenerateVideos])
      \<and> (downloadLinkOf emptyOperation = None \<or> downloadLinkOf emptyOperation = Some [])"
    using p by (simp add: match_pngUrl noLinkVideo_def emptyOperation_def downloadLinkOf_def)
  from T [where dataUrl = pngUrl and mime = "''image/png''" and payload = "''AAAA''"
            and svc = noLinkVideo and prompt = "''a smile''" and ?op0.0 = emptyOperation
            and opf = emptyOperation and log = "[GenerateVideos]",
          THEN conjunct2, THEN conjunct1, THEN mp, OF h2]
  have w2: "generateStyledVideo noLinkVideo pngUrl ''a smile'' =
       Some (Inl (ApiError ''The AI model failed to generate a video. Details: Video generation completed, but no download link was provided.'' False),
             [GenerateVideos])"
    by simp
  from w1 w2 show ?thesis by (rule conjI)
qed

section \<open>Joins\<close>

lemma firstRejected_member:
  "firstRejected order outcomes = Some e \<Longrightarrow> Inl e \<in> set outcomes"
proof (induction order)
  case Nil
  then show ?case by simp
next
  case (Cons i order)
  then show ?case
    by (auto split: if_splits sum.splits) (metis nth_mem)
qed

lemma mapThrow_id_Inl:
  "mapThrow (\<lambda>outcome. outcome) outcomes = Inl e \<Longrightarrow> Inl e \<in> set outcomes"
  by (induction outcomes) (auto split: sum.splits)

lemma mapThrow_id_Inr:
  "mapThrow (\<lambda>outcome. outcome) outcomes = Inr vs \<Longrightarrow> outcomes = map Inr vs"
  by (induction outcomes arbitrary: vs) (auto split: sum.splits)

lemma mapThrow_id_rejects:
  "Inl e \<in> set outcomes \<Longrightarrow> \<exists>e'. mapThrow (\<lambda>outcome. outcome) outcomes = Inl e'"
  by (induction outcomes) (auto split: sum.splits)

lemma Promise_all_rejects:
  assumes "Inl e \<in> set outcomes"
  shows "\<exists>e'. Inl e' \<in> set outcomes \<and> Promise_all order outcomes = Inl e'"
proof (cases "firstRejected order outcomes")
  case None
  from mapThrow_id_rejects [OF assms] obtain e' where
    e': "mapThrow (\<lambda>outcome. outcome) outcomes = Inl e'" by blast
  with None mapThrow_id_Inl [OF e'] show ?thesis by (auto simp: Promise_all_def)
next
  case (Some e')
  with firstRejected_member [OF Some] show ?thesis by (auto simp: Promise_all_def)
qed

lemma Promise_all_fulfilled:
  "Promise_all order outcomes = Inr vs \<Longrightarrow> outcomes = map Inr vs"
  by (auto simp: Promise_all_def mapThrow_id_Inr split: option.splits)

lemma Promise_all_Inl_member:
  "Promise_all order outcomes = Inl e \<Longrightarrow> Inl e \<in> set outcomes"
  by (auto simp: Promise_all_def firstRejected_member mapThrow_id_Inl split: option.splits)

lemma Promise_allSettled_length:
  "length (Promise_allSettled outcomes) = length outcomes"
  by (simp add: Promise_allSettled_def)

section \<open>The full-session run\<close>

lemma setOptimisticImages_fields:
  "personImages (setOptimisticImages xs s) = personImages s"
  "productImages (setOptimisticImages xs s) = productImages s"
  "styleImages (setOptimisticImages xs s) = styleImages s"
  "mainPrompt (setOptimisticImages xs s) = mainPrompt s"
  "sessionScenarios (setOptimisticImages xs s) = sessionScenarios s"
  "appState (setOptimisticImages xs s) = appState s"
  "generatedImages (setOptimisticImages xs s) = generatedImages s"
  "optimisticImages (setOptimisticImages xs s) = xs"
  by (simp_all add: setOptimisticImages_def optimisticImages_def)

lemma analyzeImages_fst:
  "fst (analyzeImages env a b c s1) = fst (analyzeImages env a b c s2)"
  by (simp add: analyzeImages_def Let_def split: sum.splits)

lemma analyzeImages_rejects:
  assumes "Inl e \<in> set (analysisTasks env a b c)"
  shows "\<exists>e'. Inl e' \<in> set (analysisTasks env a b c) \<and> analyzeImages env a b c s = (Inl e', s)"
proof -
  from Promise_all_rejects [OF assms, of "analysisSettleOrder env"]
  obtain e' where "Inl e' \<in> set (analysisTasks env a b c)"
    and "Promise_all (analysisSettleOrder env) (analysisTasks env a b c) = Inl e'"
    by blast
  then show ?thesis by (auto simp: analyzeImages_def)
qed

lemma analyzeImages_cases:
  "(\<exists>e. analyzeImages env a b c s = (Inl e, s))
   \<or> (\<exists>pd od sd. analyzeImages env a b c s =
         (Inr (pd, od, sd),
          s\<lparr>personDescription := pd, objectDescription := od, styleDescription := sd\<rparr>))"
  by (simp add: analyzeImages_def Let_def split: sum.splits)

lemma generateMedia_onError:
  assumes "generator s = (Inl e, s')"
  shows "generateMedia generator onSuccess handleGenerateClick_onError s =
           s'\<lparr>generatedImages :=
                 replicate IMAGE_COUNT
                   (Some (errorImage (errorMessageOrString e) (isQuotaFlagged e))),
               appState := AppResultsShown,
               optimisticOverlay := None\<rparr>"
  using assms
  by (cases e)
     (simp_all add: generateMedia_def startTransition_def handleGenerateClick_onError_def Let_def)

lemma generator_analysis_failure:
  assumes "analyzeImages env (personImages click) (productImages click) (styleImages click) s
             = (Inl e, s)"
  shows "handleGenerateClick_generator env click s = (Inl e, s)"
  using assms by (simp add: handleGenerateClick_generator_def)

lemma generator_scenario_failure:
  assumes "fst (analyzeImages env (personImages click) (productImages click) (styleImages click) s)
             = Inr (pd, od, sd)"
    and "fst (generateScenarios (scenarioService env) (jsonParse env) pd od sd
                (Some (mainPrompt click))) = Inl e"
  shows "\<exists>s'. handleGenerateClick_generator env click s = (Inl e, s')"
proof -
  from analyzeImages_cases [of env "personImages click" "productImages click" "styleImages click" s]
    assms(1)
  obtain s' where "analyzeImages env (personImages click) (productImages click) (styleImages click) s
                     = (Inr (pd, od, sd), s')"
    by auto
  with assms(2) show ?thesis by (simp add: handleGenerateClick_generator_def)
qed

lemma generator_success:
  assumes "fst (analyzeImages env (personImages click) (productImages click) (styleImages click) s)
             = Inr (pd, od, sd)"
    and "fst (generateScenarios (scenarioService env) (jsonParse env) pd od sd
                (Some (mainPrompt click))) = Inr scs"
  shows "handleGenerateClick_generator env click s =
           (Inr (),
            s\<lparr>personDescription := pd, objectDescription := od, styleDescription := sd,
              sessionScenarios := scs,
              generatedImages :=
                map Some (map settledImage
                  (Promise_allSettled
                     (dispatchAll env scs (personImages click) (productImages click)
                        (styleImages click)))),
              appState := AppResultsShown\<rparr>)"
proof -
  from analyzeImages_cases [of env "personImages click" "productImages click" "styleImages click" s]
    assms(1)
  have "analyzeImages env (personImages click) (productImages click) (styleImages click) s
          = (Inr (pd, od, sd),
             s\<lparr>personDescription := pd, objectDescription := od, styleDescription := sd\<rparr>)"
    by auto
  with assms(2) show ?thesis by (simp add: handleGenerateClick_generator_def Let_def)
qed

text \<open>
  Claim C7. In a full-session run (the handler runs: at least one source image is
  present), when one of the three analysis requests fails, or when the analysis
  succeeds and scenario generation fails, the committed items are five copies of one
  error item that carries the message of the failure, and the session state is
  results-shown.
\<close>

theorem pre_dispatch_failure_is_global:
  "(\<not> (length (personImages st) = 0 \<and> length (productImages st) = 0
         \<and> length (styleImages st) = 0)
      \<and> (\<exists>e. Inl e \<in> set (analysisTasks env (personImages st) (productImages st) (styleImages st)))
    \<longrightarrow> (\<exists>e. Inl e \<in> set (analysisTasks env (personImages st) (productImages st) (styleImages st))
            \<and> generatedImages (handleGenerateClick env st) =
                replicate 5 (Some (errorImage (errorMessageOrString e) (isQuotaFlagged e)))
            \<and> appState (handleGenerateClick env st) = AppResultsShown))
   \<and> (\<not> (length (personImages st) = 0 \<and> length (productImages st) = 0
            \<and> length (styleImages st) = 0)
      \<and> fst (analyzeImages env (personImages st) (productImages st) (styleImages st) st)
           = Inr (pd, od, sd)
      \<and> fst (generateScenarios (scenarioService env) (jsonParse env) pd od sd
                (Some (mainPrompt st))) = Inl e'
    \<longrightarrow> generatedImages (handleGenerateClick env st) =
          replicate 5 (Some (errorImage (errorMessageOrString e') (isQuotaFlagged e')))
        \<and> appState (handleGenerateClick env st) = AppResultsShown)"
proof (intro conjI impI)
  let ?s0 = "setOptimisticImages (replicate IMAGE_COUNT (Some pendingImage))
               (st\<lparr>appState := AppGenerating\<rparr>)"
  assume a: "\<not> (length (personImages st) = 0 \<and> length (productImages st) = 0
         \<and> length (styleImages st) = 0)
      \<and> (\<exists>e. Inl e \<in> set (analysisTasks env (personImages st) (productImages st) (styleImages st)))"
  then obtain e0 where "Inl e0 \<in> set (analysisTasks env (personImages st) (productImages st) (styleImages st))"
    by blast
  from analyzeImages_rejects [OF this, of ?s0]
  obtain e where e: "Inl e \<in> set (analysisTasks env (personImages st) (productImages st) (styleImages st))"
    and run: "analyzeImages env (personImages st) (productImages st) (styleImages st) ?s0 = (Inl e, ?s0)"
    by blast
  from generator_analysis_failure [of env st ?s0 e] run
  have "handleGenerateClick_generator env st ?s0 = (Inl e, ?s0)" by simp
  from generateMedia_onError
         [where generator = "handleGenerateClick_generator env st" and s = ?s0, OF this,
          of "\<lambda>result s. s"] a
  have "handleGenerateClick env st =
          ?s0\<lparr>generatedImages :=
                 replicate IMAGE_COUNT
                   (Some (errorImage (errorMessageOrString e) (isQuotaFlagged e))),
               appState := AppResultsShown,
               optimisticOverlay := None\<rparr>"
    by (auto simp: handleGenerateClick_def)
  with e show "\<exists>e. Inl e \<in> set (analysisTasks env (personImages st) (productImages st) (styleImages st))
            \<and> generatedImages (handleGenerateClick env st) =
                replicate 5 (Some (errorImage (errorMessageOrString e) (isQuotaFlagged e)))
            \<and> appState (handleGenerateClick env st) = AppResultsShown"
    by (auto simp: IMAGE_COUNT_def)
next
  let ?s0 = "setOptimisticImages (replicate IMAGE_COUNT (Some pendingImage))
               (st\<lparr>appState := AppGenerating\<rparr>)"
  assume a: "\<not> (length (personImages st) = 0 \<and> length (productImages st) = 0
            \<and> length (styleImages st) = 0)
      \<and> fst (analyzeImages env (personImages st) (productImages st) (styleImages st) st)
           = Inr (pd, od, sd)
      \<and> fst (generateScenarios (scenarioService env) (jsonParse env) pd od sd
                (Some (mainPrompt st))) = Inl e'"
  then have "fst (analyzeImages env (personImages st) (productImages st) (styleImages st) ?s0)
           = Inr (pd, od, sd)"
    using analyzeImages_fst [of env "personImages st" "productImages st" "styleImages st" ?s0 st]
    by simp
  from generator_scenario_failure [OF this] a
  obtain s' where "handleGenerateClick_generator env st ?s0 = (Inl e', s')"
    by blast
  from generateMedia_onError
         [where generator = "handleGenerateClick_generator env st" and s = ?s0, OF this,
          of "\<lambda>result s. s"] a
  have r: "handleGenerateClick env st =
          s'\<lparr>generatedImages :=
                 replicate IMAGE_COUNT
                   (Some (errorImage (errorMessageOrString e') (isQuotaFlagged e'))),
               appState := AppResultsShown,
               optimisticOverlay := None\<rparr>"
    by (auto simp: handleGenerateClick_def)
  show "generatedImages (handleGenerateClick env st) =
          replicate 5 (Some (errorImage (errorMessageOrString e') (isQuotaFlagged e')))"
    by (simp add: r IMAGE_COUNT_def)
  show "appState (handleGenerateClick env st) = AppResultsShown"
    by (simp add: r)
qed

lemma readyState_images:
  "personImages readyState = [pngUrl]" "productImages readyState = []"
  "styleImages readyState = []" "mainPrompt readyState = []"
  by (simp_all add: readyState_def)

lemma analyzeImageContent_describing:
  "fst (analyzeImageContent describing [pngUrl] prompt) = Inr ''a person''"
  by (simp add: analyzeImageContent_def decode_pngUrl analyzeImageContent_try_def
      describing_def trim_def isWhiteSpace_def Let_def)

lemma analyzeImageContent_empty: "fst (analyzeImageContent gen [] prompt) = Inr []"
  by (simp add: analyzeImageContent_def)

lemma not_quota_403: "\<not> quotaSignature ''got status: 403 PERMISSION_DENIED''"
  by (simp add: quotaSignature_def str_includes_def)

lemma analyzeImageContent_refused:
  "fst (analyzeImageContent refusedText [pngUrl] prompt) =
     Inl (ApiError ''The AI model failed to analyze the image content. Details: got status: 403 PERMISSION_DENIED'' False)"
  using not_quota_403
  by (simp add: analyzeImageContent_def decode_pngUrl analyzeImageContent_try_def
      refusedText_def Let_def)

lemma analysisTasks_session:
  "analysisTasks (sessionEnv\<lparr>imageService := f\<rparr>) [pngUrl] [] [] = [Inr ''a person'', Inr [], Inr []]"
  "analysisTasks (sessionEnv\<lparr>scenarioService := g\<rparr>) [pngUrl] [] [] = [Inr ''a person'', Inr [], Inr []]"
  "analysisTasks sessionEnv [pngUrl] [] [] = [Inr ''a person'', Inr [], Inr []]"
  by (simp_all add: analysisTasks_def sessionEnv_def analyzeImageContent_describing
      analyzeImageContent_empty)

lemma analysisTasks_refused:
  "analysisTasks (sessionEnv\<lparr>analysisService := refusedText\<rparr>) [pngUrl] [] [] =
     [Inl (ApiError ''The AI model failed to analyze the image content. Details: got status: 403 PERMISSION_DENIED'' False),
      Inr [], Inr []]"
  by (simp add: analysisTasks_def analyzeImageContent_refused analyzeImageContent_empty)

lemma analyzeImages_described:
  assumes "analysisTasks env a b c = [Inr ''a person'', Inr [], Inr []]"
  shows "fst (analyzeImages env a b c s) = Inr (''a person'', [], [])"
proof -
  have "firstRejected order [Inr ''a person'', Inr [], Inr []] = None" for order
    by (induction order) (auto simp: nth_Cons split: nat.splits)
  then show ?thesis
    by (simp add: analyzeImages_def assms Promise_all_def Let_def)
qed

lemma generateScenarios_three:
  "fst (generateScenarios threeScenarios parseThree ''a person'' [] [] (Some [])) =
     Inr [''x'', ''y'', ''z'']"
proof -
  have "stripFence (trim threeText) = threeText"
    by (simp add: threeText_def stripFence_def trim_def isWhiteSpace_def startsWith_def)
  then show ?thesis
    by (simp add: generateScenarios_def scenarioInputs_def hasUserPrompt_def Let_def
        generateScenarios_try_def threeScenarios_def parseThree_def)
qed

lemma generateScenarios_refused:
  "fst (generateScenarios refusedText parseThree ''a person'' [] [] (Some [])) =
     Inl (ApiError ''The AI failed to generate creative ideas. Details: got status: 403 PERMISSION_DENIED'' False)"
  using not_quota_403
  by (simp add: generateScenarios_def scenarioInputs_def hasUserPrompt_def Let_def
      generateScenarios_try_def refusedText_def)

theorem pre_dispatch_failure_is_global_witness:
  "generatedImages (handleGenerateClick (sessionEnv\<lparr>analysisService := refusedText\<rparr>) readyState) =
     replicate 5 (Some (errorImage ''The AI model failed to analyze the image content. Details: got status: 403 PERMISSION_DENIED'' False))
   \<and> appState (handleGenerateClick (sessionEnv\<lparr>analysisService := refusedText\<rparr>) readyState)
       = AppResultsShown
   \<and> generatedImages (handleGenerateClick (sessionEnv\<lparr>scenarioService := refusedText\<rparr>) readyState) =
       replicate 5 (Some (errorImage ''The AI failed to generate creative ideas. Details: got status: 403 PERMISSION_DENIED'' False))
   \<and> appState (handleGenerateClick (sessionEnv\<lparr>scenarioService := refusedText\<rparr>) readyState)
       = AppResultsShown"
proof -
  note T = pre_dispatch_failure_is_global
  let ?envA = "sessionEnv\<lparr>analysisService := refusedText\<rparr>"
  let ?envS = "sessionEnv\<lparr>scenarioService := refusedText\<rparr>"
  let ?eA = "ApiError ''The AI model failed to analyze the image content. Details: got status: 403 PERMISSION_DENIED'' False"
  have n: "\<not> (length (personImages readyState) = 0 \<and> length (productImages readyState) = 0
         \<and> length (styleImages readyState) = 0)"
    by (simp add: readyState_images)
  have tasks: "analysisTasks ?envA (personImages readyState) (productImages readyState)
                 (styleImages readyState) = [Inl ?eA, Inr [], Inr []]"
    by (simp add: readyState_images analysisTasks_refused)
  then have hA: "\<exists>e. Inl e \<in> set (analysisTasks ?envA (personImages readyState)
                                     (productImages readyState) (styleImages readyState))"
    by simp
  from T [where env = ?envA and st = readyState, THEN conjunct1, THEN mp, OF conjI [OF n hA]]
  obtain e where e: "Inl e \<in> set (analysisTasks ?envA (personImages readyState)
                                     (productImages readyState) (styleImages readyState))
            \<and> generatedImages (handleGenerateClick ?envA readyState) =
                replicate 5 (Some (errorImage (errorMessageOrString e) (isQuotaFlagged e)))
            \<and> appState (handleGenerateClick ?envA readyState) = AppResultsShown" ..
  then have "e = ?eA" unfolding tasks by simp
  with e have w1: "generatedImages (handleGenerateClick ?envA readyState) =
     replicate 5 (Some (errorImage ''The AI model failed to analyze the image content. Details: got status: 403 PERMISSION_DENIED'' False))
   \<and> appState (handleGenerateClick ?envA readyState) = AppResultsShown"
    by simp
  have a: "fst (analyzeImages ?envS (personImages readyState) (productImages readyState)
                  (styleImages readyState) readyState) = Inr (''a person'', [], [])"
    by (rule analyzeImages_described) (simp add: readyState_images analysisTasks_session)
  have g: "fst (generateScenarios (scenarioService ?envS) (jsonParse ?envS) ''a person'' [] []
                  (Some (mainPrompt readyState))) =
             Inl (ApiError ''The AI failed to generate creative ideas. Details: got status: 403 PERMISSION_DENIED'' False)"
    by (simp add: readyState_images sessionEnv_def generateScenarios_refused)
  from T [where env = ?envS and st = readyState, THEN conjunct2, THEN mp,
          OF conjI [OF n conjI [OF a g]]]
  have w2: "generatedImages (handleGenerateClick ?envS readyState) =
       replicate 5 (Some (errorImage ''The AI failed to generate creative ideas. Details: got status: 403 PERMISSION_DENIED'' False))
   \<and> appState (handleGenerateClick ?envS readyState) = AppResultsShown"
    by simp
  from w1 w2 show ?thesis by simp
qed

lemma analyzeImages_imageService:
  "analyzeImages (env\<lparr>imageService := f\<rparr>) a b c s = analyzeImages env a b c s"
  by (simp add: analyzeImages_def analysisTasks_def)

lemma dispatchAll_nth:
  "i < length scs \<Longrightarrow>
   dispatchAll env scs a b c ! i = generateImageForIndex (imageService env i) i (scs ! i) a b c"
  by (simp add: dispatchAll_def nth_enumerate_eq)

lemma dispatchAll_length: "length (dispatchAll env scs a b c) = length scs"
  by (simp add: dispatchAll_def)

lemma settled_items:
  "map Some (map settledImage (Promise_allSettled outcomes)) =
     map (\<lambda>outcome. Some (case outcome of
                            Inr v \<Rightarrow> doneImage v
                          | Inl e \<Rightarrow> errorImage (reasonMessage e) (isQuotaFlagged e)))
         outcomes"
  by (induction outcomes) (simp_all add: Promise_allSettled_def settledImage_def split: sum.splits)

lemma handleGenerateClick_success:
  assumes n: "\<not> (length (personImages st) = 0 \<and> length (productImages st) = 0
                  \<and> length (styleImages st) = 0)"
    and a: "fst (analyzeImages env (personImages st) (productImages st) (styleImages st) st)
              = Inr (pd, od, sd)"
    and g: "fst (generateScenarios (scenarioService env) (jsonParse env) pd od sd
                   (Some (mainPrompt st))) = Inr scs"
  shows "handleGenerateClick env st =
           st\<lparr>optimisticOverlay := None,
              personDescription := pd, objectDescription := od, styleDescription := sd,
              sessionScenarios := scs,
              generatedImages :=
                map (\<lambda>outcome. Some (case outcome of
                                       Inr v \<Rightarrow> doneImage v
                                     | Inl e \<Rightarrow> errorImage (reasonMessage e) (isQuotaFlagged e)))
                    (dispatchAll env scs (personImages st) (productImages st) (styleImages st)),
              appState := AppResultsShown\<rparr>"
proof -
  let ?s0 = "setOptimisticImages (replicate IMAGE_COUNT (Some pendingImage))
               (st\<lparr>appState := AppGenerating\<rparr>)"
  have "fst (analyzeImages env (personImages st) (productImages st) (styleImages st) ?s0)
           = Inr (pd, od, sd)"
    using a analyzeImages_fst [of env "personImages st" "productImages st" "styleImages st" ?s0 st]
    by simp
  from generator_success [OF this g]
  have "handleGenerateClick_generator env st ?s0 =
           (Inr (),
            ?s0\<lparr>personDescription := pd, objectDescription := od, styleDescription := sd,
              sessionScenarios := scs,
              generatedImages :=
                map (\<lambda>outcome. Some (case outcome of
                                       Inr v \<Rightarrow> doneImage v
                                     | Inl e \<Rightarrow> errorImage (reasonMessage e) (isQuotaFlagged e)))
                    (dispatchAll env scs (personImages st) (productImages st) (styleImages st)),
              appState := AppResultsShown\<rparr>)"
    unfolding settled_items .
  with n show ?thesis
    by (auto simp: handleGenerateClick_def generateMedia_def startTransition_def
        setOptimisticImages_def)
qed

text \<open>
  Claim C1. In a full-session run whose analysis and scenario generation succeed, the
  committed items are, index by index, the outcomes of the image tasks: there is one
  item per scenario; item \<open>i\<close> is done with the image when task \<open>i\<close> succeeded and is an
  error with the task's message when task \<open>i\<close> failed, whatever the other tasks did; and
  replacing the image service of any other index leaves item \<open>i\<close> as it is. The session
  state is results-shown.
\<close>

theorem full_run_settles_every_task:
  "\<not> (length (personImages st) = 0 \<and> length (productImages st) = 0
       \<and> length (styleImages st) = 0)
   \<and> fst (analyzeImages env (personImages st) (productImages st) (styleImages st) st)
        = Inr (pd, od, sd)
   \<and> fst (generateScenarios (scenarioService env) (jsonParse env) pd od sd
             (Some (mainPrompt st))) = Inr scs
   \<longrightarrow>
     length (generatedImages (handleGenerateClick env st)) = length scs
     \<and> (\<forall>i<length scs.
           arrayGet (generatedImages (handleGenerateClick env st)) i =
             Some (case generateImageForIndex (imageService env i) i (scs ! i)
                          (personImages st) (productImages st) (styleImages st) of
                     Inr v \<Rightarrow> doneImage v
                   | Inl e \<Rightarrow> errorImage (reasonMessage e) (isQuotaFlagged e)))
     \<and> (\<forall>i j other. i < length scs \<and> j \<noteq> i \<longrightarrow>
           arrayGet (generatedImages
                       (handleGenerateClick (env\<lparr>imageService := (imageService env)(j := other)\<rparr>) st)) i
             = arrayGet (generatedImages (handleGenerateClick env st)) i)
     \<and> appState (handleGenerateClick env st) = AppResultsShown
     \<and> sessionScenarios (handleGenerateClick env st) = scs"
proof (intro impI)
  assume h: "\<not> (length (personImages st) = 0 \<and> length (productImages st) = 0
       \<and> length (styleImages st) = 0)
   \<and> fst (analyzeImages env (personImages st) (productImages st) (styleImages st) st)
        = Inr (pd, od, sd)
   \<and> fst (generateScenarios (scenarioService env) (jsonParse env) pd od sd
             (Some (mainPrompt st))) = Inr scs"
  then have n: "\<not> (length (personImages st) = 0 \<and> length (productImages st) = 0
       \<and> length (styleImages st) = 0)"
    and a: "fst (analyzeImages env (personImages st) (productImages st) (styleImages st) st)
        = Inr (pd, od, sd)"
    and g: "fst (generateScenarios (scenarioService env) (jsonParse env) pd od sd
             (Some (mainPrompt st))) = Inr scs"
    by blast+
  note run = handleGenerateClick_success [OF n a g]
  have item: "arrayGet (generatedImages (handleGenerateClick env' st)) i =
             Some (case generateImageForIndex (imageService env' i) i (scs ! i)
                          (personImages st) (productImages st) (styleImages st) of
                     Inr v \<Rightarrow> doneImage v
                   | Inl e \<Rightarrow> errorImage (reasonMessage e) (isQuotaFlagged e))"
    if "i < length scs"
      and "handleGenerateClick env' st =
           st\<lparr>optimisticOverlay := None,
              personDescription := pd, objectDescription := od, styleDescription := sd,
              sessionScenarios := scs,
              generatedImages :=
                map (\<lambda>outcome. Some (case outcome of
                                       Inr v \<Rightarrow> doneImage v
                                     | Inl e \<Rightarrow> errorImage (reasonMessage e) (isQuotaFlagged e)))
                    (dispatchAll env' scs (personImages st) (productImages st) (styleImages st)),
              appState := AppResultsShown\<rparr>"
    for env' i
    using that by (simp add: arrayGet_def dispatchAll_length dispatchAll_nth)
  have len: "length (generatedImages (handleGenerateClick env st)) = length scs"
    by (simp add: run dispatchAll_length)
  have items: "\<forall>i<length scs.
           arrayGet (generatedImages (handleGenerateClick env st)) i =
             Some (case generateImageForIndex (imageService env i) i (scs ! i)
                          (personImages st) (productImages st) (styleImages st) of
                     Inr v \<Rightarrow> doneImage v
                   | Inl e \<Rightarrow> errorImage (reasonMessage e) (isQuotaFlagged e))"
    using item [OF _ run] by blast
  have iso: "\<forall>i j other. i < length scs \<and> j \<noteq> i \<longrightarrow>
           arrayGet (generatedImages
                       (handleGenerateClick (env\<lparr>imageService := (imageService env)(j := other)\<rparr>) st)) i
             = arrayGet (generatedImages (handleGenerateClick env st)) i"
  proof (intro allI impI)
    fix i j other
    assume ij: "i < length scs \<and> j \<noteq> i"
    let ?env' = "env\<lparr>imageService := (imageService env)(j := other)\<rparr>"
    have a': "fst (analyzeImages ?env' (personImages st) (productImages st) (styleImages st) st)
        = Inr (pd, od, sd)"
      using a by (simp add: analyzeImages_imageService)
    have g': "fst (generateScenarios (scenarioService ?env') (jsonParse ?env') pd od sd
             (Some (mainPrompt st))) = Inr scs"
      using g by simp
    note run' = handleGenerateClick_success [OF n a' g']
    from ij have "imageService ?env' i = imageService env i" by simp
    with item [OF _ run', of i] item [OF _ run, of i] ij
    show "arrayGet (generatedImages (handleGenerateClick ?env' st)) i
             = arrayGet (generatedImages (handleGenerateClick env st)) i"
      by simp
  qed
  have app: "appState (handleGenerateClick env st) = AppResultsShown"
    by (simp add: run)
  have scs: "sessionScenarios (handleGenerateClick env st) = scs"
    by (simp add: run)
  from len items iso app scs
  show "length (generatedImages (handleGenerateClick env st)) = length scs
     \<and> (\<forall>i<length scs.
           arrayGet (generatedImages (handleGenerateClick env st)) i =
             Some (case generateImageForIndex (imageService env i) i (scs ! i)
                          (personImages st) (productImages st) (styleImages st) of
                     Inr v \<Rightarrow> doneImage v
                   | Inl e \<Rightarrow> errorImage (reasonMessage e) (isQuotaFlagged e)))
     \<and> (\<forall>i j other. i < length scs \<and> j \<noteq> i \<longrightarrow>
           arrayGet (generatedImages
                       (handleGenerateClick (env\<lparr>imageService := (imageService env)(j := other)\<rparr>) st)) i
             = arrayGet (generatedImages (handleGenerateClick env st)) i)
     \<and> appState (handleGenerateClick env st) = AppResultsShown
     \<and> sessionScenarios (handleGenerateClick env st) = scs"
    by (intro conjI)
qed

lemma middleFails_ok:
  "index \<noteq> Suc 0 \<Longrightarrow>
   generateImageForIndex (middleFails index) index scenario [pngUrl] [] [] = Inr pngUrl"
proof -
  assume "index \<noteq> Suc 0"
  then have run: "callGeminiWithRetry (middleFails index) ps tp =
                    (Inr imageAnswer, [GenerateContent ''gemini-2.5-flash-image''])" for ps tp
    by (simp add: loop_1 middleFails_def)
  have "processGeminiResponse imageAnswer = Inr pngUrl"
    by (simp add: processGeminiResponse_def imageAnswer_def pngPart_def pngUrl_def)
  then show ?thesis
    by (simp add: generateImageForIndex_def generateStyledImage_def decode_pngUrl
        generateStyledImage_try_def run Let_def)
qed

lemma middleFails_fails:
  "generateImageForIndex (middleFails (Suc 0)) (Suc 0) scenario [pngUrl] [] [] =
     Inl (Error ''The AI model failed to generate an image. Details: got status: 400 INVALID_ARGUMENT'')"
proof -
  have ni: "\<not> isInternalError (rawMessage (Error ''got status: 400 INVALID_ARGUMENT''))"
    by (simp add: isInternalError_def str_includes_def)
  have run: "callGeminiWithRetry (middleFails (Suc 0)) ps tp =
               (Inl (Error ''got status: 400 INVALID_ARGUMENT''),
                [GenerateContent ''gemini-2.5-flash-image''])" for ps tp
    by (rule retry_nontransient [OF _ ni]) (simp add: middleFails_def)
  have nq: "\<not> quotaSignature ''got status: 400 INVALID_ARGUMENT''"
    by (simp add: quotaSignature_def str_includes_def)
  then show ?thesis
    by (simp add: generateImageForIndex_def generateStyledImage_def decode_pngUrl
        generateStyledImage_try_def run Let_def)
qed

theorem full_run_settles_every_task_witness:
  "length (generatedImages (handleGenerateClick sessionEnv readyState)) = 3
   \<and> arrayGet (generatedImages (handleGenerateClick sessionEnv readyState)) 0
       = Some (doneImage pngUrl)
   \<and> arrayGet (generatedImages (handleGenerateClick sessionEnv readyState)) 1
       = Some (errorImage ''The AI model failed to generate an image. Details: got status: 400 INVALID_ARGUMENT'' False)
   \<and> arrayGet (generatedImages (handleGenerateClick sessionEnv readyState)) 2
       = Some (doneImage pngUrl)
   \<and> map (map_option status) (generatedImages (handleGenerateClick sessionEnv readyState))
       = [Some StatusDone, Some StatusError, Some StatusDone]
   \<and> appState (handleGenerateClick sessionEnv readyState) = AppResultsShown"
proof -
  let ?F = "handleGenerateClick sessionEnv readyState"
  have n: "\<not> (length (personImages readyState) = 0 \<and> length (productImages readyState) = 0
         \<and> length (styleImages readyState) = 0)"
    by (simp add: readyState_images)
  have a: "fst (analyzeImages sessionEnv (personImages readyState) (productImages readyState)
                  (styleImages readyState) readyState) = Inr (''a person'', [], [])"
    by (rule analyzeImages_described) (simp add: readyState_images analysisTasks_session)
  have g: "fst (generateScenarios (scenarioService sessionEnv) (jsonParse sessionEnv)
                  ''a person'' [] [] (Some (mainPrompt readyState))) = Inr [''x'', ''y'', ''z'']"
    by (simp add: readyState_images sessionEnv_def generateScenarios_three)
  note T = full_run_settles_every_task
             [where env = sessionEnv and st = readyState, THEN mp, OF conjI [OF n conjI [OF a g]]]
  have imgs: "imageService sessionEnv = middleFails"
    by (simp add: sessionEnv_def)
  from T have len: "length (generatedImages ?F) = 3" by simp
  from T have items: "\<forall>i<length [''x'', ''y'', ''z''].
           arrayGet (generatedImages ?F) i =
             Some (case generateImageForIndex (imageService sessionEnv i) i ([''x'', ''y'', ''z''] ! i)
                          (personImages readyState) (productImages readyState)
                          (styleImages readyState) of
                     Inr v \<Rightarrow> doneImage v
                   | Inl e \<Rightarrow> errorImage (reasonMessage e) (isQuotaFlagged e))"
    by (rule conjunct2 [THEN conjunct1])
  from T have app: "appState ?F = AppResultsShown" by simp
  from items have i0: "arrayGet (generatedImages ?F) 0 = Some (doneImage pngUrl)"
    by (simp add: imgs readyState_images middleFails_ok)
  from items have "arrayGet (generatedImages ?F) (Suc 0) =
      Some (errorImage ''The AI model failed to generate an image. Details: got status: 400 INVALID_ARGUMENT'' False)"
    by (simp add: imgs readyState_images middleFails_fails)
  then have i1: "arrayGet (generatedImages ?F) 1 =
      Some (errorImage ''The AI model failed to generate an image. Details: got status: 400 INVALID_ARGUMENT'' False)"
    by simp
  from items have "arrayGet (generatedImages ?F) (Suc (Suc 0)) = Some (doneImage pngUrl)"
    by (simp add: imgs readyState_images middleFails_ok)
  then have i2: "arrayGet (generatedImages ?F) 2 = Some (doneImage pngUrl)"
    by (simp add: numeral_2_eq_2)
  from len obtain x y z where xyz: "generatedImages ?F = [x, y, z]"
    by (auto simp: length_Suc_conv numeral_3_eq_3)
  with i0 i1 i2 have "x = Some (doneImage pngUrl)"
    "y = Some (errorImage ''The AI model failed to generate an image. Details: got status: 400 INVALID_ARGUMENT'' False)"
    "z = Some (doneImage pngUrl)"
    by (simp_all add: arrayGet_def)
  with xyz have st: "map (map_option status) (generatedImages ?F)
       = [Some StatusDone, Some StatusError, Some StatusDone]"
    by (simp add: doneImage_def errorImage_def)
  from len i0 i1 i2 st app show ?thesis by (intro conjI)
qed

section \<open>Single-item regeneration\<close>

lemma arrayGet_arraySet_same: "arrayGet (arraySet xs i v) i = Some v"
  by (simp add: arrayGet_def arraySet_def nth_append)

lemma arrayGet_arraySet_other: "j \<noteq> i \<Longrightarrow> arrayGet (arraySet xs i v) j = arrayGet xs j"
  by (auto simp: arrayGet_def arraySet_def nth_append)

lemma regenerate_settle:
  "\<exists>item. generateMedia (handleRegenerateImage_generator env click i) (\<lambda>result s. s)
             (handleRegenerateImage_onError i) prev
           = prev\<lparr>generatedImages := arraySet (generatedImages prev) i item,
                  optimisticOverlay := None\<rparr>
         \<and> (status item = StatusDone \<or> status item = StatusError)"
proof (cases "generateImageForIndex (imageService env i) i (sessionScenarios click ! i)
                (personImages click) (productImages click) (styleImages click)")
  case (Inr resultUrl)
  then have "generateMedia (handleRegenerateImage_generator env click i) (\<lambda>result s. s)
             (handleRegenerateImage_onError i) prev
           = prev\<lparr>generatedImages := arraySet (generatedImages prev) i (doneImage resultUrl),
                  optimisticOverlay := None\<rparr>"
    by (simp add: generateMedia_def startTransition_def handleRegenerateImage_generator_def)
  moreover have "status (doneImage resultUrl) = StatusDone" by (simp add: doneImage_def)
  ultimately show ?thesis by blast
next
  case (Inl e)
  then have "generateMedia (handleRegenerateImage_generator env click i) (\<lambda>result s. s)
             (handleRegenerateImage_onError i) prev
           = prev\<lparr>generatedImages := arraySet (generatedImages prev) i
                     (errorImage (errorMessageOrString e) (isQuotaFlagged e)),
                  optimisticOverlay := None\<rparr>"
    by (cases e)
       (simp_all add: generateMedia_def startTransition_def handleRegenerateImage_generator_def
          handleRegenerateImage_onError_def Let_def)
  moreover have "status (errorImage (errorMessageOrString e) (isQuotaFlagged e)) = StatusError"
    by (simp add: errorImage_def)
  ultimately show ?thesis by blast
qed

text \<open>
  Claim C9. Regenerating index \<open>i\<close>, when the scenario of index \<open>i\<close> is known, writes only
  item \<open>i\<close>. When the handler has dispatched the request, the displayed item \<open>i\<close> is
  pending, every other displayed item is as it was displayed before, and the committed
  items are untouched. When the handler has finished, the committed item \<open>i\<close> is done or
  error, every other committed item is what it was, the displayed items are the
  committed items again, and the scenarios and the session state are unchanged. The
  same frame holds when the outcome is committed to a state that other operations have
  changed in the meantime: the commit writes committed item \<open>i\<close> of that state and no
  other item.
\<close>

theorem regeneration_is_index_stable:
  "(scenarioKnown (sessionScenarios st) i \<longrightarrow>
      arrayGet (optimisticImages (handleRegenerateImage_dispatch st i)) i = Some pendingImage
      \<and> (\<forall>j. j \<noteq> i \<longrightarrow>
            arrayGet (optimisticImages (handleRegenerateImage_dispatch st i)) j
              = arrayGet (optimisticImages st) j)
      \<and> generatedImages (handleRegenerateImage_dispatch st i) = generatedImages st
      \<and> (\<forall>j. j \<noteq> i \<longrightarrow>
            arrayGet (generatedImages (handleRegenerateImage env st i)) j
              = arrayGet (generatedImages st) j)
      \<and> (\<exists>item. arrayGet (generatedImages (handleRegenerateImage env st i)) i = Some item
                 \<and> (status item = StatusDone \<or> status item = StatusError))
      \<and> optimisticImages (handleRegenerateImage env st i)
          = generatedImages (handleRegenerateImage env st i)
      \<and> sessionScenarios (handleRegenerateImage env st i) = sessionScenarios st
      \<and> appState (handleRegenerateImage env st i) = appState st)
   \<and> (\<forall>prev.
        (\<forall>j. j \<noteq> i \<longrightarrow>
           arrayGet (generatedImages
                       (generateMedia (handleRegenerateImage_generator env st i) (\<lambda>result s. s)
                          (handleRegenerateImage_onError i) prev)) j
             = arrayGet (generatedImages prev) j)
        \<and> (\<exists>item. arrayGet (generatedImages
                       (generateMedia (handleRegenerateImage_generator env st i) (\<lambda>result s. s)
                          (handleRegenerateImage_onError i) prev)) i = Some item
                   \<and> (status item = StatusDone \<or> status item = StatusError))
        \<and> sessionScenarios
              (generateMedia (handleRegenerateImage_generator env st i) (\<lambda>result s. s)
                 (handleRegenerateImage_onError i) prev) = sessionScenarios prev)"
proof (intro conjI impI allI)
  fix prev
  from regenerate_settle [of env st i prev]
  obtain item where run: "generateMedia (handleRegenerateImage_generator env st i) (\<lambda>result s. s)
             (handleRegenerateImage_onError i) prev
           = prev\<lparr>generatedImages := arraySet (generatedImages prev) i item,
                  optimisticOverlay := None\<rparr>"
    and fin: "status item = StatusDone \<or> status item = StatusError"
    by blast
  show "\<exists>item. arrayGet (generatedImages
                       (generateMedia (handleRegenerateImage_generator env st i) (\<lambda>result s. s)
                          (handleRegenerateImage_onError i) prev)) i = Some item
                   \<and> (status item = StatusDone \<or> status item = StatusError)"
    using fin by (auto simp: run arrayGet_arraySet_same)
  show "sessionScenarios
              (generateMedia (handleRegenerateImage_generator env st i) (\<lambda>result s. s)
                 (handleRegenerateImage_onError i) prev) = sessionScenarios prev"
    by (simp add: run)
  fix j
  assume "j \<noteq> i"
  then show "arrayGet (generatedImages
                       (generateMedia (handleRegenerateImage_generator env st i) (\<lambda>result s. s)
                          (handleRegenerateImage_onError i) prev)) j
             = arrayGet (generatedImages prev) j"
    by (simp add: run arrayGet_arraySet_other)
next
  assume k: "scenarioKnown (sessionScenarios st) i"
  have d: "handleRegenerateImage_dispatch st i =
             setOptimisticImages (arraySet (optimisticImages st) i pendingImage) st"
    by (simp add: handleRegenerateImage_dispatch_def Let_def)
  from regenerate_settle [of env st i "handleRegenerateImage_dispatch st i"]
  obtain item where "generateMedia (handleRegenerateImage_generator env st i) (\<lambda>result s. s)
             (handleRegenerateImage_onError i) (handleRegenerateImage_dispatch st i)
           = (handleRegenerateImage_dispatch st i)
               \<lparr>generatedImages :=
                  arraySet (generatedImages (handleRegenerateImage_dispatch st i)) i item,
                optimisticOverlay := None\<rparr>"
    and fin: "status item = StatusDone \<or> status item = StatusError"
    by blast
  with k have run: "handleRegenerateImage env st i =
      st\<lparr>generatedImages := arraySet (generatedImages st) i item, optimisticOverlay := None\<rparr>"
    by (simp add: handleRegenerateImage_def d setOptimisticImages_def)
  show "arrayGet (optimisticImages (handleRegenerateImage_dispatch st i)) i = Some pendingImage"
    by (simp add: d setOptimisticImages_fields arrayGet_arraySet_same)
  show "generatedImages (handleRegenerateImage_dispatch st i) = generatedImages st"
    by (simp add: d setOptimisticImages_fields)
  show "\<exists>item. arrayGet (generatedImages (handleRegenerateImage env st i)) i = Some item
                 \<and> (status item = StatusDone \<or> status item = StatusError)"
    using fin by (auto simp: run arrayGet_arraySet_same)
  show "optimisticImages (handleRegenerateImage env st i)
          = generatedImages (handleRegenerateImage env st i)"
    by (simp add: run optimisticImages_def)
  show "sessionScenarios (handleRegenerateImage env st i) = sessionScenarios st"
    by (simp add: run)
  show "appState (handleRegenerateImage env st i) = appState st"
    by (simp add: run)
  fix j
  assume ji: "j \<noteq> i"
  then show "arrayGet (generatedImages (handleRegenerateImage env st i)) j
           = arrayGet (generatedImages st) j"
    by (simp add: run arrayGet_arraySet_other)
  from ji show "arrayGet (optimisticImages (handleRegenerateImage_dispatch st i)) j
             = arrayGet (optimisticImages st) j"
    by (simp add: d setOptimisticImages_fields arrayGet_arraySet_other)
qed

theorem regeneration_is_index_stable_witness:
  "scenarioKnown (sessionScenarios shownState) 0
   \<and> arrayGet (optimisticImages (handleRegenerateImage_dispatch shownState 0)) 0
       = Some pendingImage
   \<and> arrayGet (optimisticImages (handleRegenerateImage_dispatch shownState 0)) 1
       = Some (doneImage ''blob:1'')
   \<and> arrayGet (optimisticImages (handleRegenerateImage_dispatch shownState 0)) 2
       = Some (doneImage ''blob:2'')
   \<and> generatedImages (handleRegenerateImage_dispatch shownState 0) = generatedImages shownState
   \<and> arrayGet (generatedImages (handleRegenerateImage sessionEnv shownState 0)) 1
       = Some (doneImage ''blob:1'')
   \<and> arrayGet (generatedImages (handleRegenerateImage sessionEnv shownState 0)) 2
       = Some (doneImage ''blob:2'')
   \<and> (\<exists>item. arrayGet (generatedImages (handleRegenerateImage sessionEnv shownState 0)) 0
                = Some item
              \<and> (status item = StatusDone \<or> status item = StatusError))
   \<and> optimisticImages (handleRegenerateImage sessionEnv shownState 0)
       = generatedImages (handleRegenerateImage sessionEnv shownState 0)"
proof -
  have k: "scenarioKnown (sessionScenarios shownState) 0"
    by (simp add: scenarioKnown_def shownState_def)
  note T = regeneration_is_index_stable
             [where env = sessionEnv and st = shownState and i = 0, THEN conjunct1, THEN mp, OF k]
  have shown: "optimisticImages shownState = generatedImages shownState"
    "generatedImages shownState =
       [Some (errorImage ''failed'' False), Some (doneImage ''blob:1''),
        Some (doneImage ''blob:2'')]"
    by (simp_all add: shownState_def readyState_def optimisticImages_def)
  from T have p: "arrayGet (optimisticImages (handleRegenerateImage_dispatch shownState 0)) 0
       = Some pendingImage"
    by (rule conjunct1)
  from T have dothers: "\<forall>j. j \<noteq> 0 \<longrightarrow>
            arrayGet (optimisticImages (handleRegenerateImage_dispatch shownState 0)) j
              = arrayGet (optimisticImages shownState) j"
    by (rule conjunct2 [THEN conjunct1])
  from T have dg: "generatedImages (handleRegenerateImage_dispatch shownState 0)
                     = generatedImages shownState"
    by (rule conjunct2 [THEN conjunct2, THEN conjunct1])
  from T have others: "\<forall>j. j \<noteq> 0 \<longrightarrow>
            arrayGet (generatedImages (handleRegenerateImage sessionEnv shownState 0)) j
              = arrayGet (generatedImages shownState) j"
    by (rule conjunct2 [THEN conjunct2, THEN conjunct2, THEN conjunct1])
  from T have t: "\<exists>item. arrayGet (generatedImages (handleRegenerateImage sessionEnv shownState 0)) 0
                = Some item
              \<and> (status item = StatusDone \<or> status item = StatusError)"
    by (rule conjunct2 [THEN conjunct2, THEN conjunct2, THEN conjunct2, THEN conjunct1])
  from T have rebased: "optimisticImages (handleRegenerateImage sessionEnv shownState 0)
       = generatedImages (handleRegenerateImage sessionEnv shownState 0)"
    by (rule conjunct2 [THEN conjunct2, THEN conjunct2, THEN conjunct2, THEN conjunct2,
                        THEN conjunct1])
  from dothers have d1: "arrayGet (optimisticImages (handleRegenerateImage_dispatch shownState 0)) 1
       = Some (doneImage ''blob:1'')"
    by (simp add: shown arrayGet_def)
  from dothers have d2: "arrayGet (optimisticImages (handleRegenerateImage_dispatch shownState 0)) 2
       = Some (doneImage ''blob:2'')"
    by (simp add: shown arrayGet_def)
  from others have i1: "arrayGet (generatedImages (handleRegenerateImage sessionEnv shownState 0)) 1
       = Some (doneImage ''blob:1'')"
    by (simp add: shown arrayGet_def)
  from others have i2: "arrayGet (generatedImages (handleRegenerateImage sessionEnv shownState 0)) 2
       = Some (doneImage ''blob:2'')"
    by (simp add: shown arrayGet_def)
  from k p d1 d2 dg i1 i2 t rebased show ?thesis by (intro conjI)
qed

end
